(* ===== verification/Prelude.thy ===== *)
theory Prelude
  imports Main
begin

text \<open>
  Shared vocabulary of the student-portal development: the uniform result object
  \<open>{ success, message?, data? }\<close> that every operation of \<open>src/src/context/AuthContext.js\<close>
  and \<open>src/src/services/api.js\<close> returns, the JavaScript array methods the sources use
  (\<open>find\<close>, \<open>some\<close>, \<open>findIndex\<close>, \<open>push\<close>) in terms of Main's lists, and the generic list
  lemmas the component theories share.  The collection \<open>js_simps\<close> gathers the equations
  that unfold the JavaScript idioms; component proofs use it with \<open>simp add: js_simps\<close>.
\<close>

named_theorems js_simps "equations unfolding the JavaScript array idioms"

section \<open>Result objects\<close>

text \<open>
  A JavaScript result object \<open>{ success: b, message: m, data: d }\<close> whose optional
  fields may be absent.  The authentication operations carry no data
  (\<open>unit response\<close>); the result lookups carry a result record.
\<close>

record 'a response =
  success :: bool
  message :: "string option"
  data :: "'a option"

definition failure :: "string \<Rightarrow> 'a response" where
  "failure m = \<lparr>success = False, message = Some m, data = None\<rparr>"

definition success_msg :: "string \<Rightarrow> 'a response" where
  "success_msg m = \<lparr>success = True, message = Some m, data = None\<rparr>"

definition success_plain :: "'a response" where
  "success_plain = \<lparr>success = True, message = None, data = None\<rparr>"

definition success_data :: "'a \<Rightarrow> 'a response" where
  "success_data d = \<lparr>success = True, message = None, data = Some d\<rparr>"

lemmas response_defs [js_simps] = failure_def success_msg_def success_plain_def success_data_def

section \<open>Array.prototype.findIndex\<close>

text \<open>
  \<open>findIndex\<close> returns the index of the first element satisfying the predicate, or
  \<open>-1\<close> when there is none; the model keeps the JavaScript number as an \<open>int\<close>.
\<close>

fun js_findIndex :: "('a \<Rightarrow> bool) \<Rightarrow> 'a list \<Rightarrow> int" where
  "js_findIndex p [] = -1"
| "js_findIndex p (x # xs) =
     (if p x then 0 else (let i = js_findIndex p xs in if i = -1 then -1 else i + 1))"

lemma js_findIndex_range: "js_findIndex p xs = -1 \<or> (0 \<le> js_findIndex p xs \<and> js_findIndex p xs < int (length xs))"
  by (induction xs) (auto simp: Let_def)

lemma js_findIndex_none [js_simps]: "js_findIndex p xs = -1 \<longleftrightarrow> \<not> list_ex p xs"
proof (induction xs)
  case Nil
  then show ?case by simp
next
  case (Cons x xs)
  from js_findIndex_range [of p xs] show ?case
    using Cons.IH by (auto simp: Let_def)
qed

lemma js_findIndex_Suc:
  "\<not> p x \<Longrightarrow> js_findIndex p xs = int i \<Longrightarrow> js_findIndex p (x # xs) = int (Suc i)"
  by (simp add: Let_def)

lemma js_findIndex_int:
  "js_findIndex p xs = int i \<Longrightarrow> i < length xs \<and> p (xs ! i) \<and> (\<forall>j < i. \<not> p (xs ! j))"
proof (induction xs arbitrary: i)
  case Nil
  then show ?case by simp
next
  case (Cons x xs)
  show ?case
  proof (cases "p x")
    case True
    with Cons.prems show ?thesis by simp
  next
    case False
    with Cons.prems have ne: "js_findIndex p xs \<noteq> -1" and
      eq: "int i = js_findIndex p xs + 1"
      by (auto simp: Let_def split: if_splits)
    from ne js_findIndex_range [of p xs] obtain k where k: "js_findIndex p xs = int k"
      by (metis nonneg_int_cases)
    with eq have i: "i = Suc k" by simp
    from Cons.IH [OF k] False show ?thesis
      by (auto simp: i less_Suc_eq_0_disj)
  qed
qed

lemma js_findIndex_found:
  assumes "js_findIndex p xs \<noteq> -1"
  obtains i where "js_findIndex p xs = int i" and "i < length xs" and "p (xs ! i)"
    and "\<forall>j < i. \<not> p (xs ! j)"
proof -
  from assms js_findIndex_range [of p xs] obtain i where i: "js_findIndex p xs = int i"
    by (metis nonneg_int_cases)
  with js_findIndex_int [OF i] that show ?thesis by blast
qed

section \<open>Keys of a list of objects\<close>

text \<open>
  The sources keep the accounts as a JSON array and look them up by a key field with a
  linear scan.  The lemmas below relate such scans to \<open>distinct\<close> keys.
\<close>

lemma find_distinct_key:
  assumes "distinct (map f xs)" and "x \<in> set xs" and "P x"
    and "\<forall>y \<in> set xs. P y \<longrightarrow> f y = k"
  shows "find P xs = Some x"
  using assms
proof (induction xs)
  case Nil
  then show ?case by simp
next
  case (Cons y ys)
  show ?case
  proof (cases "P y")
    case True
    from Cons.prems(2,3,4) True have "f y = k" and "f x = k" by auto
    with Cons.prems(1,2) have "y = x" by (auto simp: image_iff)
    with True show ?thesis by simp
  next
    case False
    with Cons.prems(2,3) have "x \<in> set ys" by auto
    with Cons.prems(1,3,4) False Cons.IH show ?thesis by simp
  qed
qed

lemma find_append [js_simps]:
  "find P (xs @ ys) = (case find P xs of None \<Rightarrow> find P ys | Some x \<Rightarrow> Some x)"
  by (induction xs) simp_all

lemma distinct_key_unique:
  assumes "distinct (map f xs)" and "y \<in> set xs" and "i < length xs" and "f y = f (xs ! i)"
  shows "y = xs ! i"
proof -
  from assms(2) obtain j where j: "j < length xs" "y = xs ! j" by (auto simp: in_set_conv_nth)
  with assms(1,3,4) nth_eq_iff_index_eq [of "map f xs" j i] have "j = i" by simp
  with j show ?thesis by simp
qed

lemma find_key_map_of:
  "find (\<lambda>x. f x = k) xs = map_of (map (\<lambda>x. (f x, x)) xs) k"
  by (induction xs) auto

lemma count_key_distinct:
  "distinct (map f xs) \<Longrightarrow> k \<in> f ` set xs \<Longrightarrow> length (filter (\<lambda>x. f x = k) xs) = 1"
  by (induction xs) (auto simp: filter_empty_conv image_iff)

lemma map_update_same_field [js_simps]:
  assumes "i < length xs" and "\<And>x. f (g x) = f x"
  shows "map f (xs[i := g (xs ! i)]) = map f xs"
proof -
  from assms have "f (g (xs ! i)) = map f xs ! i" by simp
  then show ?thesis by (simp add: map_update)
qed

end
