(* ===== verification/Token.thy ===== *)
theory Token
  imports Prelude
begin

text \<open>
  The session token of \<open>src/src/context/AuthContext.js\<close>: \<open>login\<close> (line 111) and
  \<open>loginWithGoogle\<close> (line 161) both mint
  \<^verbatim>\<open>btoa(`${foundUser.id}:${Date.now()}`)\<close>.
  This theory models the two browser conversions the expression relies on: the decimal
  text of a non-negative JavaScript number (\<open>string_of_nat\<close>, also used for
  \<open>Date.now().toString()\<close> and \<open>`GOOGLE-${users.length + 1}`\<close>) and Base64
  encoding (\<open>btoa\<close>, RFC 4648 with padding).  Characters are Isabelle's 8-bit
  \<open>char\<close>s, so \<open>btoa\<close>'s failure on code units above 255 cannot arise in the model.
  The inverse \<open>atob\<close> and \<open>parse_token\<close> are not in the sources; they state the
  spec's claim that the token is "reversible/inspectable": the round-trip theorems show
  that the account identifier and the instant can be read back from every token.
\<close>

section \<open>Decimal text of a number\<close>

definition digit_char :: "nat \<Rightarrow> char" where
  "digit_char d = char_of (48 + d)"

fun string_of_nat :: "nat \<Rightarrow> string" where
  "string_of_nat n = (if n < 10 then [digit_char n] else string_of_nat (n div 10) @ [digit_char (n mod 10)])"

declare string_of_nat.simps [simp del]

definition is_digit :: "char \<Rightarrow> bool" where
  "is_digit c \<longleftrightarrow> 48 \<le> (of_char c :: nat) \<and> (of_char c :: nat) \<le> 57"

definition digits_value :: "string \<Rightarrow> nat" where
  "digits_value s = foldl (\<lambda>acc c. 10 * acc + (of_char c - 48)) 0 s"

lemma of_char_digit_char: "d < 10 \<Longrightarrow> of_char (digit_char d) = (48 + d :: nat)"
  unfolding digit_char_def by (simp only: of_char_of) simp

lemma string_of_nat_digits: "\<forall>c \<in> set (string_of_nat n). is_digit c"
proof (induction n rule: string_of_nat.induct)
  case (1 n)
  then show ?case
    by (subst string_of_nat.simps) (auto simp: is_digit_def of_char_digit_char)
qed

lemma digits_value_snoc: "digits_value (s @ [c]) = 10 * digits_value s + (of_char c - 48)"
  by (simp add: digits_value_def)

lemma digits_value_string_of_nat: "digits_value (string_of_nat n) = n"
proof (induction n rule: string_of_nat.induct)
  case (1 n)
  show ?case
  proof (cases "n < 10")
    case True
    then show ?thesis
      by (subst string_of_nat.simps) (simp add: digits_value_def of_char_digit_char)
  next
    case False
    with "1.IH" have "digits_value (string_of_nat (n div 10)) = n div 10" by simp
    with False show ?thesis
      by (subst string_of_nat.simps) (simp add: digits_value_snoc of_char_digit_char)
  qed
qed

lemma string_of_nat_inj: "string_of_nat m = string_of_nat n \<longleftrightarrow> m = n"
  by (metis digits_value_string_of_nat)

lemma string_of_nat_nonempty: "string_of_nat n \<noteq> []"
  by (subst string_of_nat.simps) simp

section \<open>Base64\<close>

definition b64_char :: "nat \<Rightarrow> char" where
  "b64_char n =
     (if n < 26 then char_of (65 + n)
      else if n < 52 then char_of (71 + n)
      else if n < 62 then char_of (n - 4)
      else if n = 62 then CHR ''+'' else CHR ''/'')"

fun b64_encode :: "nat list \<Rightarrow> string" where
  "b64_encode [] = []"
| "b64_encode [a] = [b64_char (a div 4), b64_char ((a mod 4) * 16), CHR ''='', CHR ''='']"
| "b64_encode [a, b] =
     [b64_char (a div 4), b64_char ((a mod 4) * 16 + b div 16), b64_char ((b mod 16) * 4), CHR ''='']"
| "b64_encode (a # b # c # rest) =
     [b64_char (a div 4), b64_char ((a mod 4) * 16 + b div 16),
      b64_char ((b mod 16) * 4 + c div 64), b64_char (c mod 64)] @ b64_encode rest"

definition btoa :: "string \<Rightarrow> string" where
  "btoa s = b64_encode (map of_char s)"

definition b64_val :: "char \<Rightarrow> nat option" where
  "b64_val c =
     (let k = of_char c in
      if 65 \<le> k \<and> k \<le> 90 then Some (k - 65)
      else if 97 \<le> k \<and> k \<le> 122 then Some (k - 71)
      else if 48 \<le> k \<and> k \<le> 57 then Some (k + 4)
      else if k = 43 then Some 62
      else if k = 47 then Some 63 else None)"

fun b64_decode :: "string \<Rightarrow> nat list option" where
  "b64_decode [] = Some []"
| "b64_decode (c1 # c2 # c3 # c4 # rest) =
     (case (b64_val c1, b64_val c2) of
        (Some v1, Some v2) \<Rightarrow>
          if c3 = CHR ''='' \<and> c4 = CHR ''='' \<and> rest = [] then Some [v1 * 4 + v2 div 16]
          else if c4 = CHR ''='' \<and> rest = [] then
            (case b64_val c3 of
               Some v3 \<Rightarrow> Some [v1 * 4 + v2 div 16, (v2 mod 16) * 16 + v3 div 4]
             | None \<Rightarrow> None)
          else
            (case (b64_val c3, b64_val c4) of
               (Some v3, Some v4) \<Rightarrow>
                 map_option (\<lambda>bs. [v1 * 4 + v2 div 16, (v2 mod 16) * 16 + v3 div 4,
                                   (v3 mod 4) * 64 + v4] @ bs) (b64_decode rest)
             | _ \<Rightarrow> None)
      | _ \<Rightarrow> None)"
| "b64_decode _ = None"

lemma of_char_b64_char:
  "of_char (b64_char n) =
     (if n < 26 then 65 + n else if n < 52 then 71 + n else if n < 62 then n - 4
      else if n = 62 then 43 else (47 :: nat))"
  unfolding b64_char_def by (simp only: of_char_of split: if_splits) simp_all

lemma b64_val_char: "n < 64 \<Longrightarrow> b64_val (b64_char n) = Some n"
  unfolding b64_val_def Let_def of_char_b64_char by auto

lemma b64_val_pad: "b64_val (CHR ''='') = None"
  by (simp add: b64_val_def)

lemma b64_char_not_pad: "n < 64 \<Longrightarrow> b64_char n \<noteq> CHR ''=''"
  using b64_val_char [of n] b64_val_pad by auto

lemma mul_add_div: "y < k \<Longrightarrow> ((x::nat) * k + y) div k = x"
  by simp

lemma mul_add_mod: "y < k \<Longrightarrow> ((x::nat) * k + y) mod k = y"
  by simp

lemma b64_group_arith:
  fixes a b c :: nat
  assumes "a < 256" "b < 256" "c < 256"
  shows "a div 4 < 64" "a mod 4 * 16 + b div 16 < 64" "b mod 16 * 4 + c div 64 < 64"
    "c mod 64 < 64" "a mod 4 * 16 < 64" "b mod 16 * 4 < 64"
    "a div 4 * 4 + (a mod 4 * 16 + b div 16) div 16 = a"
    "(a mod 4 * 16 + b div 16) mod 16 * 16 + (b mod 16 * 4 + c div 64) div 4 = b"
    "(b mod 16 * 4 + c div 64) mod 4 * 64 + c mod 64 = c"
proof -
  from assms show "a div 4 < 64" "a mod 4 * 16 + b div 16 < 64" "b mod 16 * 4 + c div 64 < 64"
    "c mod 64 < 64" "a mod 4 * 16 < 64" "b mod 16 * 4 < 64"
    by linarith+
  have "b div 16 < 16" "c div 64 < 4" using assms by linarith+
  then show "a div 4 * 4 + (a mod 4 * 16 + b div 16) div 16 = a"
    "(a mod 4 * 16 + b div 16) mod 16 * 16 + (b mod 16 * 4 + c div 64) div 4 = b"
    "(b mod 16 * 4 + c div 64) mod 4 * 64 + c mod 64 = c"
    by (simp_all add: mul_add_div mul_add_mod)
qed

lemma b64_decode_encode: "\<forall>b \<in> set bs. b < 256 \<Longrightarrow> b64_decode (b64_encode bs) = Some bs"
proof (induction bs rule: b64_encode.induct)
  case 1
  then show ?case by simp
next
  case (2 a)
  then have "a < 256" by simp
  from b64_group_arith [OF this, of 0 0] show ?case
    by (simp add: b64_val_char b64_char_not_pad)
next
  case (3 a b)
  then have "a < 256" "b < 256" by simp_all
  from b64_group_arith [OF this, of 0] show ?case
    by (simp add: b64_val_char b64_char_not_pad)
next
  case (4 a b c rest)
  then have "a < 256" "b < 256" "c < 256" by simp_all
  from b64_group_arith [OF this] 4 show ?case
    by (simp add: b64_val_char b64_char_not_pad)
qed

lemma atob_char_bound: "\<forall>b \<in> set (map of_char s). b < (256::nat)"
  by simp

definition atob :: "string \<Rightarrow> string option" where
  "atob s = map_option (map char_of) (b64_decode s)"

lemma atob_btoa: "atob (btoa s) = Some s"
proof -
  have "b64_decode (btoa s) = Some (map of_char s)"
    unfolding btoa_def by (rule b64_decode_encode [OF atob_char_bound])
  then show ?thesis by (simp add: atob_def comp_def)
qed

lemma length_b64_encode: "length (b64_encode bs) = 4 * ((length bs + 2) div 3)"
proof (induction bs rule: b64_encode.induct)
  case (4 a b c rest)
  have "(5 + length rest) div 3 = Suc ((length rest + 2) div 3)" by arith
  with "4.IH" show ?case by simp
qed simp_all

lemma length_btoa: "length (btoa s) = 4 * ((length s + 2) div 3)"
  by (simp add: btoa_def length_b64_encode)

lemma btoa_nonempty: "s \<noteq> [] \<Longrightarrow> btoa s \<noteq> []"
proof -
  assume "s \<noteq> []"
  then have "0 < (length s + 2) div 3" by (cases s) simp_all
  then have "0 < length (btoa s)" by (simp add: length_btoa)
  then show ?thesis by auto
qed

section \<open>The session token\<close>

text \<open>\<^verbatim>\<open>const token = btoa(`${foundUser.id}:${Date.now()}`);\<close>\<close>

definition mint_token :: "string \<Rightarrow> nat \<Rightarrow> string" where
  "mint_token uid now = btoa (uid @ CHR '':'' # string_of_nat now)"

definition parse_token :: "string \<Rightarrow> (string \<times> nat) option" where
  "parse_token t =
     (case atob t of
        None \<Rightarrow> None
      | Some p \<Rightarrow>
          (let r = rev p in
           if CHR '':'' \<in> set r
           then Some (rev (tl (dropWhile (\<lambda>c. c \<noteq> CHR '':'') r)),
                      digits_value (rev (takeWhile (\<lambda>c. c \<noteq> CHR '':'') r)))
           else None))"

lemma digit_not_colon: "is_digit c \<Longrightarrow> c \<noteq> CHR '':''"
  by (auto simp: is_digit_def)

lemma mint_token_nonempty: "mint_token uid now \<noteq> []"
  by (simp add: mint_token_def btoa_nonempty)

lemma parse_token_payload:
  "(let r = rev (uid @ CHR '':'' # string_of_nat now) in
    if CHR '':'' \<in> set r
    then Some (rev (tl (dropWhile (\<lambda>c. c \<noteq> CHR '':'') r)),
               digits_value (rev (takeWhile (\<lambda>c. c \<noteq> CHR '':'') r)))
    else None) = Some (uid, now)"
proof -
  have nc: "\<And>c. c \<in> set (rev (string_of_nat now)) \<Longrightarrow> c \<noteq> CHR '':''"
    using string_of_nat_digits digit_not_colon by auto
  have r: "rev (uid @ CHR '':'' # string_of_nat now) = rev (string_of_nat now) @ CHR '':'' # rev uid"
    by simp
  have "dropWhile (\<lambda>c. c \<noteq> CHR '':'') (rev (string_of_nat now) @ CHR '':'' # rev uid) = CHR '':'' # rev uid"
    using nc by (subst dropWhile_append2) auto
  moreover have "takeWhile (\<lambda>c. c \<noteq> CHR '':'') (rev (string_of_nat now) @ CHR '':'' # rev uid) = rev (string_of_nat now)"
    using nc by (subst takeWhile_append2) auto
  ultimately show ?thesis
    unfolding r Let_def by (simp add: digits_value_string_of_nat)
qed

text \<open>
  C15: the token minted at login can be read back: decoding it yields exactly the
  account identifier and the instant it was built from, for every identifier.
\<close>

theorem token_roundtrip: "parse_token (mint_token uid now) = Some (uid, now)"
  using parse_token_payload [of uid now]
  by (simp add: parse_token_def mint_token_def atob_btoa)

text \<open>
  The token's length is that of the Base64 encoding of \<open>id:now\<close>: four characters
  per started group of three.
\<close>

lemma token_length:
  "length (mint_token uid now) = 4 * ((length uid + length (string_of_nat now) + 3) div 3)"
  by (simp add: mint_token_def length_btoa)

end
