(* ===== verification/Account.thy ===== *)
theory Account
  imports Token
begin

text \<open>
  The account object of \<open>src/src/context/AuthContext.js\<close> and the objects the handlers
  build from it: the default administrator that \<open>checkAuth\<close> seeds, the role rule keyed
  on the hard-coded \<open>ADMIN_EMAIL\<close>, the account \<open>signup\<close> assembles from the
  sign-up form of \<open>src/src/pages/Signup.js\<close>, and the account \<open>loginWithGoogle\<close>
  synthesises for an unknown e-mail.  Roles are the JavaScript strings the code compares
  (\<open>'admin'\<close>, \<open>'student'\<close>); a stored role can be any string, which is what makes
  tampering expressible.  The optional \<open>isGoogleUser\<close> field is \<open>False\<close> when absent.
\<close>

section \<open>Accounts\<close>

record account =
  acc_id :: string
  name :: string
  fatherName :: string
  class_name :: string
  email :: string
  password :: string
  rollNo :: string
  role :: string
  createdAt :: string
  isGoogleUser :: bool

definition ADMIN_EMAIL :: string where
  "ADMIN_EMAIL = ''admin@studentportal.com''"

text \<open>\<open>checkAuth\<close>, lines 26--36: the default administrator, stamped with the current ISO time.\<close>

definition default_admin :: "string \<Rightarrow> account" where
  "default_admin ts =
     \<lparr>acc_id = ''admin-default'', name = ''Admin User'', fatherName = ''System'',
      class_name = ''Administration'', email = ADMIN_EMAIL, password = ''admin123'',
      rollNo = ''ADMIN-001'', role = ''admin'', createdAt = ts, isGoogleUser = False\<rparr>"

text \<open>
  \<^verbatim>\<open>if (foundUser.email === ADMIN_EMAIL) { foundUser.role = 'admin'; }\<close>
  (lines 48--50, 106--108, 156--158): the role of the administrator e-mail is forced to
  \<open>'admin'\<close>; every other account keeps whatever role it carries.
\<close>

definition apply_admin_role :: "account \<Rightarrow> account" where
  "apply_admin_role u = (if email u = ADMIN_EMAIL then u\<lparr>role := ''admin''\<rparr> else u)"

text \<open>Lines 71--74 and 145: the role a new account receives.\<close>

definition role_for_email :: "string \<Rightarrow> string" where
  "role_for_email e = (if e = ADMIN_EMAIL then ''admin'' else ''student'')"

section \<open>Objects built by the handlers\<close>

text \<open>The sign-up form state of \<open>Signup.js\<close> (lines 6--14), passed to \<open>signup\<close> as \<open>userData\<close>.\<close>

record signup_form =
  form_name :: string
  form_fatherName :: string
  form_class :: string
  form_email :: string
  form_password :: string
  form_rollNo :: string
  form_role :: string

text \<open>
  \<open>signup\<close>, lines 70--82: \<open>{ id: Date.now().toString(), ...userData, role: userRole,
  createdAt }\<close>.  The spread copies the form fields; the form has no \<open>id\<close> or
  \<open>createdAt\<close>, and its \<open>role\<close> is overwritten by the derived one.
\<close>

definition signup_account :: "nat \<Rightarrow> string \<Rightarrow> signup_form \<Rightarrow> account" where
  "signup_account now ts f =
     \<lparr>acc_id = string_of_nat now, name = form_name f, fatherName = form_fatherName f,
      class_name = form_class f, email = form_email f, password = form_password f,
      rollNo = form_rollNo f, role = role_for_email (form_email f), createdAt = ts,
      isGoogleUser = False\<rparr>"

text \<open>The profile the pages pass to \<open>loginWithGoogle\<close> (\<open>Login.js\<close> lines 48--51).\<close>

record google_user =
  g_email :: string
  g_name :: string

text \<open>
  \<open>loginWithGoogle\<close>, lines 137--148: the account synthesised for an unknown e-mail, where
  \<open>n\<close> is \<open>users.length\<close> at the time of the call.
\<close>

definition google_account :: "nat \<Rightarrow> string \<Rightarrow> nat \<Rightarrow> google_user \<Rightarrow> account" where
  "google_account now ts n g =
     \<lparr>acc_id = ''google-'' @ string_of_nat now, name = g_name g, fatherName = ''Google User'',
      class_name = ''Not Specified'', email = g_email g, password = ''google-'' @ g_email g,
      rollNo = ''GOOGLE-'' @ string_of_nat (n + 1), role = role_for_email (g_email g),
      createdAt = ts, isGoogleUser = True\<rparr>"

section \<open>The role rule\<close>

text \<open>An account whose stored role is the one its e-mail determines.\<close>

definition role_consistent :: "account \<Rightarrow> bool" where
  "role_consistent u \<longleftrightarrow> role u = role_for_email (email u)"

named_theorems account_simps "field equations of the constructed accounts"

lemma default_admin_fields [account_simps]:
  "email (default_admin ts) = ADMIN_EMAIL" "role (default_admin ts) = ''admin''"
  "isGoogleUser (default_admin ts) = False" "password (default_admin ts) = ''admin123''"
  "acc_id (default_admin ts) = ''admin-default''"
  by (simp_all add: default_admin_def)

lemma signup_account_fields [account_simps]:
  "email (signup_account now ts f) = form_email f"
  "password (signup_account now ts f) = form_password f"
  "role (signup_account now ts f) = role_for_email (form_email f)"
  "isGoogleUser (signup_account now ts f) = False"
  "acc_id (signup_account now ts f) = string_of_nat now"
  by (simp_all add: signup_account_def)

lemma google_account_fields [account_simps]:
  "email (google_account now ts n g) = g_email g"
  "password (google_account now ts n g) = ''google-'' @ g_email g"
  "role (google_account now ts n g) = role_for_email (g_email g)"
  "isGoogleUser (google_account now ts n g) = True"
  "rollNo (google_account now ts n g) = ''GOOGLE-'' @ string_of_nat (n + 1)"
  by (simp_all add: google_account_def)

lemma role_consistent_built [account_simps]:
  "role_consistent (default_admin ts)" "role_consistent (signup_account now ts f)"
  "role_consistent (google_account now ts n g)"
  by (simp_all add: role_consistent_def role_for_email_def account_simps)

lemma apply_admin_role_fields [simp]:
  "email (apply_admin_role u) = email u" "acc_id (apply_admin_role u) = acc_id u"
  "password (apply_admin_role u) = password u" "rollNo (apply_admin_role u) = rollNo u"
  "isGoogleUser (apply_admin_role u) = isGoogleUser u"
  by (simp_all add: apply_admin_role_def)

lemma apply_admin_role_admin: "email u = ADMIN_EMAIL \<Longrightarrow> role (apply_admin_role u) = ''admin''"
  by (simp add: apply_admin_role_def)

lemma apply_admin_role_other: "email u \<noteq> ADMIN_EMAIL \<Longrightarrow> apply_admin_role u = u"
  by (simp add: apply_admin_role_def)

lemma apply_admin_role_idem [simp]: "apply_admin_role (apply_admin_role u) = apply_admin_role u"
  by (simp add: apply_admin_role_def)

lemma apply_admin_role_consistent: "role_consistent u \<Longrightarrow> apply_admin_role u = u"
  by (simp add: apply_admin_role_def role_consistent_def role_for_email_def)

lemma role_consistent_apply: "role_consistent u \<Longrightarrow> role_consistent (apply_admin_role u)"
  by (simp add: apply_admin_role_consistent)

end
