(* ===== verification/Storage.thy ===== *)
theory Storage
  imports Account
begin

text \<open>
  The browser's \<open>localStorage\<close> as \<open>AuthContext.js\<close> uses it: three keys, \<open>users\<close>
  (a JSON array of accounts), \<open>token\<close> (a string) and \<open>user\<close> (a JSON account).
  A key holds nothing (\<open>getItem\<close> returns \<open>null\<close>), text the code can use, or text on
  which \<open>JSON.parse\<close> or the following field access throws (\<open>Unparsable\<close>).  The empty
  string under \<open>users\<close> behaves as a missing key (\<open>'' || '[]'\<close>), and under \<open>user\<close>
  it is falsy, so the restore step skips it just as it abandons unparsable text; both are
  therefore folded into \<open>Missing\<close>/\<open>Unparsable\<close> without changing any outcome.
  Writes are total: the model has no storage quota.
\<close>

datatype 'a stored = Missing | Stored 'a | Unparsable

record local_storage =
  ls_users :: "account list stored"
  ls_token :: "string option"
  ls_user :: "account stored"

definition empty_storage :: local_storage where
  "empty_storage = \<lparr>ls_users = Missing, ls_token = None, ls_user = Missing\<rparr>"

text \<open>
  \<^verbatim>\<open>JSON.parse(localStorage.getItem('users') || '[]')\<close> (lines 19, 62, 97, 130, 177,
  198): \<open>None\<close> is the exception the parse throws.
\<close>

definition read_users :: "local_storage \<Rightarrow> account list option" where
  "read_users ls =
     (case ls_users ls of Missing \<Rightarrow> Some [] | Stored us \<Rightarrow> Some us | Unparsable \<Rightarrow> None)"

text \<open>\<^verbatim>\<open>localStorage.setItem('users', JSON.stringify(users))\<close> (lines 38, 86, 151, 187).\<close>

definition write_users :: "account list \<Rightarrow> local_storage \<Rightarrow> local_storage" where
  "write_users us ls = ls\<lparr>ls_users := Stored us\<rparr>"

text \<open>Lines 114--115 and 164--165: persist the token and the session snapshot.\<close>

definition save_session :: "string \<Rightarrow> account \<Rightarrow> local_storage \<Rightarrow> local_storage" where
  "save_session t u ls = ls\<lparr>ls_token := Some t, ls_user := Stored u\<rparr>"

text \<open>\<open>logout\<close>, lines 207--208: remove both session keys.\<close>

definition clear_session :: "local_storage \<Rightarrow> local_storage" where
  "clear_session ls = ls\<lparr>ls_token := None, ls_user := Missing\<rparr>"

text \<open>JavaScript truthiness of the value \<open>getItem('token')\<close> returns (line 45).\<close>

definition token_truthy :: "string option \<Rightarrow> bool" where
  "token_truthy t = (case t of None \<Rightarrow> False | Some s \<Rightarrow> s \<noteq> [])"

named_theorems storage_simps "read-after-write equations of the storage model"

lemma read_write_users [storage_simps]: "read_users (write_users us ls) = Some us"
  by (simp add: read_users_def write_users_def)

lemma session_keys_write_users [storage_simps]:
  "ls_token (write_users us ls) = ls_token ls" "ls_user (write_users us ls) = ls_user ls"
  by (simp_all add: write_users_def)

lemma save_session_fields [storage_simps]:
  "read_users (save_session t u ls) = read_users ls"
  "ls_token (save_session t u ls) = Some t" "ls_user (save_session t u ls) = Stored u"
  by (simp_all add: save_session_def read_users_def)

lemma clear_session_fields [storage_simps]:
  "read_users (clear_session ls) = read_users ls"
  "ls_token (clear_session ls) = None" "ls_user (clear_session ls) = Missing"
  by (simp_all add: clear_session_def read_users_def)

lemma read_empty_storage [storage_simps]: "read_users empty_storage = Some []"
  by (simp add: read_users_def empty_storage_def)

end
