(* ===== verification/Auth.thy ===== *)
theory Auth
  imports Storage
begin

text \<open>
  The \<open>AuthProvider\<close> of \<open>src/src/context/AuthContext.js\<close>: its React state
  (\<open>user\<close>, \<open>loading\<close>) together with the \<open>localStorage\<close> it reads and writes, and
  one definition per handler (\<open>checkAuth\<close>, \<open>signup\<close>, \<open>login\<close>,
  \<open>loginWithGoogle\<close>, \<open>changePassword\<close>, \<open>getAllUsers\<close>, \<open>logout\<close>).  Each handler
  takes the state and returns its result object with the new state; the \<open>try\<close> /
  \<open>catch\<close> of the source is the \<open>None\<close> branch of \<open>read_users\<close>.  \<open>Date.now()\<close> and
  \<open>new Date().toISOString()\<close> are inputs (\<open>now\<close>, \<open>ts\<close>), read once per handler.
  The handlers are \<open>async\<close> but contain no \<open>await\<close>, so each runs to completion in one
  turn and they are modelled as sequential steps.
\<close>

section \<open>Provider state\<close>

record auth_state =
  storage :: local_storage
  user :: "account option"
  loading :: bool

text \<open>Lines 9--10: \<open>useState(null)\<close>, \<open>useState(true)\<close>, over whatever the browser stores.\<close>

definition init_auth :: "local_storage \<Rightarrow> auth_state" where
  "init_auth ls = \<lparr>storage = ls, user = None, loading = True\<rparr>"

text \<open>Line 222: \<open>isAuthenticated: !!user\<close>.\<close>

definition is_authenticated :: "auth_state \<Rightarrow> bool" where
  "is_authenticated s \<longleftrightarrow> user s \<noteq> None"

section \<open>Handlers\<close>

text \<open>
  \<open>checkAuth\<close>, lines 19--40: the administrator seed.  Given the parsed array, write it
  back with the default administrator appended when no account has \<open>ADMIN_EMAIL\<close>.
\<close>

definition seed_admin :: "string \<Rightarrow> account list \<Rightarrow> local_storage \<Rightarrow> local_storage" where
  "seed_admin ts us ls =
     (if list_ex (\<lambda>u. email u = ADMIN_EMAIL) us then ls
      else write_users (us @ [default_admin ts]) ls)"

text \<open>
  \<open>checkAuth\<close>, lines 42--56: restore the session from the stored token and snapshot,
  trusting their presence only, and clear \<open>loading\<close> (\<open>finally\<close>).  An unparsable
  snapshot throws at line 46; the \<open>catch\<close> leaves \<open>user\<close> as it was.
\<close>

definition restore_session :: "local_storage \<Rightarrow> auth_state \<Rightarrow> auth_state" where
  "restore_session ls s =
     (if token_truthy (ls_token ls) \<and> ls_user ls \<noteq> Missing
      then (case ls_user ls of
              Stored u \<Rightarrow> s\<lparr>storage := ls, user := Some (apply_admin_role u), loading := False\<rparr>
            | _ \<Rightarrow> s\<lparr>storage := ls, loading := False\<rparr>)
      else s\<lparr>storage := ls, loading := False\<rparr>)"

text \<open>
  \<open>checkAuth\<close>, lines 16--58: a throw while parsing \<open>users\<close> (line 19) abandons both
  the seed and the restore.
\<close>

definition check_auth :: "string \<Rightarrow> auth_state \<Rightarrow> auth_state" where
  "check_auth ts s =
     (case read_users (storage s) of
        None \<Rightarrow> s\<lparr>loading := False\<rparr>
      | Some us \<Rightarrow> restore_session (seed_admin ts us (storage s)) s)"

text \<open>\<open>signup\<close>, lines 60--93.\<close>

definition signup :: "nat \<Rightarrow> string \<Rightarrow> signup_form \<Rightarrow> auth_state \<Rightarrow> unit response \<times> auth_state" where
  "signup now ts f s =
     (case read_users (storage s) of
        None \<Rightarrow> (failure ''Error creating account'', s)
      | Some us \<Rightarrow>
          if list_ex (\<lambda>u. email u = form_email f) us
          then (failure ''Email already registered!'', s)
          else (success_msg ''Account created successfully!'',
                s\<lparr>storage := write_users (us @ [signup_account now ts f]) (storage s)\<rparr>))"

text \<open>
  \<open>login\<close>, lines 95--126.  The role is patched on the parsed copy only; the stored
  \<open>users\<close> array is not written back.
\<close>

definition login :: "nat \<Rightarrow> string \<Rightarrow> string \<Rightarrow> auth_state \<Rightarrow> unit response \<times> auth_state" where
  "login now e pw s =
     (case read_users (storage s) of
        None \<Rightarrow> (failure ''Error logging in'', s)
      | Some us \<Rightarrow>
          (case find (\<lambda>u. email u = e \<and> password u = pw) us of
             Some u \<Rightarrow>
               (let u' = apply_admin_role u
                in (success_plain,
                    s\<lparr>storage := save_session (mint_token (acc_id u') now) u' (storage s),
                      user := Some u'\<rparr>))
           | None \<Rightarrow> (failure ''Invalid email or password'', s)))"

text \<open>\<open>loginWithGoogle\<close>, lines 128--173: fetch the account by e-mail, or register one.\<close>

definition login_with_google ::
  "nat \<Rightarrow> string \<Rightarrow> google_user \<Rightarrow> auth_state \<Rightarrow> unit response \<times> auth_state" where
  "login_with_google now ts g s =
     (case read_users (storage s) of
        None \<Rightarrow> (failure ''Error logging in with Google'', s)
      | Some us \<Rightarrow>
          (let (u, ls) =
             (case find (\<lambda>u. email u = g_email g) us of
                Some u \<Rightarrow> (u, storage s)
              | None \<Rightarrow>
                  (let nu = google_account now ts (length us) g
                   in (nu, write_users (us @ [nu]) (storage s))));
               u' = apply_admin_role u
           in (success_plain,
               s\<lparr>storage := save_session (mint_token (acc_id u') now) u' ls, user := Some u'\<rparr>)))"

text \<open>\<open>changePassword\<close>, lines 175--194: no check of who asks.\<close>

definition change_password :: "string \<Rightarrow> string \<Rightarrow> auth_state \<Rightarrow> unit response \<times> auth_state" where
  "change_password target pw s =
     (case read_users (storage s) of
        None \<Rightarrow> (failure ''Error changing password'', s)
      | Some us \<Rightarrow>
          (let i = js_findIndex (\<lambda>u. email u = target) us
           in if i = -1 then (failure ''User not found'', s)
              else (success_msg ''Password changed successfully!'',
                    s\<lparr>storage := write_users (us[nat i := (us ! nat i)\<lparr>password := pw\<rparr>])
                                              (storage s)\<rparr>)))"

text \<open>\<open>getAllUsers\<close>, lines 196--204.\<close>

definition get_all_users :: "auth_state \<Rightarrow> account list" where
  "get_all_users s = (case read_users (storage s) of None \<Rightarrow> [] | Some us \<Rightarrow> us)"

text \<open>\<open>logout\<close>, lines 206--210.\<close>

definition logout :: "auth_state \<Rightarrow> auth_state" where
  "logout s = s\<lparr>storage := clear_session (storage s), user := None\<rparr>"

lemmas handler_defs = seed_admin_def restore_session_def check_auth_def signup_def login_def login_with_google_def
  change_password_def get_all_users_def logout_def

section \<open>Behaviour of each handler, branch by branch\<close>

lemma list_ex_email [js_simps]: "list_ex (\<lambda>u. email u = e) us \<longleftrightarrow> e \<in> email ` set us"
  by (auto simp: list_ex_iff)

lemma find_email_None [js_simps]: "find (\<lambda>u. email u = e) us = None \<longleftrightarrow> e \<notin> email ` set us"
  by (auto simp: find_None_iff)

lemma find_email_Some: "find (\<lambda>u. email u = e) us = Some u \<Longrightarrow> u \<in> set us \<and> email u = e"
  by (auto simp: find_Some_iff)

lemma find_login_Some:
  "find (\<lambda>u. email u = e \<and> password u = pw) us = Some u \<Longrightarrow> u \<in> set us \<and> email u = e \<and> password u = pw"
  by (auto simp: find_Some_iff)

lemma signup_read_error: "read_users (storage s) = None \<Longrightarrow> signup now ts f s = (failure ''Error creating account'', s)"
  by (simp add: signup_def)

lemma signup_taken:
  "read_users (storage s) = Some us \<Longrightarrow> form_email f \<in> email ` set us \<Longrightarrow>
   signup now ts f s = (failure ''Email already registered!'', s)"
  by (simp add: signup_def js_simps)

lemma signup_fresh:
  "read_users (storage s) = Some us \<Longrightarrow> form_email f \<notin> email ` set us \<Longrightarrow>
   signup now ts f s = (success_msg ''Account created successfully!'',
                        s\<lparr>storage := write_users (us @ [signup_account now ts f]) (storage s)\<rparr>)"
  by (simp add: signup_def js_simps)

lemma login_read_error: "read_users (storage s) = None \<Longrightarrow> login now e pw s = (failure ''Error logging in'', s)"
  by (simp add: login_def)

lemma login_match:
  "read_users (storage s) = Some us \<Longrightarrow> find (\<lambda>u. email u = e \<and> password u = pw) us = Some u \<Longrightarrow>
   login now e pw s =
     (success_plain,
      s\<lparr>storage := save_session (mint_token (acc_id u) now) (apply_admin_role u) (storage s),
        user := Some (apply_admin_role u)\<rparr>)"
  by (simp add: login_def Let_def)

lemma login_no_match:
  "read_users (storage s) = Some us \<Longrightarrow> find (\<lambda>u. email u = e \<and> password u = pw) us = None \<Longrightarrow>
   login now e pw s = (failure ''Invalid email or password'', s)"
  by (simp add: login_def)

lemma login_with_google_read_error:
  "read_users (storage s) = None \<Longrightarrow> login_with_google now ts g s = (failure ''Error logging in with Google'', s)"
  by (simp add: login_with_google_def)

lemma login_with_google_existing:
  "read_users (storage s) = Some us \<Longrightarrow> find (\<lambda>u. email u = g_email g) us = Some u \<Longrightarrow>
   login_with_google now ts g s =
     (success_plain,
      s\<lparr>storage := save_session (mint_token (acc_id u) now) (apply_admin_role u) (storage s),
        user := Some (apply_admin_role u)\<rparr>)"
  by (simp add: login_with_google_def Let_def)

lemma login_with_google_new:
  "read_users (storage s) = Some us \<Longrightarrow> g_email g \<notin> email ` set us \<Longrightarrow>
   login_with_google now ts g s =
     (let nu = google_account now ts (length us) g
      in (success_plain,
          s\<lparr>storage := save_session (mint_token (acc_id nu) now) (apply_admin_role nu)
                          (write_users (us @ [nu]) (storage s)),
            user := Some (apply_admin_role nu)\<rparr>))"
proof -
  assume "read_users (storage s) = Some us" and "g_email g \<notin> email ` set us"
  moreover from this(2) have "find (\<lambda>u. email u = g_email g) us = None"
    by (simp add: js_simps)
  ultimately show ?thesis by (simp add: login_with_google_def Let_def)
qed

lemma change_password_read_error:
  "read_users (storage s) = None \<Longrightarrow> change_password target pw s = (failure ''Error changing password'', s)"
  by (simp add: change_password_def)

lemma change_password_at:
  "read_users (storage s) = Some us \<Longrightarrow> js_findIndex (\<lambda>u. email u = target) us = int i \<Longrightarrow>
   change_password target pw s =
     (success_msg ''Password changed successfully!'',
      s\<lparr>storage := write_users (us[i := (us ! i)\<lparr>password := pw\<rparr>]) (storage s)\<rparr>)"
  by (simp add: change_password_def)

text \<open>Under distinct e-mails the index \<open>findIndex\<close> returns is that of the one account.\<close>

lemma js_findIndex_email_distinct:
  assumes "distinct (map email us)" and "i < length us" and "email (us ! i) = target"
  shows "js_findIndex (\<lambda>u. email u = target) us = int i"
proof -
  from assms(2,3) have "list_ex (\<lambda>u. email u = target) us"
    unfolding list_ex_iff using nth_mem by blast
  then have "js_findIndex (\<lambda>u. email u = target) us \<noteq> -1"
    by (simp add: js_simps)
  then obtain k where k: "js_findIndex (\<lambda>u. email u = target) us = int k"
    and "k < length us" and "email (us ! k) = target"
    by (rule js_findIndex_found)
  with assms nth_eq_iff_index_eq [of "map email us" k i] have "k = i"
    by simp
  with k show ?thesis by simp
qed

lemma logout_fields [simp]:
  "user (logout s) = None" "ls_token (storage (logout s)) = None"
  "ls_user (storage (logout s)) = Missing" "read_users (storage (logout s)) = read_users (storage s)"
  by (simp_all add: logout_def storage_simps)

lemma seed_admin_present:
  "email ` set us' = insert ADMIN_EMAIL (email ` set us) \<Longrightarrow> ADMIN_EMAIL \<in> email ` set us'"
  by simp

lemma read_seed_admin:
  "read_users ls = Some us \<Longrightarrow>
   read_users (seed_admin ts us ls) =
     Some (if ADMIN_EMAIL \<in> email ` set us then us else us @ [default_admin ts])"
  by (simp add: seed_admin_def storage_simps js_simps)

lemma storage_check_auth:
  "read_users (storage s) = Some us \<Longrightarrow> storage (check_auth ts s) = seed_admin ts us (storage s)"
  by (simp add: check_auth_def restore_session_def split: stored.splits)

lemma storage_check_auth_error:
  "read_users (storage s) = None \<Longrightarrow> storage (check_auth ts s) = storage s"
  by (simp add: check_auth_def)

lemma read_login_with_google:
  "read_users (storage s) = Some us \<Longrightarrow>
   read_users (storage (snd (login_with_google now ts g s))) =
     Some (if g_email g \<in> email ` set us then us else us @ [google_account now ts (length us) g])"
proof -
  assume us: "read_users (storage s) = Some us"
  show ?thesis
  proof (cases "find (\<lambda>u. email u = g_email g) us")
    case None
    with us show ?thesis by (simp add: login_with_google_new storage_simps Let_def js_simps)
  next
    case (Some u)
    from find_email_Some [OF this] have "g_email g \<in> email ` set us" by force
    with us Some show ?thesis by (simp add: login_with_google_existing storage_simps)
  qed
qed

section \<open>Properties of the handlers\<close>

text \<open>
  C5: a successful login with the administrator e-mail always yields an \<open>'admin'\<close>
  session, whatever role the stored account carries.
\<close>

theorem login_admin_role_forced:
  assumes "read_users (storage s) = Some us" and "u \<in> set us"
    and "email u = ADMIN_EMAIL" and "password u = pw"
  shows "fst (login now ADMIN_EMAIL pw s) = success_plain \<and>
         (\<exists>v. user (snd (login now ADMIN_EMAIL pw s)) = Some v \<and> role v = ''admin'')"
proof -
  from assms(2-4) obtain v where v: "find (\<lambda>u. email u = ADMIN_EMAIL \<and> password u = pw) us = Some v"
    by (cases "find (\<lambda>u. email u = ADMIN_EMAIL \<and> password u = pw) us") (auto simp: find_None_iff)
  from find_login_Some [OF v] have "email v = ADMIN_EMAIL" by simp
  with assms(1) v show ?thesis by (simp add: login_match apply_admin_role_admin)
qed

theorem login_admin_role_forced_witness:
  "fst (login 7 ADMIN_EMAIL ''admin123''
          (init_auth (write_users [(default_admin ''t'')\<lparr>role := ''student''\<rparr>] empty_storage)))
     = success_plain \<and>
   (\<exists>v. user (snd (login 7 ADMIN_EMAIL ''admin123''
          (init_auth (write_users [(default_admin ''t'')\<lparr>role := ''student''\<rparr>] empty_storage))))
        = Some v \<and> role v = ''admin'')"
  by (rule login_admin_role_forced [where us = "[(default_admin ''t'')\<lparr>role := ''student''\<rparr>]"
                                    and u = "(default_admin ''t'')\<lparr>role := ''student''\<rparr>"])
     (simp_all add: init_auth_def storage_simps account_simps)

text \<open>
  C6: on start-up, a truthy stored token and a stored snapshot become the session, with
  only the administrator role rule applied: nothing checks the token or that the
  snapshot is a registered account.
\<close>

theorem restore_trusts_snapshot:
  assumes "read_users (storage s) \<noteq> None" and "token_truthy (ls_token (storage s))"
    and "ls_user (storage s) = Stored v"
  shows "user (check_auth ts s) = Some (apply_admin_role v)"
proof -
  from assms(1) obtain us where us: "read_users (storage s) = Some us" by blast
  with assms(2,3) show ?thesis
    by (simp add: check_auth_def restore_session_def storage_simps seed_admin_def)
qed

theorem restore_trusts_snapshot_witness:
  "user (check_auth ''t''
     \<lparr>storage = \<lparr>ls_users = Missing, ls_token = Some ''forged'',
                  ls_user = Stored ((default_admin ''t'')\<lparr>role := ''student'', acc_id := ''x''\<rparr>)\<rparr>,
      user = None, loading = True\<rparr>) =
   Some ((default_admin ''t'')\<lparr>role := ''admin'', acc_id := ''x''\<rparr>)"
proof -
  have "user (check_auth ''t''
     \<lparr>storage = \<lparr>ls_users = Missing, ls_token = Some ''forged'',
                  ls_user = Stored ((default_admin ''t'')\<lparr>role := ''student'', acc_id := ''x''\<rparr>)\<rparr>,
      user = None, loading = True\<rparr>) =
     Some (apply_admin_role ((default_admin ''t'')\<lparr>role := ''student'', acc_id := ''x''\<rparr>))"
    by (rule restore_trusts_snapshot) (simp_all add: read_users_def token_truthy_def)
  then show ?thesis by (simp add: apply_admin_role_def default_admin_def)
qed

text \<open>
  C7: a failed login answers \<open>'Invalid email or password'\<close> and changes nothing, both
  for an unknown e-mail and for a known e-mail with a wrong password.
\<close>

theorem login_failure_uniform:
  assumes "read_users (storage s) = Some us"
    and "\<not> (\<exists>u \<in> set us. email u = e \<and> password u = pw)"
  shows "login now e pw s = (failure ''Invalid email or password'', s)"
proof -
  from assms(2) have "find (\<lambda>u. email u = e \<and> password u = pw) us = None"
    by (auto simp: find_None_iff)
  with assms(1) show ?thesis by (rule login_no_match)
qed

theorem login_failure_uniform_witness:
  "login 1 ADMIN_EMAIL ''wrong'' (init_auth (write_users [default_admin ''t''] empty_storage)) =
     (failure ''Invalid email or password'', init_auth (write_users [default_admin ''t''] empty_storage)) \<and>
   login 1 ''nobody@x.com'' ''admin123'' (init_auth (write_users [default_admin ''t''] empty_storage)) =
     (failure ''Invalid email or password'', init_auth (write_users [default_admin ''t''] empty_storage))"
proof
  show "login 1 ADMIN_EMAIL ''wrong'' (init_auth (write_users [default_admin ''t''] empty_storage)) =
     (failure ''Invalid email or password'', init_auth (write_users [default_admin ''t''] empty_storage))"
    by (rule login_failure_uniform [where us = "[default_admin ''t'']"])
       (simp_all add: init_auth_def storage_simps account_simps)
  show "login 1 ''nobody@x.com'' ''admin123'' (init_auth (write_users [default_admin ''t''] empty_storage)) =
     (failure ''Invalid email or password'', init_auth (write_users [default_admin ''t''] empty_storage))"
    by (rule login_failure_uniform [where us = "[default_admin ''t'']"])
       (simp_all add: init_auth_def storage_simps account_simps ADMIN_EMAIL_def)
qed

text \<open>
  C8: after a sign-up, a second sign-up with the same e-mail is rejected with
  \<open>'Email already registered!'\<close>, whatever its other fields are.
\<close>

theorem signup_duplicate_rejected:
  assumes "read_users (storage s) \<noteq> None" and "form_email f' = form_email f"
  shows "fst (signup now' ts' f' (snd (signup now ts f s))) = failure ''Email already registered!''"
proof -
  from assms(1) obtain us where us: "read_users (storage s) = Some us" by blast
  show ?thesis
  proof (cases "form_email f \<in> email ` set us")
    case True
    with us assms(2) show ?thesis by (simp add: signup_taken)
  next
    case False
    with us have "snd (signup now ts f s) =
        s\<lparr>storage := write_users (us @ [signup_account now ts f]) (storage s)\<rparr>"
      by (simp add: signup_fresh)
    with assms(2) show ?thesis
      by (simp add: signup_taken storage_simps account_simps)
  qed
qed

theorem signup_duplicate_rejected_witness:
  "fst (signup 2 ''t2'' \<lparr>form_name = ''B'', form_fatherName = ''Y'', form_class = ''9'',
                        form_email = ''s1@x.com'', form_password = ''zzzzzz'', form_rollNo = ''R2'',
                        form_role = ''admin''\<rparr>
         (snd (signup 1 ''t1'' \<lparr>form_name = ''A'', form_fatherName = ''X'', form_class = ''10'',
                                form_email = ''s1@x.com'', form_password = ''abcdef'',
                                form_rollNo = ''R1'', form_role = ''student''\<rparr>
               (init_auth empty_storage))))
   = failure ''Email already registered!''"
  by (rule signup_duplicate_rejected) (simp_all add: init_auth_def storage_simps)

text \<open>
  C11: the administrator seed of \<open>checkAuth\<close> is idempotent: running \<open>checkAuth\<close> again
  leaves the stored account array as the first run left it.
\<close>

theorem check_auth_seed_idempotent:
  "read_users (storage (check_auth t2 (check_auth t1 s))) = read_users (storage (check_auth t1 s))"
proof (cases "read_users (storage s)")
  case None
  then show ?thesis by (simp add: storage_check_auth_error)
next
  case (Some us)
  let ?us' = "if ADMIN_EMAIL \<in> email ` set us then us else us @ [default_admin t1]"
  from Some have r1: "read_users (storage (check_auth t1 s)) = Some ?us'"
    by (simp add: storage_check_auth read_seed_admin)
  have "ADMIN_EMAIL \<in> email ` set ?us'" by (simp add: account_simps)
  with r1 show ?thesis
    by (simp add: storage_check_auth read_seed_admin del: if_image_distrib)
qed

text \<open>
  C17: \<open>loginWithGoogle\<close> with the e-mail of a registered account logs in as that
  account, administrator included, without any password or provider check.
\<close>

theorem google_login_no_password:
  assumes "read_users (storage s) = Some us" and "distinct (map email us)"
    and "u \<in> set us" and "email u = g_email g"
  shows "fst (login_with_google now ts g s) = success_plain \<and>
         user (snd (login_with_google now ts g s)) = Some (apply_admin_role u)"
proof -
  have "find (\<lambda>v. email v = g_email g) us = Some u"
    using assms(2-4) by (intro find_distinct_key [where f = email and k = "g_email g"]) auto
  with assms(1) show ?thesis by (simp add: login_with_google_existing)
qed

theorem google_login_no_password_witness:
  "fst (login_with_google 9 ''t9'' \<lparr>g_email = ADMIN_EMAIL, g_name = ''Mallory''\<rparr>
         (init_auth (write_users [default_admin ''t''] empty_storage))) = success_plain \<and>
   user (snd (login_with_google 9 ''t9'' \<lparr>g_email = ADMIN_EMAIL, g_name = ''Mallory''\<rparr>
         (init_auth (write_users [default_admin ''t''] empty_storage)))) =
     Some (apply_admin_role (default_admin ''t''))"
  by (rule google_login_no_password [where us = "[default_admin ''t'']"])
     (simp_all add: init_auth_def storage_simps account_simps)

text \<open>
  C19: for any e-mail other than the administrator's, a login carries the stored role
  into the session unchanged, so a stored role \<open>'admin'\<close> yields an administrator
  session: the role is not derived from the e-mail alone.
\<close>

theorem login_keeps_stored_role:
  assumes "read_users (storage s) = Some us"
    and "find (\<lambda>u. email u = e \<and> password u = pw) us = Some u" and "email u \<noteq> ADMIN_EMAIL"
  shows "user (snd (login now e pw s)) = Some u"
  using assms by (simp add: login_match apply_admin_role_other)

theorem login_keeps_stored_role_witness:
  "user (snd (login 3 ''eve@x.com'' ''pw''
     (init_auth (write_users [(signup_account 1 ''t'' \<lparr>form_name = ''Eve'', form_fatherName = ''F'',
         form_class = ''9'', form_email = ''eve@x.com'', form_password = ''pw'', form_rollNo = ''R9'',
         form_role = ''student''\<rparr>)\<lparr>role := ''admin''\<rparr>] empty_storage)))) =
   Some ((signup_account 1 ''t'' \<lparr>form_name = ''Eve'', form_fatherName = ''F'',
         form_class = ''9'', form_email = ''eve@x.com'', form_password = ''pw'', form_rollNo = ''R9'',
         form_role = ''student''\<rparr>)\<lparr>role := ''admin''\<rparr>)"
  by (rule login_keeps_stored_role
        [where us = "[(signup_account 1 ''t'' \<lparr>form_name = ''Eve'', form_fatherName = ''F'',
           form_class = ''9'', form_email = ''eve@x.com'', form_password = ''pw'', form_rollNo = ''R9'',
           form_role = ''student''\<rparr>)\<lparr>role := ''admin''\<rparr>]"])
     (simp_all add: init_auth_def storage_simps signup_account_def ADMIN_EMAIL_def)

text \<open>
  C20: the password \<open>loginWithGoogle\<close> stores for a new account is
  \<open>'google-' + email\<close>, so anyone can then log in to it with the ordinary login.
\<close>

theorem google_placeholder_password:
  assumes "read_users (storage s) = Some us" and "g_email g \<notin> email ` set us"
  shows "fst (login now' (g_email g) (''google-'' @ g_email g) (snd (login_with_google now ts g s)))
           = success_plain"
proof -
  let ?nu = "google_account now ts (length us) g"
  have r: "read_users (storage (snd (login_with_google now ts g s))) = Some (us @ [?nu])"
    using assms by (simp add: read_login_with_google)
  from assms(2) have "\<forall>u \<in> set us. email u \<noteq> g_email g" by (auto simp: image_iff)
  then have "find (\<lambda>u. email u = g_email g \<and> password u = ''google-'' @ g_email g) us = None"
    by (auto simp: find_None_iff)
  then have "find (\<lambda>u. email u = g_email g \<and> password u = ''google-'' @ g_email g) (us @ [?nu]) = Some ?nu"
    by (simp add: find_append account_simps)
  with r show ?thesis by (simp add: login_match)
qed

theorem google_placeholder_password_witness:
  "fst (login 4 (g_email \<lparr>g_email = ''g@x.com'', g_name = ''G''\<rparr>)
          (''google-'' @ g_email \<lparr>g_email = ''g@x.com'', g_name = ''G''\<rparr>)
          (snd (login_with_google 3 ''t'' \<lparr>g_email = ''g@x.com'', g_name = ''G''\<rparr>
                  (init_auth empty_storage))))
   = success_plain"
  by (rule google_placeholder_password [where us = "[]"]) (simp_all add: init_auth_def storage_simps)

text \<open>
  \<open>signup\<close> never logs in: the provider's user and both session keys are as
  before, on every branch.
\<close>

lemma signup_no_autologin:
  "user (snd (signup now ts f s)) = user s \<and>
   ls_token (storage (snd (signup now ts f s))) = ls_token (storage s) \<and>
   ls_user (storage (snd (signup now ts f s))) = ls_user (storage s)"
  by (simp add: signup_def storage_simps split: option.splits)

text \<open>C23: changing the password of an unknown e-mail answers \<open>'User not found'\<close> and changes nothing.\<close>

theorem change_password_unknown:
  assumes "read_users (storage s) = Some us" and "target \<notin> email ` set us"
  shows "change_password target pw s = (failure ''User not found'', s)"
  using assms by (simp add: change_password_def js_simps)

theorem change_password_unknown_witness:
  "change_password ''ghost@x.com'' ''newpass'' (init_auth (write_users [default_admin ''t''] empty_storage))
   = (failure ''User not found'', init_auth (write_users [default_admin ''t''] empty_storage))"
  by (rule change_password_unknown [where us = "[default_admin ''t'']"])
     (simp_all add: init_auth_def storage_simps account_simps ADMIN_EMAIL_def)

text \<open>
  \<open>changePassword\<close> does not depend on who is logged in: its result and its effect
  on storage are the same for every value of the provider's \<open>user\<close>.
\<close>

lemma change_password_ignores_caller:
  "change_password target pw (s\<lparr>user := x\<rparr>) =
     (fst (change_password target pw s), (snd (change_password target pw s))\<lparr>user := x\<rparr>)"
  by (simp add: change_password_def Let_def split: option.splits)

end
