(* ===== verification/Auth_Invariant.thy ===== *)
theory Auth_Invariant
  imports Auth
begin

text \<open>
  The invariant that every handler of \<open>AuthContext.js\<close> preserves.
  \<^item> \<open>wf_users\<close>, on the stored account array: e-mails are distinct (the duplicate checks
    of \<open>checkAuth\<close>, \<open>signup\<close> and \<open>loginWithGoogle\<close>), every stored role is the one its
    e-mail determines (the role rule of lines 71--74 and 145), and an account created by
    \<open>loginWithGoogle\<close> at position \<open>i\<close> carries the roll number \<open>GOOGLE-(i+1)\<close>, because
    the array only grows and line 144 numbers it by the length at creation.
  \<^item> \<open>snapshot_ok\<close>: the stored session snapshot, if any, is role-consistent.
  \<^item> \<open>session_ok\<close>: an authenticated provider has a truthy stored token and exactly its
    account stored as the snapshot.
  The invariant does not hold of arbitrary browser storage (a tampered or corrupted
  \<open>localStorage\<close>); it holds of every state the application reaches from an empty one,
  as \<open>Session\<close> shows.
\<close>

section \<open>The account array\<close>

definition google_rolls :: "account list \<Rightarrow> bool" where
  "google_rolls us \<longleftrightarrow>
     (\<forall>i < length us. isGoogleUser (us ! i) \<longrightarrow> rollNo (us ! i) = ''GOOGLE-'' @ string_of_nat (Suc i))"

definition wf_users :: "account list \<Rightarrow> bool" where
  "wf_users us \<longleftrightarrow> distinct (map email us) \<and> list_all role_consistent us \<and> google_rolls us"

lemma wf_users_Nil [simp]: "wf_users []"
  by (simp add: wf_users_def google_rolls_def)

lemma google_rolls_snoc:
  "google_rolls (us @ [u]) \<longleftrightarrow>
     google_rolls us \<and> (isGoogleUser u \<longrightarrow> rollNo u = ''GOOGLE-'' @ string_of_nat (Suc (length us)))"
  by (auto simp: google_rolls_def nth_append less_Suc_eq)

lemma wf_users_snoc:
  "wf_users (us @ [u]) \<longleftrightarrow>
     wf_users us \<and> email u \<notin> email ` set us \<and> role_consistent u \<and>
     (isGoogleUser u \<longrightarrow> rollNo u = ''GOOGLE-'' @ string_of_nat (Suc (length us)))"
  by (auto simp: wf_users_def google_rolls_snoc)

lemma wf_users_single:
  "wf_users [u] \<longleftrightarrow> role_consistent u \<and> (isGoogleUser u \<longrightarrow> rollNo u = ''GOOGLE-'' @ string_of_nat 1)"
  using wf_users_snoc [of "[]" u] by simp

lemma google_rolls_password:
  "i < length us \<Longrightarrow> google_rolls (us[i := (us ! i)\<lparr>password := pw\<rparr>]) = google_rolls us"
  by (auto simp: google_rolls_def nth_list_update)

lemma wf_users_password:
  assumes "wf_users us" and "i < length us"
  shows "wf_users (us[i := (us ! i)\<lparr>password := pw\<rparr>])"
proof -
  have "map email (us[i := (us ! i)\<lparr>password := pw\<rparr>]) = map email us"
    using assms(2) by (rule map_update_same_field) simp
  moreover have "list_all role_consistent (us[i := (us ! i)\<lparr>password := pw\<rparr>])"
    using assms set_update_subset_insert [of us i]
    by (fastforce simp: wf_users_def list_all_iff role_consistent_def)
  ultimately show ?thesis
    using assms by (simp add: wf_users_def google_rolls_password)
qed

lemma wf_users_role_consistent: "wf_users us \<Longrightarrow> u \<in> set us \<Longrightarrow> role_consistent u"
  by (simp add: wf_users_def list_all_iff)

lemma wf_users_distinct: "wf_users us \<Longrightarrow> distinct (map email us)"
  by (simp add: wf_users_def)

section \<open>The provider state\<close>

text \<open>
  The session the two storage keys describe, read the way \<open>checkAuth\<close> reads them:
  present when the token is truthy and a snapshot is stored.
\<close>

definition stored_session :: "local_storage \<Rightarrow> account option" where
  "stored_session ls =
     (if token_truthy (ls_token ls) then (case ls_user ls of Stored u \<Rightarrow> Some u | _ \<Rightarrow> None)
      else None)"

definition users_ok :: "local_storage \<Rightarrow> bool" where
  "users_ok ls \<longleftrightarrow> (case read_users ls of None \<Rightarrow> False | Some us \<Rightarrow> wf_users us)"

text \<open>Both session keys are present together, and the snapshot is role-consistent.\<close>

definition keys_ok :: "local_storage \<Rightarrow> bool" where
  "keys_ok ls \<longleftrightarrow>
     (case stored_session ls of
        None \<Rightarrow> ls_token ls = None \<and> ls_user ls = Missing
      | Some u \<Rightarrow> role_consistent u)"

definition auth_inv :: "auth_state \<Rightarrow> bool" where
  "auth_inv s \<longleftrightarrow> users_ok (storage s) \<and> keys_ok (storage s) \<and> user s = stored_session (storage s)"

lemmas inv_defs = auth_inv_def users_ok_def

lemma auth_inv_users:
  assumes "auth_inv s"
  obtains us where "read_users (storage s) = Some us" and "wf_users us"
  using assms by (auto simp: inv_defs split: option.splits)

lemma token_truthy_mint [simp]: "token_truthy (Some (mint_token uid now))"
  by (simp add: token_truthy_def mint_token_nonempty)

lemma stored_session_save [storage_simps]: "stored_session (save_session (mint_token uid now) u ls) = Some u"
  by (simp add: stored_session_def storage_simps)

lemma stored_session_clear [storage_simps]: "stored_session (clear_session ls) = None"
  by (simp add: stored_session_def storage_simps token_truthy_def)

lemma keys_ok_clear [storage_simps]: "keys_ok (clear_session ls)"
  by (simp add: keys_ok_def storage_simps)

lemma stored_session_write_users [storage_simps]: "stored_session (write_users us ls) = stored_session ls"
  by (simp add: stored_session_def storage_simps)

lemma keys_ok_write_users [storage_simps]: "keys_ok (write_users us ls) = keys_ok ls"
  by (simp add: keys_ok_def storage_simps split: option.splits)

lemma init_auth_inv: "auth_inv (init_auth empty_storage)"
  by (simp add: inv_defs keys_ok_def init_auth_def empty_storage_def read_users_def
                stored_session_def token_truthy_def)

text \<open>The session part of the invariant after a login of an account of a well-formed array.\<close>

lemma session_after_login:
  assumes "users_ok ls" and "role_consistent u"
  shows "auth_inv (s\<lparr>storage := save_session (mint_token (acc_id u) now) u ls, user := Some u\<rparr>)"
  using assms by (simp add: inv_defs keys_ok_def storage_simps)

lemma seed_admin_ok:
  "wf_users us \<Longrightarrow> read_users ls = Some us \<Longrightarrow> users_ok (seed_admin ts us ls)"
  by (auto simp: seed_admin_def users_ok_def storage_simps wf_users_snoc account_simps js_simps)

lemma seed_admin_keys [storage_simps]:
  "ls_token (seed_admin ts us ls) = ls_token ls" "ls_user (seed_admin ts us ls) = ls_user ls"
  "stored_session (seed_admin ts us ls) = stored_session ls" "keys_ok (seed_admin ts us ls) = keys_ok ls"
  by (simp_all add: seed_admin_def storage_simps)

text \<open>
  The restore step of \<open>checkAuth\<close> installs the stored session when there is one, and
  otherwise leaves \<open>user\<close> alone.
\<close>

lemma restore_session_user:
  "keys_ok ls \<Longrightarrow> stored_session ls = Some u \<Longrightarrow> user (restore_session ls s) = Some u"
  "stored_session ls = None \<Longrightarrow> keys_ok ls \<Longrightarrow> user (restore_session ls s) = user s"
  by (auto simp: restore_session_def keys_ok_def stored_session_def apply_admin_role_consistent
           split: stored.splits if_splits)

lemma restore_session_storage [simp]: "storage (restore_session ls s) = ls"
  by (simp add: restore_session_def split: stored.splits)

lemma restore_session_inv:
  assumes "users_ok ls" and "keys_ok ls"
    and "stored_session ls = None \<Longrightarrow> user s = None"
  shows "auth_inv (restore_session ls s)"
proof (cases "stored_session ls")
  case None
  with assms show ?thesis by (simp add: auth_inv_def restore_session_user)
next
  case (Some u)
  with assms show ?thesis by (simp add: auth_inv_def restore_session_user)
qed

lemma check_auth_inv:
  assumes "auth_inv s"
  shows "auth_inv (check_auth ts s)"
proof -
  from assms obtain us where us: "read_users (storage s) = Some us" and wf: "wf_users us"
    by (rule auth_inv_users)
  from wf us have "users_ok (seed_admin ts us (storage s))" by (rule seed_admin_ok)
  with assms have "auth_inv (restore_session (seed_admin ts us (storage s)) s)"
    by (intro restore_session_inv) (simp_all add: auth_inv_def storage_simps)
  with us show ?thesis by (simp add: check_auth_def)
qed

lemma signup_inv:
  assumes "auth_inv s"
  shows "auth_inv (snd (signup now ts f s))"
proof -
  from assms obtain us where us: "read_users (storage s) = Some us" and wf: "wf_users us"
    by (rule auth_inv_users)
  show ?thesis
  proof (cases "form_email f \<in> email ` set us")
    case True
    with us assms show ?thesis by (simp add: signup_taken)
  next
    case False
    with us wf assms show ?thesis
      by (simp add: signup_fresh inv_defs storage_simps wf_users_snoc account_simps)
  qed
qed

lemma login_inv:
  assumes "auth_inv s"
  shows "auth_inv (snd (login now e pw s))"
proof -
  from assms obtain us where us: "read_users (storage s) = Some us" and wf: "wf_users us"
    by (rule auth_inv_users)
  show ?thesis
  proof (cases "find (\<lambda>u. email u = e \<and> password u = pw) us")
    case None
    with us assms show ?thesis by (simp add: login_no_match)
  next
    case (Some u)
    with wf have "role_consistent u"
      by (blast dest: find_login_Some wf_users_role_consistent)
    moreover from assms have "users_ok (storage s)" by (simp add: auth_inv_def)
    ultimately show ?thesis
      using us Some by (simp add: login_match apply_admin_role_consistent session_after_login)
  qed
qed

lemma login_with_google_inv:
  assumes "auth_inv s"
  shows "auth_inv (snd (login_with_google now ts g s))"
proof -
  from assms obtain us where us: "read_users (storage s) = Some us" and wf: "wf_users us"
    by (rule auth_inv_users)
  show ?thesis
  proof (cases "find (\<lambda>u. email u = g_email g) us")
    case None
    then have fresh: "g_email g \<notin> email ` set us" by (simp add: js_simps)
    let ?nu = "google_account now ts (length us) g"
    have "users_ok (write_users (us @ [?nu]) (storage s))"
      using wf fresh by (simp add: users_ok_def storage_simps wf_users_snoc account_simps)
    with us fresh show ?thesis
      by (simp add: login_with_google_new Let_def apply_admin_role_consistent account_simps
                    session_after_login)
  next
    case (Some u)
    with wf have "role_consistent u"
      by (blast dest: find_email_Some wf_users_role_consistent)
    moreover from assms have "users_ok (storage s)" by (simp add: auth_inv_def)
    ultimately show ?thesis
      using us Some by (simp add: login_with_google_existing apply_admin_role_consistent
                                  session_after_login)
  qed
qed

lemma change_password_inv:
  assumes "auth_inv s"
  shows "auth_inv (snd (change_password target pw s))"
proof -
  from assms obtain us where us: "read_users (storage s) = Some us" and wf: "wf_users us"
    by (rule auth_inv_users)
  show ?thesis
  proof (cases "js_findIndex (\<lambda>u. email u = target) us = -1")
    case True
    with us assms show ?thesis by (simp add: change_password_def)
  next
    case False
    then obtain i where i: "js_findIndex (\<lambda>u. email u = target) us = int i" and "i < length us"
      by (rule js_findIndex_found)
    with wf have "wf_users (us[i := (us ! i)\<lparr>password := pw\<rparr>])"
      by (simp add: wf_users_password)
    with us i assms show ?thesis
      by (simp add: change_password_at inv_defs storage_simps)
  qed
qed

lemma logout_inv: "auth_inv s \<Longrightarrow> auth_inv (logout s)"
  by (simp add: inv_defs logout_def storage_simps)

text \<open>A page load: React state starts afresh over the persisted storage, then \<open>checkAuth\<close>.\<close>

definition reload :: "string \<Rightarrow> auth_state \<Rightarrow> auth_state" where
  "reload ts s = check_auth ts (init_auth (storage s))"

lemma reload_inv:
  assumes "auth_inv s"
  shows "auth_inv (reload ts s)"
proof -
  from assms obtain us where us: "read_users (storage s) = Some us" and wf: "wf_users us"
    by (rule auth_inv_users)
  from wf us have "users_ok (seed_admin ts us (storage s))" by (rule seed_admin_ok)
  with assms have "auth_inv (restore_session (seed_admin ts us (storage s)) (init_auth (storage s)))"
    by (intro restore_session_inv) (simp_all add: auth_inv_def storage_simps init_auth_def)
  with us show ?thesis by (simp add: reload_def check_auth_def init_auth_def)
qed

section \<open>Properties that rest on the invariant\<close>

text \<open>
  C9: with distinct e-mails, after \<open>changePassword(target, new)\<close> a login with the new
  password succeeds and a login with the old one fails.
\<close>

theorem change_password_then_login:
  assumes us: "read_users (storage s) = Some us" and wf: "wf_users us"
    and tgt: "target \<in> email ` set us" and ne: "old \<noteq> new"
  shows "fst (login now target new (snd (change_password target new s))) = success_plain \<and>
         fst (login now' target old (snd (change_password target new s))) =
           failure ''Invalid email or password''"
proof -
  from tgt obtain i where i: "i < length us" and ei: "email (us ! i) = target"
    by (auto simp: in_set_conv_nth)
  from wf have dist: "distinct (map email us)" by (rule wf_users_distinct)
  let ?us' = "us[i := (us ! i)\<lparr>password := new\<rparr>]"
  have idx: "js_findIndex (\<lambda>u. email u = target) us = int i"
    using dist i ei by (rule js_findIndex_email_distinct)
  have r: "read_users (storage (snd (change_password target new s))) = Some ?us'"
    using us idx by (simp add: change_password_at storage_simps)
  from wf i have dist': "distinct (map email ?us')" by (simp add: wf_users_password wf_users_distinct)
  have at: "?us' ! i = (us ! i)\<lparr>password := new\<rparr>" using i by simp
  have mem: "?us' ! i \<in> set ?us'" using i by (simp add: set_update_memI)
  have "find (\<lambda>u. email u = target \<and> password u = new) ?us' = Some (?us' ! i)"
    using dist' mem at ei by (intro find_distinct_key [where f = email and k = target]) auto
  with r have new_ok: "fst (login now target new (snd (change_password target new s))) = success_plain"
    by (simp add: login_match)
  have "\<forall>y \<in> set ?us'. \<not> (email y = target \<and> password y = old)"
  proof
    fix y assume "y \<in> set ?us'"
    show "\<not> (email y = target \<and> password y = old)"
    proof
      assume "email y = target \<and> password y = old"
      with dist' \<open>y \<in> set ?us'\<close> i at ei have "y = ?us' ! i"
        by (intro distinct_key_unique [where f = email]) simp_all
      with at ne \<open>email y = target \<and> password y = old\<close> show False by simp
    qed
  qed
  then have "find (\<lambda>u. email u = target \<and> password u = old) ?us' = None"
    by (auto simp: find_None_iff)
  with r have "fst (login now' target old (snd (change_password target new s))) =
                 failure ''Invalid email or password''"
    by (simp add: login_no_match)
  with new_ok show ?thesis by simp
qed

theorem change_password_then_login_witness:
  "fst (login 5 ADMIN_EMAIL ''newpass1''
          (snd (change_password ADMIN_EMAIL ''newpass1''
                 (init_auth (write_users [default_admin ''t''] empty_storage))))) = success_plain \<and>
   fst (login 6 ADMIN_EMAIL ''admin123''
          (snd (change_password ADMIN_EMAIL ''newpass1''
                 (init_auth (write_users [default_admin ''t''] empty_storage))))) =
     failure ''Invalid email or password''"
  by (rule change_password_then_login [where us = "[default_admin ''t'']"])
     (simp_all add: init_auth_def storage_simps account_simps wf_users_single)

lemma wf_users_google_new:
  "wf_users us \<Longrightarrow> g_email g \<notin> email ` set us \<Longrightarrow>
   wf_users (us @ [google_account now ts (length us) g])"
  by (simp add: wf_users_snoc account_simps)

lemma get_all_users_read: "read_users (storage s) = Some us \<Longrightarrow> get_all_users s = us"
  by (simp add: get_all_users_def)

text \<open>
  C10: \<open>loginWithGoogle\<close> is idempotent on the e-mail: a second call with the same
  e-mail leaves the account array as the first call left it, and that array holds exactly
  one account with the e-mail.
\<close>

theorem google_login_idempotent:
  assumes us: "read_users (storage s) = Some us" and wf: "wf_users us"
    and same: "g_email g' = g_email g"
  shows "get_all_users (snd (login_with_google n2 t2 g' (snd (login_with_google n1 t1 g s)))) =
           get_all_users (snd (login_with_google n1 t1 g s)) \<and>
         length (filter (\<lambda>u. email u = g_email g) (get_all_users (snd (login_with_google n1 t1 g s)))) = 1"
proof -
  let ?us1 = "if g_email g \<in> email ` set us then us else us @ [google_account n1 t1 (length us) g]"
  have r1: "read_users (storage (snd (login_with_google n1 t1 g s))) = Some ?us1"
    using us by (rule read_login_with_google)
  have wf1: "wf_users ?us1" using wf by (simp add: wf_users_google_new)
  have in1: "g_email g \<in> email ` set ?us1" by (simp add: account_simps)
  have "read_users (storage (snd (login_with_google n2 t2 g' (snd (login_with_google n1 t1 g s))))) = Some ?us1"
    using read_login_with_google [OF r1, of n2 t2 g'] in1 same by (simp del: if_image_distrib)
  with r1 have "get_all_users (snd (login_with_google n2 t2 g' (snd (login_with_google n1 t1 g s)))) =
                  get_all_users (snd (login_with_google n1 t1 g s))"
    by (simp add: get_all_users_read)
  moreover have "length (filter (\<lambda>u. email u = g_email g) ?us1) = 1"
    using wf1 in1 by (simp add: count_key_distinct wf_users_distinct del: if_image_distrib)
  ultimately show ?thesis using r1 by (simp add: get_all_users_read)
qed

theorem google_login_idempotent_witness:
  "get_all_users (snd (login_with_google 2 ''t2'' \<lparr>g_email = ''g@x.com'', g_name = ''Again''\<rparr>
      (snd (login_with_google 1 ''t1'' \<lparr>g_email = ''g@x.com'', g_name = ''G''\<rparr> (init_auth empty_storage))))) =
     get_all_users (snd (login_with_google 1 ''t1'' \<lparr>g_email = ''g@x.com'', g_name = ''G''\<rparr>
      (init_auth empty_storage))) \<and>
   length (filter (\<lambda>u. email u = g_email \<lparr>g_email = ''g@x.com'', g_name = ''G''\<rparr>)
     (get_all_users (snd (login_with_google 1 ''t1'' \<lparr>g_email = ''g@x.com'', g_name = ''G''\<rparr>
       (init_auth empty_storage))))) = 1"
  by (rule google_login_idempotent [where us = "[]"]) (simp_all add: init_auth_def storage_simps)

text \<open>
  C12: on a well-formed account array, \<open>checkAuth\<close> leaves exactly one account with
  the administrator e-mail.
\<close>

theorem seed_exactly_one_admin:
  assumes us: "read_users (storage s) = Some us" and wf: "wf_users us"
  shows "length (filter (\<lambda>u. email u = ADMIN_EMAIL) (get_all_users (check_auth ts s))) = 1"
proof -
  let ?us' = "if ADMIN_EMAIL \<in> email ` set us then us else us @ [default_admin ts]"
  have r: "read_users (storage (check_auth ts s)) = Some ?us'"
    using us by (simp add: storage_check_auth read_seed_admin)
  have "users_ok (storage (check_auth ts s))"
    using wf us by (simp add: storage_check_auth seed_admin_ok)
  with r have "wf_users ?us'" by (simp add: users_ok_def)
  moreover have "ADMIN_EMAIL \<in> email ` set ?us'" by (simp add: account_simps)
  ultimately have "length (filter (\<lambda>u. email u = ADMIN_EMAIL) ?us') = 1"
    by (simp add: count_key_distinct wf_users_distinct del: if_image_distrib)
  with r show ?thesis by (simp add: get_all_users_read)
qed

theorem seed_exactly_one_admin_witness:
  "length (filter (\<lambda>u. email u = ADMIN_EMAIL) (get_all_users (check_auth ''t'' (init_auth empty_storage)))) = 1"
  by (rule seed_exactly_one_admin [where us = "[]"]) (simp_all add: init_auth_def storage_simps)

text \<open>C22: after \<open>logout\<close>, reloading the page does not bring the session back.\<close>

theorem logout_then_reload: "user (reload ts (logout s)) = None"
  by (simp add: reload_def check_auth_def restore_session_def init_auth_def token_truthy_def
                storage_simps split: option.splits stored.splits)

end
