(* ===== verification/Session.thy ===== *)
theory Session
  imports Auth_Invariant
begin

text \<open>
  The session life cycle of the portal as a state machine.  An \<open>event\<close> is one call
  the pages make into the \<open>AuthProvider\<close> value (\<open>AuthContext.js\<close> lines 212--228) or
  a page load, which re-creates the provider over the persisted storage and runs
  \<open>checkAuth\<close>; \<open>auth_step\<close> applies it.  The reachable states are those of a browser
  that starts with empty storage.  Rule induction over them gives the invariant of
  \<open>Auth_Invariant\<close>, and from it the spec's state machine: a session ends only by
  \<open>logout\<close>, and starts only by a login; page loads keep it.
  \<open>getAllUsers\<close> reads only and is not an event.  Concurrent tabs writing the same
  storage are not modelled.
\<close>

datatype event =
    Reload string
  | Signup nat string signup_form
  | Login nat string string
  | GoogleLogin nat string google_user
  | ChangePassword string string
  | Logout

fun auth_step :: "auth_state \<Rightarrow> event \<Rightarrow> auth_state" where
  "auth_step s (Reload ts) = reload ts s"
| "auth_step s (Signup now ts f) = snd (signup now ts f s)"
| "auth_step s (Login now e pw) = snd (login now e pw s)"
| "auth_step s (GoogleLogin now ts g) = snd (login_with_google now ts g s)"
| "auth_step s (ChangePassword e pw) = snd (change_password e pw s)"
| "auth_step s Logout = logout s"

fun auth_run :: "auth_state \<Rightarrow> event list \<Rightarrow> auth_state" where
  "auth_run s [] = s"
| "auth_run s (e # es) = auth_run (auth_step s e) es"

inductive reachable :: "auth_state \<Rightarrow> bool" where
  init: "reachable (init_auth empty_storage)"
| step: "reachable s \<Longrightarrow> reachable (auth_step s e)"

section \<open>Reachable states and runs\<close>

lemma reachable_run: "reachable s \<Longrightarrow> reachable (auth_run s es)"
  by (induction es arbitrary: s) (auto intro: reachable.step)

lemma reachable_from_run: "reachable s \<Longrightarrow> \<exists>es. s = auth_run (init_auth empty_storage) es"
proof (induction rule: reachable.induct)
  case init
  show ?case by (rule exI [of _ "[]"]) simp
next
  case (step s e)
  then obtain es where "s = auth_run (init_auth empty_storage) es" by blast
  moreover have "auth_run s' (es @ [e]) = auth_step (auth_run s' es) e" for s'
    by (induction es arbitrary: s') simp_all
  ultimately show ?case by (metis)
qed

section \<open>The invariant in every reachable state\<close>

lemma auth_step_inv: "auth_inv s \<Longrightarrow> auth_inv (auth_step s e)"
  by (cases e) (simp_all add: reload_inv signup_inv login_inv login_with_google_inv
                              change_password_inv logout_inv)

lemma reachable_inv: "reachable s \<Longrightarrow> auth_inv s"
proof (induction rule: reachable.induct)
  case init
  show ?case by (rule init_auth_inv)
next
  case (step s e)
  from step.IH show ?case by (rule auth_step_inv)
qed

section \<open>How each event moves the session\<close>

lemma user_signup [simp]: "user (snd (signup now ts f s)) = user s"
  by (simp add: signup_def split: option.splits)

lemma user_change_password [simp]: "user (snd (change_password e pw s)) = user s"
  by (simp add: change_password_def Let_def split: option.splits)

lemma user_login_kept: "user s \<noteq> None \<Longrightarrow> user (snd (login now e pw s)) \<noteq> None"
  by (simp add: login_def Let_def split: option.splits)

lemma user_login_with_google:
  "auth_inv s \<Longrightarrow> user (snd (login_with_google now ts g s)) \<noteq> None"
  by (auto simp: login_with_google_def Let_def elim: auth_inv_users split: option.splits prod.splits)

lemma user_reload: "auth_inv s \<Longrightarrow> user (reload ts s) = user s"
proof -
  assume inv: "auth_inv s"
  then obtain us where us: "read_users (storage s) = Some us" by (rule auth_inv_users)
  from inv have "auth_inv (reload ts s)" by (rule reload_inv)
  then have "user (reload ts s) = stored_session (storage (reload ts s))"
    by (simp add: auth_inv_def)
  also have "\<dots> = stored_session (storage s)"
    using us by (simp add: reload_def check_auth_def init_auth_def storage_simps)
  also have "\<dots> = user s" using inv by (simp add: auth_inv_def)
  finally show ?thesis .
qed

lemma user_login_new:
  "user s = None \<Longrightarrow> user (snd (login now e pw s)) \<noteq> None \<Longrightarrow>
   \<exists>us u. read_users (storage s) = Some us \<and> find (\<lambda>u. email u = e \<and> password u = pw) us = Some u"
  by (auto simp: login_def Let_def split: option.splits)

lemma reachable_users:
  assumes "reachable s"
  obtains us where "read_users (storage s) = Some us" and "wf_users us" and "get_all_users s = us"
proof -
  from assms have "auth_inv s" by (rule reachable_inv)
  then obtain us where "read_users (storage s) = Some us" and "wf_users us" by (rule auth_inv_users)
  with that show ?thesis by (simp add: get_all_users_read)
qed

lemma google_rolls_distinct:
  "google_rolls us \<Longrightarrow>
   distinct (map rollNo (filter isGoogleUser us)) \<and>
   (\<forall>u \<in> set (filter isGoogleUser us). \<exists>i < length us. rollNo u = ''GOOGLE-'' @ string_of_nat (Suc i))"
proof (induction us rule: rev_induct)
  case Nil
  then show ?case by simp
next
  case (snoc u us)
  from snoc.prems have g: "google_rolls us"
    and r: "isGoogleUser u \<longrightarrow> rollNo u = ''GOOGLE-'' @ string_of_nat (Suc (length us))"
    by (simp_all add: google_rolls_snoc)
  from snoc.IH [OF g] have d: "distinct (map rollNo (filter isGoogleUser us))"
    and old: "\<forall>v \<in> set (filter isGoogleUser us). \<exists>i < length us. rollNo v = ''GOOGLE-'' @ string_of_nat (Suc i)"
    by simp_all
  have fresh: "isGoogleUser u \<Longrightarrow> rollNo u \<notin> rollNo ` set (filter isGoogleUser us)"
  proof
    assume "isGoogleUser u" and "rollNo u \<in> rollNo ` set (filter isGoogleUser us)"
    then obtain v where v: "v \<in> set (filter isGoogleUser us)" and vu: "rollNo v = rollNo u" by auto
    from v old obtain i where "i < length us" and "rollNo v = ''GOOGLE-'' @ string_of_nat (Suc i)"
      by blast
    with r vu \<open>isGoogleUser u\<close> show False by (simp add: string_of_nat_inj)
  qed
  from d fresh r old show ?case by (auto simp: less_Suc_eq)
qed

section \<open>Properties of the reachable states\<close>

text \<open>
  C1: in every state the application reaches, each registered e-mail belongs to exactly
  one stored account.
\<close>

theorem reachable_emails_unique:
  assumes "reachable s" and "e \<in> email ` set (get_all_users s)"
  shows "length (filter (\<lambda>u. email u = e) (get_all_users s)) = 1"
proof -
  from assms(1) obtain us where "wf_users us" and "get_all_users s = us" by (rule reachable_users)
  with assms(2) show ?thesis by (simp add: count_key_distinct wf_users_distinct)
qed

theorem reachable_emails_unique_witness:
  "reachable (auth_step (init_auth empty_storage) (Reload ''t0'')) \<and>
   ADMIN_EMAIL \<in> email ` set (get_all_users (auth_step (init_auth empty_storage) (Reload ''t0''))) \<and>
   length (filter (\<lambda>u. email u = ADMIN_EMAIL) (get_all_users (auth_step (init_auth empty_storage) (Reload ''t0'')))) = 1"
proof -
  have r: "reachable (auth_step (init_auth empty_storage) (Reload ''t0''))"
    by (rule reachable.step [OF reachable.init])
  have m: "ADMIN_EMAIL \<in> email ` set (get_all_users (auth_step (init_auth empty_storage) (Reload ''t0'')))"
    by (simp add: reload_def init_auth_def get_all_users_def storage_check_auth storage_simps
                  read_seed_admin account_simps)
  from r m reachable_emails_unique [OF r m] show ?thesis by simp
qed

text \<open>
  C2: in a reachable state, an authenticated session survives every event except
  \<open>logout\<close> (page loads included), and \<open>logout\<close> always ends it.
\<close>

theorem session_ends_only_by_logout:
  assumes "reachable s" and "is_authenticated s"
  shows "is_authenticated (auth_step s e) \<longleftrightarrow> e \<noteq> Logout"
proof -
  from assms(1) have inv: "auth_inv s" by (rule reachable_inv)
  show ?thesis
  proof (cases e)
    case (Reload ts)
    with inv assms(2) show ?thesis by (simp add: is_authenticated_def user_reload)
  next
    case (Login now em pw)
    with assms(2) show ?thesis by (simp add: is_authenticated_def user_login_kept)
  next
    case (GoogleLogin now ts g)
    with inv show ?thesis by (simp add: is_authenticated_def user_login_with_google)
  qed (use assms(2) in \<open>simp_all add: is_authenticated_def\<close>)
qed

theorem session_ends_only_by_logout_witness:
  "reachable (auth_step (auth_step (init_auth empty_storage) (Reload ''t0'')) (Login 5 ADMIN_EMAIL ''admin123'')) \<and>
   is_authenticated (auth_step (auth_step (init_auth empty_storage) (Reload ''t0'')) (Login 5 ADMIN_EMAIL ''admin123'')) \<and>
   (is_authenticated (auth_step (auth_step (auth_step (init_auth empty_storage) (Reload ''t0''))
       (Login 5 ADMIN_EMAIL ''admin123'')) Logout) \<longleftrightarrow> Logout \<noteq> Logout)"
proof -
  let ?s = "auth_step (auth_step (init_auth empty_storage) (Reload ''t0'')) (Login 5 ADMIN_EMAIL ''admin123'')"
  have r: "reachable ?s" by (intro reachable.step reachable.init)
  have h1: "read_users (storage (auth_step (init_auth empty_storage) (Reload ''t0''))) =
             Some [default_admin ''t0'']"
    by (simp add: reload_def init_auth_def storage_check_auth storage_simps read_seed_admin)
  have h2: "find (\<lambda>u. email u = ADMIN_EMAIL \<and> password u = ''admin123'') [default_admin ''t0''] =
             Some (default_admin ''t0'')"
    by (simp add: account_simps)
  have a: "is_authenticated ?s"
    using login_match [OF h1 h2] by (simp add: is_authenticated_def)
  from r a session_ends_only_by_logout [OF r a, of Logout] show ?thesis by simp
qed

text \<open>
  C3: in a reachable state, only a login (\<open>login\<close> or \<open>loginWithGoogle\<close>) turns an
  unauthenticated provider into an authenticated one; a page load does not.
\<close>

theorem session_starts_only_by_login:
  assumes "reachable s" and "\<not> is_authenticated s" and "is_authenticated (auth_step s e)"
  shows "(\<exists>now em pw. e = Login now em pw) \<or> (\<exists>now ts g. e = GoogleLogin now ts g)"
proof -
  from assms(1) have inv: "auth_inv s" by (rule reachable_inv)
  show ?thesis
  proof (cases e)
    case (Reload ts)
    with inv assms(2,3) show ?thesis by (simp add: is_authenticated_def user_reload)
  qed (use assms(2,3) in \<open>simp_all add: is_authenticated_def\<close>)
qed

lemma fresh_reload_users:
  "read_users (storage (reload ts (init_auth empty_storage))) = Some [default_admin ts]"
  by (simp add: reload_def init_auth_def storage_check_auth storage_simps read_seed_admin)

lemma fresh_reload_user: "user (reload ts (init_auth empty_storage)) = None"
  by (simp add: reload_def check_auth_def restore_session_def init_auth_def storage_simps
                token_truthy_def empty_storage_def seed_admin_def write_users_def read_users_def)

lemma fresh_admin_login:
  "user (snd (login now ADMIN_EMAIL ''admin123'' (reload ts (init_auth empty_storage)))) =
     Some (default_admin ts)"
proof -
  have "find (\<lambda>u. email u = ADMIN_EMAIL \<and> password u = ''admin123'') [default_admin ts] =
          Some (default_admin ts)"
    by (simp add: account_simps)
  from login_match [OF fresh_reload_users this] show ?thesis
    by (simp add: apply_admin_role_def account_simps)
qed

theorem session_starts_only_by_login_witness:
  "reachable (auth_step (init_auth empty_storage) (Reload ''t0'')) \<and>
   \<not> is_authenticated (auth_step (init_auth empty_storage) (Reload ''t0'')) \<and>
   is_authenticated (auth_step (auth_step (init_auth empty_storage) (Reload ''t0'')) (Login 5 ADMIN_EMAIL ''admin123'')) \<and>
   ((\<exists>now em pw. Login 5 ADMIN_EMAIL ''admin123'' = Login now em pw) \<or>
    (\<exists>now ts g. Login 5 ADMIN_EMAIL ''admin123'' = GoogleLogin now ts g))"
proof -
  let ?s = "auth_step (init_auth empty_storage) (Reload ''t0'')"
  have r: "reachable ?s" by (intro reachable.step reachable.init)
  have n: "\<not> is_authenticated ?s" by (simp add: is_authenticated_def fresh_reload_user)
  have a: "is_authenticated (auth_step ?s (Login 5 ADMIN_EMAIL ''admin123''))"
    by (simp add: is_authenticated_def fresh_admin_login)
  from r n a session_starts_only_by_login [OF r n a] show ?thesis by blast
qed

text \<open>
  C4: in every reachable state the session's role is the one its e-mail determines
  (\<open>'admin'\<close> exactly for \<open>ADMIN_EMAIL\<close>).
\<close>

theorem reachable_session_role:
  assumes "reachable s" and "user s = Some u"
  shows "role u = role_for_email (email u)"
proof -
  from assms(1) have "auth_inv s" by (rule reachable_inv)
  with assms(2) have "stored_session (storage s) = Some u" and "keys_ok (storage s)"
    by (simp_all add: auth_inv_def)
  then have "role_consistent u" by (simp add: keys_ok_def)
  then show ?thesis by (simp add: role_consistent_def)
qed

theorem reachable_session_role_witness:
  "reachable (auth_step (auth_step (init_auth empty_storage) (Reload ''t0'')) (Login 5 ADMIN_EMAIL ''admin123'')) \<and>
   user (auth_step (auth_step (init_auth empty_storage) (Reload ''t0'')) (Login 5 ADMIN_EMAIL ''admin123'')) =
     Some (default_admin ''t0'') \<and>
   role (default_admin ''t0'') = role_for_email (email (default_admin ''t0''))"
proof -
  let ?s = "auth_step (auth_step (init_auth empty_storage) (Reload ''t0'')) (Login 5 ADMIN_EMAIL ''admin123'')"
  have r: "reachable ?s" by (intro reachable.step reachable.init)
  have u: "user ?s = Some (default_admin ''t0'')" by (simp add: fresh_admin_login)
  from r u reachable_session_role [OF r u] show ?thesis by simp
qed

lemma fresh_google_users:
  "read_users (storage (snd (login_with_google now ts g (init_auth empty_storage)))) =
     Some [google_account now ts 0 g]"
  using read_login_with_google [of "init_auth empty_storage" "[]" now ts g]
  by (simp add: init_auth_def storage_simps)

text \<open>
  C13: in every reachable state, an account created by \<open>loginWithGoogle\<close> that sits
  at index \<open>i\<close> of the stored array has roll number \<open>GOOGLE-(i+1)\<close>.
\<close>

theorem reachable_google_rollnos:
  assumes "reachable s" and "i < length (get_all_users s)" and "isGoogleUser (get_all_users s ! i)"
  shows "rollNo (get_all_users s ! i) = ''GOOGLE-'' @ string_of_nat (Suc i)"
proof -
  from assms(1) obtain us where "wf_users us" and "get_all_users s = us" by (rule reachable_users)
  with assms(2,3) show ?thesis by (simp add: wf_users_def google_rolls_def)
qed

theorem reachable_google_rollnos_witness:
  "reachable (auth_step (init_auth empty_storage) (GoogleLogin 1 ''t'' \<lparr>g_email = ''g@x.com'', g_name = ''G''\<rparr>)) \<and>
   0 < length (get_all_users (auth_step (init_auth empty_storage) (GoogleLogin 1 ''t'' \<lparr>g_email = ''g@x.com'', g_name = ''G''\<rparr>))) \<and>
   isGoogleUser (get_all_users (auth_step (init_auth empty_storage) (GoogleLogin 1 ''t'' \<lparr>g_email = ''g@x.com'', g_name = ''G''\<rparr>)) ! 0) \<and>
   rollNo (get_all_users (auth_step (init_auth empty_storage) (GoogleLogin 1 ''t'' \<lparr>g_email = ''g@x.com'', g_name = ''G''\<rparr>)) ! 0) =
     ''GOOGLE-'' @ string_of_nat (Suc 0)"
proof -
  let ?s = "auth_step (init_auth empty_storage) (GoogleLogin 1 ''t'' \<lparr>g_email = ''g@x.com'', g_name = ''G''\<rparr>)"
  have r: "reachable ?s" by (intro reachable.step reachable.init)
  have l: "0 < length (get_all_users ?s)" by (simp add: get_all_users_read fresh_google_users)
  have g: "isGoogleUser (get_all_users ?s ! 0)"
    by (simp add: get_all_users_read fresh_google_users account_simps)
  from r l g reachable_google_rollnos [OF r l g] show ?thesis by simp
qed

text \<open>
  In every reachable state the roll numbers of the accounts created by
  \<open>loginWithGoogle\<close> are pairwise distinct.
\<close>

lemma google_rollnos_distinct:
  assumes "reachable s"
  shows "distinct (map rollNo (filter isGoogleUser (get_all_users s)))"
proof -
  from assms obtain us where "wf_users us" and "get_all_users s = us" by (rule reachable_users)
  then show ?thesis using google_rolls_distinct [of us] by (simp add: wf_users_def)
qed

lemma role_for_email_enum: "role_for_email e \<in> {''student'', ''admin''}"
  by (simp add: role_for_email_def)

text \<open>
  C14: the spec's type of roles holds in every reachable state: every stored account and
  the session's account carry role \<open>'student'\<close> or \<open>'admin'\<close>, although the
  code stores the role as a free string.
\<close>

theorem reachable_roles_enumerated:
  assumes "reachable s"
  shows "list_all (\<lambda>u. role u \<in> {''student'', ''admin''}) (get_all_users s) \<and>
         (\<forall>u. user s = Some u \<longrightarrow> role u \<in> {''student'', ''admin''})"
proof -
  from assms obtain us where wf: "wf_users us" and us: "get_all_users s = us" by (rule reachable_users)
  have "list_all (\<lambda>u. role u \<in> {''student'', ''admin''}) us"
    unfolding list_all_iff
  proof
    fix u assume "u \<in> set us"
    with wf have "role_consistent u" by (rule wf_users_role_consistent)
    then show "role u \<in> {''student'', ''admin''}"
      using role_for_email_enum [of "email u"] by (simp add: role_consistent_def)
  qed
  moreover have "role u \<in> {''student'', ''admin''}" if "user s = Some u" for u
  proof -
    from assms have "auth_inv s" by (rule reachable_inv)
    with that have "keys_ok (storage s)" and "stored_session (storage s) = Some u"
      by (simp_all add: auth_inv_def)
    then have "role_consistent u" by (simp add: keys_ok_def)
    then show ?thesis using role_for_email_enum [of "email u"] by (simp add: role_consistent_def)
  qed
  ultimately show ?thesis using us by blast
qed

theorem reachable_roles_enumerated_witness:
  "reachable (auth_step (auth_step (init_auth empty_storage) (Reload ''t0'')) (Login 5 ADMIN_EMAIL ''admin123'')) \<and>
   list_all (\<lambda>u. role u \<in> {''student'', ''admin''})
     (get_all_users (auth_step (auth_step (init_auth empty_storage) (Reload ''t0'')) (Login 5 ADMIN_EMAIL ''admin123''))) \<and>
   user (auth_step (auth_step (init_auth empty_storage) (Reload ''t0'')) (Login 5 ADMIN_EMAIL ''admin123'')) =
     Some (default_admin ''t0'') \<and>
   role (default_admin ''t0'') \<in> {''student'', ''admin''}"
proof -
  let ?s = "auth_step (auth_step (init_auth empty_storage) (Reload ''t0'')) (Login 5 ADMIN_EMAIL ''admin123'')"
  have r: "reachable ?s" by (intro reachable.step reachable.init)
  have u: "user ?s = Some (default_admin ''t0'')" by (simp add: fresh_admin_login)
  from r u reachable_roles_enumerated [OF r] show ?thesis by simp
qed


lemma unparsable_read: "ls_users ls = Unparsable \<longleftrightarrow> read_users ls = None"
  by (simp add: read_users_def split: stored.splits)

lemma auth_step_unparsable:
  assumes "ls_users (storage s) = Unparsable"
  shows "ls_users (storage (auth_step s e)) = Unparsable"
proof -
  from assms have n: "read_users (storage s) = None" by (simp add: unparsable_read)
  show ?thesis
  proof (cases e)
    case (Reload ts)
    with assms n show ?thesis
      by (simp add: reload_def check_auth_def init_auth_def)
  qed (use assms n in \<open>simp_all add: signup_read_error login_read_error login_with_google_read_error
                                     change_password_read_error logout_def clear_session_def\<close>)
qed

text \<open>
  C18: once the stored \<open>users\<close> text is unparsable, no sequence of events repairs it:
  every handler keeps failing and \<open>getAllUsers\<close> answers the empty list, so the
  administrator is never re-seeded and nobody can log in.
\<close>

theorem corrupt_users_persist:
  assumes "ls_users (storage s) = Unparsable"
  shows "ls_users (storage (auth_run s es)) = Unparsable \<and> get_all_users (auth_run s es) = []"
  using assms
proof (induction es arbitrary: s)
  case Nil
  then show ?case by (simp add: get_all_users_def unparsable_read)
next
  case (Cons e es)
  from Cons.prems have "ls_users (storage (auth_step s e)) = Unparsable" by (rule auth_step_unparsable)
  then show ?case by (simp add: Cons.IH)
qed

theorem corrupt_users_persist_witness:
  "ls_users (storage (init_auth (empty_storage\<lparr>ls_users := Unparsable\<rparr>))) = Unparsable \<and>
   ls_users (storage (auth_run (init_auth (empty_storage\<lparr>ls_users := Unparsable\<rparr>))
      [Reload ''t'', Login 1 ADMIN_EMAIL ''admin123''])) = Unparsable \<and>
   get_all_users (auth_run (init_auth (empty_storage\<lparr>ls_users := Unparsable\<rparr>))
      [Reload ''t'', Login 1 ADMIN_EMAIL ''admin123'']) = []"
proof -
  have h: "ls_users (storage (init_auth (empty_storage\<lparr>ls_users := Unparsable\<rparr>))) = Unparsable"
    by (simp add: init_auth_def)
  from h corrupt_users_persist [OF h, of "[Reload ''t'', Login 1 ADMIN_EMAIL ''admin123'']"]
  show ?thesis by simp
qed

end
