(* ===== verification/Results.thy ===== *)
theory Results
  imports Prelude
begin

text \<open>
  The results service of \<open>src/src/services/api.js\<close>: the fixture table
  \<open>resultsDatabase\<close> (lines 5--53), an object from e-mail keys to result records, and
  the two queries over it.  \<open>Object.values\<close> lists the records in insertion order (the
  keys are not array indices), which is the order of the association list here.  The
  500 ms delay before each answer has no effect on the value returned and is not
  modelled; nothing in the \<open>try\<close> blocks can throw, so their \<open>catch\<close> branches are
  unreachable and absent.  \<open>fetchExternalData\<close> (an HTTP request through axios) is
  outside the model.
\<close>

section \<open>Result records\<close>

record subject =
  subj_name :: string
  total :: nat
  obtained :: nat
  percentage :: nat
  grade :: string
  remarks :: string

definition mk_subject :: "string \<Rightarrow> nat \<Rightarrow> nat \<Rightarrow> nat \<Rightarrow> string \<Rightarrow> string \<Rightarrow> subject" where
  "mk_subject n t ob p g r =
     \<lparr>subj_name = n, total = t, obtained = ob, percentage = p, grade = g, remarks = r\<rparr>"

record result_record =
  res_rollNo :: string
  studentName :: string
  res_class :: string
  res_fatherName :: string
  res_email :: string
  subjects :: "subject list"

definition resultsDatabase :: "(string \<times> result_record) list" where
  "resultsDatabase =
    [
     (''ali@example.com'',
      \<lparr>res_rollNo = ''2024-001'', studentName = ''Ali Ahmed'', res_class = ''10th Grade'',
       res_fatherName = ''Ahmed Khan'', res_email = ''ali@example.com'',
       subjects =
         [mk_subject ''Mathematics'' 100 85 85 ''A'' ''Excellent'',
          mk_subject ''Physics'' 100 78 78 ''B'' ''Very Good'',
          mk_subject ''Chemistry'' 100 82 82 ''A'' ''Excellent'',
          mk_subject ''English'' 100 75 75 ''B'' ''Good'',
          mk_subject ''Urdu'' 100 88 88 ''A'' ''Excellent'']\<rparr>),
     (''sara@example.com'',
      \<lparr>res_rollNo = ''2024-002'', studentName = ''Sara Khan'', res_class = ''10th Grade'',
       res_fatherName = ''Imran Khan'', res_email = ''sara@example.com'',
       subjects =
         [mk_subject ''Mathematics'' 100 92 92 ''A'' ''Outstanding'',
          mk_subject ''Physics'' 100 88 88 ''A'' ''Excellent'',
          mk_subject ''Chemistry'' 100 90 90 ''A'' ''Excellent'',
          mk_subject ''English'' 100 85 85 ''A'' ''Excellent'',
          mk_subject ''Urdu'' 100 94 94 ''A'' ''Outstanding'']\<rparr>),
     (''hassan@example.com'',
      \<lparr>res_rollNo = ''2024-003'', studentName = ''Hassan Ali'', res_class = ''9th Grade'',
       res_fatherName = ''Ali Raza'', res_email = ''hassan@example.com'',
       subjects =
         [mk_subject ''Mathematics'' 100 65 65 ''C'' ''Satisfactory'',
          mk_subject ''Physics'' 100 70 70 ''B'' ''Good'',
          mk_subject ''Chemistry'' 100 68 68 ''C'' ''Satisfactory'',
          mk_subject ''English'' 100 72 72 ''B'' ''Good'',
          mk_subject ''Urdu'' 100 75 75 ''B'' ''Good'']\<rparr>)
    ]"

section \<open>Queries\<close>

text \<open>\<open>fetchStudentResults\<close>, lines 56--84: the first record whose roll number matches.\<close>

definition fetchStudentResults :: "string \<Rightarrow> result_record response" where
  "fetchStudentResults rollNo =
     (case find (\<lambda>r. res_rollNo r = rollNo) (map snd resultsDatabase) of
        Some r \<Rightarrow> success_data r
      | None \<Rightarrow> failure ''No results found for this roll number.'')"

text \<open>\<open>fetchAllResults\<close>, lines 87--101: every record, with no check of the caller.\<close>

definition fetchAllResults :: "result_record list response" where
  "fetchAllResults = success_data (map snd resultsDatabase)"

section \<open>Abstract view and properties\<close>

text \<open>The table as the spec describes it: a map from roll number to result record.\<close>

definition results_by_roll :: "string \<rightharpoonup> result_record" where
  "results_by_roll = map_of (map (\<lambda>r. (res_rollNo r, r)) (map snd resultsDatabase))"

text \<open>A subject entry whose marks are coherent: obtained within total, percentage computed.\<close>

definition subject_ok :: "subject \<Rightarrow> bool" where
  "subject_ok x \<longleftrightarrow> obtained x \<le> total x \<and> 0 < total x \<and> percentage x = obtained x * 100 div total x"

text \<open>
  \<open>fetchStudentResults\<close> refines the keyed lookup: it answers the record the
  roll-number map holds, or the not-found failure exactly when the map has none.
\<close>

lemma fetch_refines_roll_map:
  "fetchStudentResults rollNo =
     (case results_by_roll rollNo of
        Some r \<Rightarrow> success_data r
      | None \<Rightarrow> failure ''No results found for this roll number.'')"
  unfolding fetchStudentResults_def results_by_roll_def
  by (simp only: find_key_map_of)

text \<open>
  The fixture is coherent: roll numbers are distinct, each key is the record's
  e-mail, and every subject's marks and percentage agree.
\<close>

lemma fixture_wf:
  "distinct (map res_rollNo (map snd resultsDatabase)) \<and>
   list_all (\<lambda>(k, r). res_email r = k) resultsDatabase \<and>
   list_all (\<lambda>r. list_all subject_ok (subjects r)) (map snd resultsDatabase)"
  by (simp add: resultsDatabase_def mk_subject_def subject_ok_def)

text \<open>
  Every record of the table is returned for its roll number, with no check of who
  asks, although the comment above the table says each user sees only their own results.
\<close>

lemma fetch_any_roll:
  "\<forall>r \<in> set (map snd resultsDatabase). fetchStudentResults (res_rollNo r) = success_data r"
  by (simp add: fetchStudentResults_def resultsDatabase_def)

text \<open>
  The spec's scenario: roll number \<open>2024-001\<close> yields Ali Ahmed's record with five
  subjects, and \<open>9999-999\<close> the not-found failure.
\<close>

lemma fetch_scenario:
  "(\<exists>r. fetchStudentResults ''2024-001'' = success_data r \<and> studentName r = ''Ali Ahmed'' \<and>
        length (subjects r) = 5) \<and>
   fetchStudentResults ''9999-999'' = failure ''No results found for this roll number.''"
  by (simp add: fetchStudentResults_def resultsDatabase_def success_data_def)

end
