(* ===== verification/Dashboard.thy ===== *)
theory Dashboard
  imports Session Results "HOL-Library.While_Combinator"
begin

text \<open>
  The dashboard page, \<open>src/src/pages/Dashboard.js\<close>: its React state, the effect that
  runs when the session's user changes, the handlers (result search, password change of
  the administrator's user table), the guards that decide which sections render, and the
  events those sections make available.  The page talks to two other components: the
  \<open>AuthProvider\<close> (\<open>changePassword\<close>, \<open>getAllUsers\<close>, \<open>logout\<close>) and the results
  service (\<open>fetchStudentResults\<close>, \<open>fetchAllResults\<close>).  A step acts on the pair of
  provider state and page state.

  The two result queries answer after a fixed delay, so a handler that awaits one runs in
  two steps: the call (state set before the \<open>await\<close>) and the answer (state set after
  it).  \<open>pending\<close> lists the roll numbers of searches still in flight, oldest first, and
  \<open>all_pending\<close> whether \<open>fetchAllResults\<close> is in flight; equal delays answer in call
  order.  A section's buttons are events only while it renders (\<open>dash_enabled\<close>), and a
  disabled button is no event, which is how the page keeps a second search from starting.
  Routing (\<open>navigate\<close>) is outside the model.  \<open>settle\<close> lets the event loop
  deliver every answer in flight; it terminates, and from a reachable page it reaches a
  page of the same visit with nothing in flight.
\<close>

section \<open>Page state\<close>

datatype tab = TabSearch | TabAll | TabUsers

record dash_state =
  results :: "result_record option"
  allResults :: "result_record list"
  error :: string
  dsuccess :: string
  dloading :: bool
  searchRollNo :: string
  showPasswordModal :: bool
  selectedUser :: "account option"
  newPassword :: string
  showNewPassword :: bool
  allUsers :: "account list"
  activeTab :: tab
  pending :: "string list"
  all_pending :: bool
  success_timers :: nat

text \<open>Lines 9--24: the initial \<open>useState\<close> values.\<close>

definition init_dash :: dash_state where
  "init_dash =
     \<lparr>results = None, allResults = [], error = [], dsuccess = [], dloading = False,
      searchRollNo = [], showPasswordModal = False, selectedUser = None, newPassword = [],
      showNewPassword = False, allUsers = [], activeTab = TabSearch, pending = [],
      all_pending = False, success_timers = 0\<rparr>"

text \<open>\<open>user?.role === 'admin'\<close> (lines 56, 177, 199, 212, 394, 437): false without a session.\<close>

definition is_admin_user :: "account option \<Rightarrow> bool" where
  "is_admin_user u = (case u of Some v \<Rightarrow> role v = ''admin'' | None \<Rightarrow> False)"

section \<open>Handlers\<close>

text \<open>
  \<open>String.prototype.trim\<close> on 8-bit characters: it strips tab, line feed, vertical tab,
  form feed, carriage return, space and no-break space at both ends.
\<close>

definition js_whitespace :: "char \<Rightarrow> bool" where
  "js_whitespace c \<longleftrightarrow> (of_char c :: nat) \<in> {9, 10, 11, 12, 13, 32, 160}"

definition js_trim :: "string \<Rightarrow> string" where
  "js_trim s = rev (dropWhile js_whitespace (rev (dropWhile js_whitespace s)))"

text \<open>
  The part of \<open>loadResults\<close> / \<open>autoLoadResults\<close> that runs before the \<open>await\<close>
  (lines 29--33 and 102--108): clear the page and send the query.
\<close>

definition start_search :: "string \<Rightarrow> dash_state \<Rightarrow> dash_state" where
  "start_search r d =
     d\<lparr>dloading := True, error := [], dsuccess := [], results := None, pending := pending d @ [r]\<rparr>"

text \<open>\<open>loadResults\<close>, lines 96--106: the empty-input guard, then the query.\<close>

definition load_results :: "string \<Rightarrow> dash_state \<Rightarrow> dash_state" where
  "load_results r d =
     (if js_trim r = [] then d\<lparr>error := ''Please enter a roll number''\<rparr> else start_search r d)"

text \<open>
  Lines 36--47 and 108--120: the oldest search answers.  A success shows the record; a
  failure shows its message; \<open>finally\<close> clears \<open>loading\<close>.
\<close>

definition resolve_search :: "dash_state \<Rightarrow> dash_state" where
  "resolve_search d =
     (case pending d of
        [] \<Rightarrow> d
      | r # rs \<Rightarrow>
          (let resp = fetchStudentResults r;
               d' = (if success resp \<and> data resp \<noteq> None
                     then d\<lparr>results := data resp, error := []\<rparr>
                     else d\<lparr>error := (case message resp of Some m \<Rightarrow> m | None \<Rightarrow> [])\<rparr>)
           in d'\<lparr>dloading := False, pending := rs\<rparr>))"

text \<open>
  The effect of lines 26--73, run when the session's user changes: load the user's own
  results when the account has a roll number, and for an administrator read all accounts
  and request all results.
\<close>

definition dash_on_user :: "auth_state \<Rightarrow> dash_state \<Rightarrow> dash_state" where
  "dash_on_user a d =
     (let d1 = (case user a of
                  Some u \<Rightarrow> if rollNo u \<noteq> [] then start_search (rollNo u) (d\<lparr>searchRollNo := rollNo u\<rparr>) else d
                | None \<Rightarrow> d)
      in if is_admin_user (user a) then d1\<lparr>allUsers := get_all_users a, all_pending := True\<rparr> else d1)"

text \<open>Lines 60--65: \<open>fetchAllResults\<close> answers (it always succeeds).\<close>

definition resolve_all :: "dash_state \<Rightarrow> dash_state" where
  "resolve_all d =
     (if all_pending d
      then d\<lparr>allResults := (case data fetchAllResults of Some rs \<Rightarrow> rs | None \<Rightarrow> allResults d),
             all_pending := False\<rparr>
      else d)"

text \<open>\<open>openPasswordModal\<close>, lines 128--134.\<close>

definition open_password_modal :: "account \<Rightarrow> dash_state \<Rightarrow> dash_state" where
  "open_password_modal u d =
     d\<lparr>selectedUser := Some u, newPassword := [], showPasswordModal := True, error := [], dsuccess := []\<rparr>"

text \<open>
  \<open>handlePasswordChange\<close>, lines 136--152, with \<open>loadAllUsers\<close> (lines 75--78).  A
  missing \<open>selectedUser\<close> makes \<open>selectedUser.email\<close> throw, which rejects the
  handler's promise and leaves both states as they were.  A success arms the
  three-second timer of line 148 (\<open>success_timers\<close> counts the armed ones); it fires
  as the separate event \<open>SuccessTimeout\<close>.
\<close>

definition handle_password_change :: "auth_state \<times> dash_state \<Rightarrow> auth_state \<times> dash_state" where
  "handle_password_change ad =
     (let (a, d) = ad in
      if newPassword d = [] \<or> length (newPassword d) < 6
      then (a, d\<lparr>error := ''Password must be at least 6 characters''\<rparr>)
      else (case selectedUser d of
              None \<Rightarrow> (a, d)
            | Some u \<Rightarrow>
                (let (r, a') = change_password (email u) (newPassword d) a;
                     m = (case message r of Some m \<Rightarrow> m | None \<Rightarrow> [])
                 in if success r
                    then (a', d\<lparr>dsuccess := m, showPasswordModal := False, allUsers := get_all_users a',
                                 success_timers := Suc (success_timers d)\<rparr>)
                    else (a', d\<lparr>error := m\<rparr>))))"

text \<open>
  \<open>handleLogout\<close>, lines 91--94: the provider's \<open>logout\<close>, then navigation to the login
  page, which unmounts the dashboard; it ends the page's life rather than being one of its
  steps.
\<close>

definition handle_logout :: "auth_state \<Rightarrow> auth_state \<times> string" where
  "handle_logout a = (logout a, ''/login'')"

text \<open>\<open>getGradeColor\<close>, lines 154--163.\<close>

definition getGradeColor :: "string \<Rightarrow> string" where
  "getGradeColor g =
     (if g \<in> {''A'', ''B'', ''C'', ''D'', ''F''} then ''grade-'' @ g else ''grade-F'')"

section \<open>What renders, and which events it offers\<close>

record dash_view =
  view_admin_tabs :: bool
  view_student_card :: bool
  view_search :: bool
  view_all_results :: bool
  view_user_management :: bool
  view_loading :: bool
  view_modal :: bool

text \<open>The guards of the rendered sections, lines 165--503.\<close>

definition dash_view :: "account option \<Rightarrow> dash_state \<Rightarrow> dash_view" where
  "dash_view u d =
     \<lparr>view_admin_tabs = is_admin_user u,
      view_student_card = \<not> is_admin_user u,
      view_search = (\<not> is_admin_user u \<or> activeTab d = TabSearch),
      view_all_results = (is_admin_user u \<and> activeTab d = TabAll),
      view_user_management = (is_admin_user u \<and> activeTab d = TabUsers),
      view_loading = dloading d,
      view_modal = showPasswordModal d\<rparr>"

datatype dash_event =
    EditRollNo string
  | SubmitSearch
  | SearchResolved
  | AllResolved
  | SelectTab tab
  | OpenModal account
  | EditNewPassword string
  | ToggleShowNew
  | ChangeSubmit
  | CancelModal
  | SuccessTimeout

text \<open>
  The events a rendered page offers (lines 216--250 tabs, 291--312 search form, 472 the
  per-account button of the user table, 530--586 the modal), and the answers of queries
  in flight, and the timers armed.  The search button is disabled while \<open>loading\<close>
  (line 309).
\<close>

definition dash_enabled :: "account option \<Rightarrow> dash_state \<Rightarrow> dash_event \<Rightarrow> bool" where
  "dash_enabled u d e =
     (let v = dash_view u d in
      case e of
        EditRollNo _ \<Rightarrow> view_search v
      | SubmitSearch \<Rightarrow> view_search v \<and> \<not> dloading d
      | SearchResolved \<Rightarrow> pending d \<noteq> []
      | AllResolved \<Rightarrow> all_pending d
      | SelectTab _ \<Rightarrow> view_admin_tabs v
      | OpenModal x \<Rightarrow> view_user_management v \<and> x \<in> set (allUsers d)
      | EditNewPassword _ \<Rightarrow> view_modal v
      | ToggleShowNew \<Rightarrow> view_modal v
      | ChangeSubmit \<Rightarrow> view_modal v
      | CancelModal \<Rightarrow> view_modal v
      | SuccessTimeout \<Rightarrow> 0 < success_timers d)"

text \<open>One event on the pair of provider state and page state.\<close>

fun dash_step :: "auth_state \<times> dash_state \<Rightarrow> dash_event \<Rightarrow> auth_state \<times> dash_state" where
  "dash_step (a, d) (EditRollNo r) = (a, d\<lparr>searchRollNo := r\<rparr>)"
| "dash_step (a, d) SubmitSearch = (a, load_results (searchRollNo d) d)"
| "dash_step (a, d) SearchResolved = (a, resolve_search d)"
| "dash_step (a, d) AllResolved = (a, resolve_all d)"
| "dash_step (a, d) (SelectTab t) = (a, d\<lparr>activeTab := t\<rparr>)"
| "dash_step (a, d) (OpenModal u) = (a, open_password_modal u d)"
| "dash_step (a, d) (EditNewPassword p) = (a, d\<lparr>newPassword := p\<rparr>)"
| "dash_step (a, d) ToggleShowNew = (a, d\<lparr>showNewPassword := \<not> showNewPassword d\<rparr>)"
| "dash_step (a, d) ChangeSubmit = handle_password_change (a, d)"
| "dash_step (a, d) CancelModal = (a, d\<lparr>showPasswordModal := False, error := []\<rparr>)"
| "dash_step (a, d) SuccessTimeout = (a, d\<lparr>dsuccess := [], success_timers := success_timers d - 1\<rparr>)"

text \<open>
  The pages the dashboard can show for a session \<open>a0\<close>: it mounts with the effect of
  lines 26--73, and every later step is an event the rendered page offers.
\<close>

inductive dash_reach :: "auth_state \<Rightarrow> auth_state \<times> dash_state \<Rightarrow> bool" for a0 where
  mount: "dash_reach a0 (a0, dash_on_user a0 init_dash)"
| step: "dash_reach a0 (a, d) \<Longrightarrow> dash_enabled (user a) d e \<Longrightarrow> dash_reach a0 (dash_step (a, d) e)"

section \<open>The event loop delivering the answers\<close>

text \<open>
  The two queries resume after \<open>setTimeout(resolve, 500)\<close> (\<open>api.js\<close> lines 59 and
  89).  Left alone, the browser's event loop delivers the answers in flight one by one,
  oldest search first; \<open>settle\<close> is that loop, as \<open>while_option\<close>, \<open>None\<close> if it
  never stopped.
\<close>

definition answer_next :: "dash_state \<Rightarrow> dash_state" where
  "answer_next d = (if pending d \<noteq> [] then resolve_search d else resolve_all d)"

definition settle :: "dash_state \<Rightarrow> dash_state option" where
  "settle d = while_option (\<lambda>d. pending d \<noteq> [] \<or> all_pending d) answer_next d"

section \<open>Behaviour of the handlers\<close>

named_theorems dash_simps "field equations of the dashboard handlers"

lemma start_search_fields [dash_simps]:
  "showPasswordModal (start_search r d) = showPasswordModal d"
  "allUsers (start_search r d) = allUsers d" "allResults (start_search r d) = allResults d"
  "all_pending (start_search r d) = all_pending d" "dloading (start_search r d)"
  "pending (start_search r d) = pending d @ [r]"
  by (simp_all add: start_search_def)

lemma load_results_fields [dash_simps]:
  "showPasswordModal (load_results r d) = showPasswordModal d"
  "allUsers (load_results r d) = allUsers d" "allResults (load_results r d) = allResults d"
  "all_pending (load_results r d) = all_pending d"
  by (simp_all add: load_results_def dash_simps)

lemma resolve_search_fields [dash_simps]:
  "showPasswordModal (resolve_search d) = showPasswordModal d"
  "allUsers (resolve_search d) = allUsers d" "allResults (resolve_search d) = allResults d"
  "all_pending (resolve_search d) = all_pending d"
  "pending (resolve_search d) = tl (pending d)"
  "pending d \<noteq> [] \<Longrightarrow> \<not> dloading (resolve_search d)"
  by (simp_all add: resolve_search_def Let_def split: list.splits)

lemma resolve_all_fields [dash_simps]:
  "showPasswordModal (resolve_all d) = showPasswordModal d"
  "allUsers (resolve_all d) = allUsers d" "dloading (resolve_all d) = dloading d"
  "pending (resolve_all d) = pending d" "\<not> all_pending d \<Longrightarrow> resolve_all d = d"
  by (simp_all add: resolve_all_def)

lemma handle_password_change_short:
  "length (newPassword d) < 6 \<Longrightarrow>
   handle_password_change (a, d) = (a, d\<lparr>error := ''Password must be at least 6 characters''\<rparr>)"
  by (simp add: handle_password_change_def)

lemma handle_password_change_Some:
  "\<not> length (newPassword d) < 6 \<Longrightarrow> selectedUser d = Some u \<Longrightarrow>
   fst (handle_password_change (a, d)) = snd (change_password (email u) (newPassword d) a)"
  by (cases "newPassword d = []") (simp_all add: handle_password_change_def Let_def split: prod.split)

text \<open>The handler either leaves the provider state alone or runs \<open>changePassword\<close> on it.\<close>

lemma handle_password_change_auth:
  "fst (handle_password_change (a, d)) = a \<or>
   (\<exists>u::account. fst (handle_password_change (a, d)) = snd (change_password (email u) (newPassword d) a))"
proof (cases "length (newPassword d) < 6")
  case True
  then show ?thesis by (simp add: handle_password_change_short)
next
  case False
  show ?thesis
  proof (cases "selectedUser d")
    case None
    with False show ?thesis by (simp add: handle_password_change_def)
  next
    case (Some u)
    with False show ?thesis by (blast dest: handle_password_change_Some)
  qed
qed

lemma handle_password_change_fields [dash_simps]:
  "dloading (snd (handle_password_change (a, d))) = dloading d"
  "pending (snd (handle_password_change (a, d))) = pending d"
  "all_pending (snd (handle_password_change (a, d))) = all_pending d"
  "allResults (snd (handle_password_change (a, d))) = allResults d"
  by (auto simp: handle_password_change_def Let_def split: option.splits prod.splits)

lemma dash_step_user: "user (fst (dash_step (a, d) e)) = user a"
proof (cases "e = ChangeSubmit")
  case True
  from handle_password_change_auth [of a d] show ?thesis
  proof
    assume "\<exists>u::account. fst (handle_password_change (a, d)) = snd (change_password (email u) (newPassword d) a)"
    then obtain u :: account where "fst (handle_password_change (a, d)) = snd (change_password (email u) (newPassword d) a)"
      by blast
    with True show ?thesis by simp
  qed (simp add: True)
next
  case False
  then show ?thesis by (cases e) simp_all
qed

lemma dash_step_other: "e \<noteq> ChangeSubmit \<Longrightarrow> fst (dash_step (a, d) e) = a"
  by (cases e) simp_all

text \<open>\<open>changePassword\<close> changes one password and nothing else of the store.\<close>

definition strip_password :: "account \<Rightarrow> account" where
  "strip_password u = u\<lparr>password := []\<rparr>"

lemma change_password_only_password:
  assumes "read_users (storage s) = Some us"
  obtains us' where "read_users (storage (snd (change_password t pw s))) = Some us'"
    and "map strip_password us' = map strip_password us"
    and "ls_token (storage (snd (change_password t pw s))) = ls_token (storage s)"
    and "ls_user (storage (snd (change_password t pw s))) = ls_user (storage s)"
proof (cases "js_findIndex (\<lambda>u. email u = t) us = -1")
  case True
  with assms show ?thesis by (intro that) (simp_all add: change_password_def)
next
  case False
  with js_findIndex_range [of "\<lambda>u. email u = t" us] obtain k
    where k: "js_findIndex (\<lambda>u. email u = t) us = int k" and lt: "k < length us"
    by (metis nonneg_int_cases of_nat_less_iff)
  have "map strip_password (us[k := (us ! k)\<lparr>password := pw\<rparr>]) = map strip_password us"
    using lt by (rule map_update_same_field) (simp add: strip_password_def)
  with assms k show ?thesis
    by (intro that [of "us[k := (us ! k)\<lparr>password := pw\<rparr>]"]) (simp_all add: change_password_at storage_simps)
qed

lemma tl_at_most_one: "length xs \<le> 1 \<Longrightarrow> tl xs = []"
  by (cases xs) simp_all

lemma dash_on_user_fields [dash_simps]:
  "showPasswordModal (dash_on_user a init_dash) = False"
  "allResults (dash_on_user a init_dash) = []"
  "allUsers (dash_on_user a init_dash) = (if is_admin_user (user a) then get_all_users a else [])"
  "all_pending (dash_on_user a init_dash) = is_admin_user (user a)"
  "dloading (dash_on_user a init_dash) \<longleftrightarrow> pending (dash_on_user a init_dash) \<noteq> []"
  "length (pending (dash_on_user a init_dash)) \<le> 1"
  by (simp_all add: dash_on_user_def init_dash_def Let_def dash_simps split: option.splits)

lemma fixture_roll_facts:
  "r \<in> set (map snd resultsDatabase) \<Longrightarrow>
   js_trim (res_rollNo r) \<noteq> [] \<and> fetchStudentResults (res_rollNo r) = success_data r"
  by (auto simp: resultsDatabase_def fetchStudentResults_def mk_subject_def js_trim_def js_whitespace_def)

lemma dash_reach_loading:
  "dash_reach a0 p \<Longrightarrow> (dloading (snd p) \<longleftrightarrow> pending (snd p) \<noteq> []) \<and> length (pending (snd p)) \<le> 1"
proof (induction rule: dash_reach.induct)
  case mount
  show ?case using dash_on_user_fields(5,6) [of a0] by simp
next
  case (step a d e)
  then show ?case
    by (cases e) (auto simp: dash_enabled_def dash_view_def dash_simps load_results_def open_password_modal_def tl_at_most_one)
qed

lemma resolve_all_clears [dash_simps]: "\<not> all_pending (resolve_all d)"
  by (simp add: resolve_all_def)

lemma settle_Some: "\<exists>d'. settle d = Some d'"
  unfolding settle_def
  by (rule measure_while_option_Some [where P = "\<lambda>_. True"
        and f = "\<lambda>d. length (pending d) + (if all_pending d then 1 else 0)"])
     (auto simp: answer_next_def dash_simps)

lemma settle_stop: "settle d = Some d' \<Longrightarrow> pending d' = [] \<and> \<not> all_pending d'"
  unfolding settle_def by (drule while_option_stop) simp

lemma answer_next_step:
  assumes "dash_reach a0 (a, d)" and "pending d \<noteq> [] \<or> all_pending d"
  shows "dash_reach a0 (a, answer_next d)"
proof (cases "pending d \<noteq> []")
  case True
  with assms(1) have "dash_reach a0 (dash_step (a, d) SearchResolved)"
    by (intro dash_reach.step) (simp_all add: dash_enabled_def)
  with True show ?thesis by (simp add: answer_next_def)
next
  case False
  with assms have "dash_reach a0 (dash_step (a, d) AllResolved)"
    by (intro dash_reach.step) (simp_all add: dash_enabled_def)
  with False show ?thesis by (simp add: answer_next_def)
qed

lemma settle_reach:
  assumes "dash_reach a0 (a, d)" and "settle d = Some d'"
  shows "dash_reach a0 (a, d')"
  using answer_next_step assms(2) [unfolded settle_def] assms(1)
  by (rule while_option_rule [where P = "\<lambda>d. dash_reach a0 (a, d)"])

lemma dash_reach_user: "dash_reach a0 p \<Longrightarrow> user (fst p) = user a0"
proof (induction rule: dash_reach.induct)
  case mount
  then show ?case by simp
next
  case (step a d e)
  then show ?case by (simp add: dash_step_user)
qed

text \<open>Typing a roll number, submitting it and receiving the answer.\<close>

lemma search_steps:
  "snd (dash_step (dash_step (dash_step (a, d) (EditRollNo r)) SubmitSearch) SearchResolved) =
     resolve_search (load_results r (d\<lparr>searchRollNo := r\<rparr>))"
  by simp

lemma fetch_padded:
  "js_whitespace c \<Longrightarrow> fetchStudentResults (c # r) = failure ''No results found for this roll number.''"
  by (auto simp: fetchStudentResults_def resultsDatabase_def mk_subject_def js_whitespace_def)

section \<open>Properties of the page\<close>

text \<open>
  C33: on a student's dashboard (or one without a session) no sequence of the events the
  page offers changes the provider state, opens the password modal, or fills the account
  list or the table of all results.
\<close>

theorem student_dashboard_readonly:
  assumes "dash_reach a0 (a, d)" and "\<not> is_admin_user (user a0)"
  shows "a = a0 \<and> \<not> showPasswordModal d \<and> allUsers d = [] \<and> allResults d = []"
proof -
  have "fst p = a0 \<and> \<not> showPasswordModal (snd p) \<and> allUsers (snd p) = [] \<and>
        allResults (snd p) = [] \<and> \<not> all_pending (snd p)" if "dash_reach a0 p" for p
    using that
  proof induction
    case mount
    from assms(2) show ?case by (simp add: dash_simps)
  next
    case (step a d e)
    with assms(2) show ?case
      by (cases e) (auto simp: dash_enabled_def dash_view_def dash_simps)
  qed
  from this [OF assms(1)] show ?thesis by simp
qed

theorem student_dashboard_readonly_witness:
  "\<not> showPasswordModal (dash_on_user (init_auth empty_storage) init_dash) \<and>
   allUsers (dash_on_user (init_auth empty_storage) init_dash) = []"
  using student_dashboard_readonly [OF dash_reach.mount, of "init_auth empty_storage"]
  by (simp add: init_auth_def is_admin_user_def)

text \<open>
  C34: at most one result search is in flight, and the page shows its loading indicator
  exactly while one is: the disabled search button is what keeps a second one out.
\<close>

theorem dash_search_in_flight:
  assumes "dash_reach a0 (a, d)"
  shows "(dloading d \<longleftrightarrow> pending d \<noteq> []) \<and> length (pending d) \<le> 1"
  using dash_reach_loading [OF assms] by simp

theorem dash_search_in_flight_witness:
  "(dloading (dash_on_user (init_auth empty_storage) init_dash) \<longleftrightarrow>
      pending (dash_on_user (init_auth empty_storage) init_dash) \<noteq> []) \<and>
   length (pending (dash_on_user (init_auth empty_storage) init_dash)) \<le> 1"
  by (rule dash_search_in_flight [OF dash_reach.mount])

text \<open>
  C35: the password change of the administrator's modal.  A password shorter than six
  characters is refused with the page's message and nothing else changes; otherwise the
  selected account (found by e-mail, which the stored list keeps unique) gets the new
  password, the modal closes, the success message shows, its timer is armed, and the
  account list is re-read from the store.
\<close>

theorem dashboard_change_password:
  assumes us: "read_users (storage a) = Some us" and dist: "distinct (map email us)"
    and i: "i < length us" and sel: "selectedUser d = Some u" and e: "email u = email (us ! i)"
  shows "handle_password_change (a, d) =
    (if length (newPassword d) < 6
     then (a, d\<lparr>error := ''Password must be at least 6 characters''\<rparr>)
     else (a\<lparr>storage := write_users (us[i := (us ! i)\<lparr>password := newPassword d\<rparr>]) (storage a)\<rparr>,
           d\<lparr>dsuccess := ''Password changed successfully!'', showPasswordModal := False,
             allUsers := us[i := (us ! i)\<lparr>password := newPassword d\<rparr>],
             success_timers := Suc (success_timers d)\<rparr>))"
proof (cases "length (newPassword d) < 6")
  case True
  then show ?thesis by (simp add: handle_password_change_short)
next
  case False
  then have ne: "newPassword d \<noteq> []" by auto
  from dist i e have "js_findIndex (\<lambda>x. email x = email u) us = int i"
    by (simp add: js_findIndex_email_distinct)
  with us have "change_password (email u) (newPassword d) a =
     (success_msg ''Password changed successfully!'',
      a\<lparr>storage := write_users (us[i := (us ! i)\<lparr>password := newPassword d\<rparr>]) (storage a)\<rparr>)"
    by (rule change_password_at)
  with False ne sel show ?thesis
    by (simp add: handle_password_change_def get_all_users_def storage_simps response_defs)
qed

theorem dashboard_change_password_witness:
  "handle_password_change
     (init_auth (write_users [default_admin ''t''] empty_storage),
      init_dash\<lparr>selectedUser := Some (default_admin ''t''), newPassword := ''newpass1''\<rparr>) =
   (init_auth (write_users [default_admin ''t''] empty_storage)\<lparr>storage :=
      write_users [(default_admin ''t'')\<lparr>password := ''newpass1''\<rparr>]
        (storage (init_auth (write_users [default_admin ''t''] empty_storage)))\<rparr>,
    init_dash\<lparr>selectedUser := Some (default_admin ''t''), newPassword := ''newpass1'',
      dsuccess := ''Password changed successfully!'', showPasswordModal := False,
      allUsers := [(default_admin ''t'')\<lparr>password := ''newpass1''\<rparr>],
      success_timers := Suc (success_timers init_dash)\<rparr>)"
  apply (rule trans [OF dashboard_change_password
    [of "init_auth (write_users [default_admin ''t''] empty_storage)" "[default_admin ''t'']"
        0 "init_dash\<lparr>selectedUser := Some (default_admin ''t''), newPassword := ''newpass1''\<rparr>"
        "default_admin ''t''"]])
  apply (simp add: init_auth_def storage_simps)
  apply simp_all
  done

text \<open>
  C36: whatever the administrator does on the dashboard, the store of accounts keeps the
  same accounts in the same order with every field but the password unchanged, and the
  session (token, stored user, current user) is untouched.
\<close>

theorem dashboard_changes_only_passwords:
  assumes "dash_reach a0 (a, d)" and "read_users (storage a0) = Some us0"
  shows "\<exists>us. read_users (storage a) = Some us \<and> map strip_password us = map strip_password us0 \<and>
           ls_token (storage a) = ls_token (storage a0) \<and> ls_user (storage a) = ls_user (storage a0) \<and>
           user a = user a0"
proof -
  have "\<exists>us. read_users (storage (fst p)) = Some us \<and> map strip_password us = map strip_password us0 \<and>
           ls_token (storage (fst p)) = ls_token (storage a0) \<and> ls_user (storage (fst p)) = ls_user (storage a0) \<and>
           user (fst p) = user a0" if "dash_reach a0 p" for p
    using that
  proof induction
    case mount
    with assms(2) show ?case by simp
  next
    case (step a d e)
    then obtain us where us: "read_users (storage a) = Some us"
      and rest: "map strip_password us = map strip_password us0"
        "ls_token (storage a) = ls_token (storage a0)" "ls_user (storage a) = ls_user (storage a0)"
        "user a = user a0"
      by auto
    have user: "user (fst (dash_step (a, d) e)) = user a0"
      using rest(4) by (simp add: dash_step_user)
    show ?case
    proof (cases "e = ChangeSubmit \<and> fst (handle_password_change (a, d)) \<noteq> a")
      case True
      with handle_password_change_auth [of a d] obtain u :: account
        where eq: "fst (dash_step (a, d) e) = snd (change_password (email u) (newPassword d) a)"
        by auto
      from us obtain us' where "read_users (storage (snd (change_password (email u) (newPassword d) a))) = Some us'"
        and "map strip_password us' = map strip_password us"
        and "ls_token (storage (snd (change_password (email u) (newPassword d) a))) = ls_token (storage a)"
        and "ls_user (storage (snd (change_password (email u) (newPassword d) a))) = ls_user (storage a)"
        by (rule change_password_only_password)
      with eq rest user show ?thesis by auto
    next
      case False
      then have "fst (dash_step (a, d) e) = a"
        by (cases "e = ChangeSubmit") (simp_all add: dash_step_other)
      with us rest show ?thesis by auto
    qed
  qed
  from this [OF assms(1)] show ?thesis by simp
qed

theorem dashboard_changes_only_passwords_witness:
  "\<exists>us. read_users (storage (init_auth (write_users [default_admin ''t''] empty_storage))) = Some us \<and>
     map strip_password us = map strip_password [default_admin ''t''] \<and>
     ls_token (storage (init_auth (write_users [default_admin ''t''] empty_storage))) =
       ls_token (storage (init_auth (write_users [default_admin ''t''] empty_storage))) \<and>
     ls_user (storage (init_auth (write_users [default_admin ''t''] empty_storage))) =
       ls_user (storage (init_auth (write_users [default_admin ''t''] empty_storage))) \<and>
     user (init_auth (write_users [default_admin ''t''] empty_storage)) =
       user (init_auth (write_users [default_admin ''t''] empty_storage))"
  by (rule dashboard_changes_only_passwords [OF dash_reach.mount]) (simp add: init_auth_def storage_simps)



text \<open>
  C21: every dashboard the visitor can reach settles: delivering the answers in flight
  (events the page offers) reaches a page of the same visit on which no query is in
  flight and the loading indicator is off.
\<close>

theorem dash_settles:
  assumes "dash_reach a0 (a, d)"
  shows "\<exists>d'. settle d = Some d' \<and> dash_reach a0 (a, d') \<and> \<not> dloading d' \<and>
              pending d' = [] \<and> \<not> all_pending d'"
proof -
  from settle_Some obtain d' where s: "settle d = Some d'" ..
  from assms s have r: "dash_reach a0 (a, d')" by (rule settle_reach)
  from settle_stop [OF s] have "pending d' = [] \<and> \<not> all_pending d'" .
  with dash_reach_loading [OF r] s r show ?thesis by auto
qed

theorem dash_settles_witness:
  "\<exists>d'. settle (dash_on_user (init_auth empty_storage) init_dash) = Some d' \<and>
     dash_reach (init_auth empty_storage) (init_auth empty_storage, d') \<and> \<not> dloading d' \<and>
     pending d' = [] \<and> \<not> all_pending d'"
  by (rule dash_settles [OF dash_reach.mount])

text \<open>
  C16: the dashboard's search refines the results table seen as a map from roll number
  to record: typing any roll number that is not blank, submitting it with no search in
  flight and receiving the answer shows exactly the record the map holds, or the
  not-found message when it holds none, and clears loading and the success message.
\<close>

theorem search_refines_roll_map:
  assumes p: "pending d = []" and t: "js_trim r \<noteq> []"
  shows "snd (dash_step (dash_step (dash_step (a, d) (EditRollNo r)) SubmitSearch) SearchResolved) =
    d\<lparr>searchRollNo := r, results := results_by_roll r,
      error := (case results_by_roll r of None \<Rightarrow> ''No results found for this roll number.'' | Some _ \<Rightarrow> []),
      dsuccess := [], dloading := False\<rparr>"
proof (cases "results_by_roll r")
  case None
  then have "fetchStudentResults r = failure ''No results found for this roll number.''"
    by (simp add: fetch_refines_roll_map)
  with None p t show ?thesis
    unfolding search_steps
    by (intro dash_state.equality) (simp_all add: load_results_def start_search_def resolve_search_def response_defs)
next
  case (Some x)
  then have "fetchStudentResults r = success_data x"
    by (simp add: fetch_refines_roll_map)
  with Some p t show ?thesis
    unfolding search_steps
    by (intro dash_state.equality) (simp_all add: load_results_def start_search_def resolve_search_def response_defs)
qed

theorem search_refines_roll_map_witness:
  "snd (dash_step (dash_step (dash_step (init_auth empty_storage, init_dash) (EditRollNo ''9999-999'')) SubmitSearch)
     SearchResolved) =
   init_dash\<lparr>searchRollNo := ''9999-999'', results := results_by_roll ''9999-999'',
      error := (case results_by_roll ''9999-999'' of None \<Rightarrow> ''No results found for this roll number.'' | Some _ \<Rightarrow> []),
      dsuccess := [], dloading := False\<rparr>"
  by (rule search_refines_roll_map) (simp_all add: init_dash_def js_trim_def js_whitespace_def)

text \<open>
  C38: \<open>loadResults\<close> tests the trimmed roll number for emptiness but queries the
  untrimmed one: any roll number typed with leading white space passes the guard and is
  then reported as not found, even when its trimmed form is in the table.
\<close>

theorem search_padded_roll_not_found:
  assumes p: "pending d = []" and w: "js_whitespace c" and t: "js_trim (c # r) \<noteq> []"
  shows "results (snd (dash_step (dash_step (dash_step (a, d) (EditRollNo (c # r))) SubmitSearch) SearchResolved)) = None \<and>
         error (snd (dash_step (dash_step (dash_step (a, d) (EditRollNo (c # r))) SubmitSearch) SearchResolved)) =
           ''No results found for this roll number.''"
  unfolding search_steps
  using p t fetch_padded [OF w, of r]
  by (simp add: load_results_def start_search_def resolve_search_def response_defs)

theorem search_padded_roll_not_found_witness:
  "results (snd (dash_step (dash_step (dash_step (init_auth empty_storage, init_dash) (EditRollNo (CHR '' '' # ''2024-001'')))
      SubmitSearch) SearchResolved)) = None \<and>
   error (snd (dash_step (dash_step (dash_step (init_auth empty_storage, init_dash) (EditRollNo (CHR '' '' # ''2024-001'')))
      SubmitSearch) SearchResolved)) = ''No results found for this roll number.''"
  by (rule search_padded_roll_not_found) (simp_all add: init_dash_def js_trim_def js_whitespace_def)

text \<open>
  C26: the spec's open access, as the page delivers it: on a student's dashboard with no
  search running, the search form is offered and typing, submitting and receiving the
  answer for the roll number of any record of the table (another student's included)
  are steps of the visit that show that record.
\<close>

theorem student_search_any_roll:
  assumes reach: "dash_reach a0 (a, d)" and stu: "\<not> is_admin_user (user a0)"
    and idle: "\<not> dloading d" and x: "x \<in> set (map snd resultsDatabase)"
  shows "dash_reach a0 (a, snd (dash_step (dash_step (dash_step (a, d) (EditRollNo (res_rollNo x))) SubmitSearch)
           SearchResolved)) \<and>
         results (snd (dash_step (dash_step (dash_step (a, d) (EditRollNo (res_rollNo x))) SubmitSearch)
           SearchResolved)) = Some x"
proof -
  from dash_reach_user [OF reach] stu have u: "\<not> is_admin_user (user a)" by simp
  from dash_reach_loading [OF reach] idle have p: "pending d = []" by simp
  from fixture_roll_facts [OF x] have t: "js_trim (res_rollNo x) \<noteq> []"
    and f: "fetchStudentResults (res_rollNo x) = success_data x" by auto
  let ?d1 = "d\<lparr>searchRollNo := res_rollNo x\<rparr>"
  have r1: "dash_reach a0 (a, ?d1)"
    using dash_reach.step [OF reach, of "EditRollNo (res_rollNo x)"] u
    by (simp add: dash_enabled_def dash_view_def)
  have r2: "dash_reach a0 (a, start_search (res_rollNo x) ?d1)"
    using dash_reach.step [OF r1, of SubmitSearch] u idle t
    by (simp add: dash_enabled_def dash_view_def load_results_def)
  have r3: "dash_reach a0 (a, resolve_search (start_search (res_rollNo x) ?d1))"
    using dash_reach.step [OF r2, of SearchResolved]
    by (simp add: dash_enabled_def dash_simps)
  with t p f show ?thesis
    by (simp add: load_results_def start_search_def resolve_search_def response_defs)
qed

theorem student_search_any_roll_witness:
  "dash_reach (init_auth empty_storage)
     (init_auth empty_storage, snd (dash_step (dash_step (dash_step (init_auth empty_storage,
        dash_on_user (init_auth empty_storage) init_dash) (EditRollNo (res_rollNo (snd (hd resultsDatabase)))))
        SubmitSearch) SearchResolved)) \<and>
   results (snd (dash_step (dash_step (dash_step (init_auth empty_storage,
        dash_on_user (init_auth empty_storage) init_dash) (EditRollNo (res_rollNo (snd (hd resultsDatabase)))))
        SubmitSearch) SearchResolved)) = Some (snd (hd resultsDatabase))"
  by (rule student_search_any_roll [OF dash_reach.mount])
     (simp_all add: init_auth_def is_admin_user_def dash_on_user_def init_dash_def resultsDatabase_def)

end
