(* ===== verification/Dashboard_View.thy ===== *)
theory Dashboard_View
  imports Dashboard
begin

text \<open>
  What the dashboard's sections show (\<open>src/src/pages/Dashboard.js\<close>, lines 196--492),
  as data: the text of each cell and the CSS class of each grade badge.  Numbers are
  rendered by React as their decimal text (\<open>string_of_nat\<close>), an absent value
  (\<open>user?.name\<close> without a session) as the empty text.  The controls rendered next
  to the data are paired with the event they fire.
\<close>

section \<open>Sections\<close>

text \<open>The greeting of lines 196--203.\<close>

definition welcome_card :: "account option \<Rightarrow> string \<times> string" where
  "welcome_card u =
     (''Welcome back, '' @ (case u of Some v \<Rightarrow> name v | None \<Rightarrow> []) @ ''!'',
      if is_admin_user u
      then ''You have full access to all student records and can manage passwords.''
      else ''Search for any student result using their roll number.'')"

text \<open>The student card of lines 262--283: name, e-mail, class, roll number.\<close>

definition student_card :: "account option \<Rightarrow> string list" where
  "student_card u =
     (case u of Some v \<Rightarrow> [name v, email v, class_name v, rollNo v] | None \<Rightarrow> [[], [], [], []])"

text \<open>A subject's cells (lines 371--379 and 417--425) and its grade badge's class.\<close>

definition subject_cells :: "subject \<Rightarrow> string list" where
  "subject_cells s =
     [subj_name s, string_of_nat (total s), string_of_nat (obtained s),
      string_of_nat (percentage s) @ ''%'', grade s]"

definition badge_class :: "subject \<Rightarrow> string" where
  "badge_class s = ''grade-badge '' @ getGradeColor (grade s)"

text \<open>
  The results section of lines 331--389, shown when \<open>results\<close> is set: the student
  information (roll number, name, class, father's name) and one row per subject, with
  the remarks as last cell.
\<close>

definition results_section :: "result_record option \<Rightarrow> (string list \<times> (string list \<times> string) list) option" where
  "results_section r =
     map_option (\<lambda>x. ([res_rollNo x, studentName x, res_class x, res_fatherName x],
                       map (\<lambda>s. (subject_cells s @ [remarks s], badge_class s)) (subjects x))) r"

text \<open>The administrator's table of all results, lines 394--435: a heading per student.\<close>

definition all_results_section :: "result_record list \<Rightarrow> (string \<times> string \<times> (string list \<times> string) list) list" where
  "all_results_section rs =
     map (\<lambda>x. (studentName x @ '' - '' @ res_rollNo x, res_class x,
               map (\<lambda>s. (subject_cells s, badge_class s)) (subjects x))) rs"

text \<open>
  The user table of lines 437--492: name, e-mail, roll number, class and role of each
  account, and the row's button, which fires \<open>openPasswordModal(userData)\<close>.
\<close>

definition user_rows :: "account list \<Rightarrow> (string list \<times> dash_event) list" where
  "user_rows us = map (\<lambda>u. ([name u, email u, rollNo u, class_name u, role u], OpenModal u)) us"

section \<open>Lemmas\<close>

lemma getGradeColor_range:
  "getGradeColor g \<in> {''grade-A'', ''grade-B'', ''grade-C'', ''grade-D'', ''grade-F''}"
  by (auto simp: getGradeColor_def)

lemma getGradeColor_valid: "g \<in> {''A'', ''B'', ''C'', ''D'', ''F''} \<Longrightarrow> getGradeColor g = ''grade-'' @ g"
  by (simp add: getGradeColor_def)

text \<open>Each button of the user table fires an event the page offers while the table shows.\<close>

lemma user_rows_enabled:
  assumes "(cells, e) \<in> set (user_rows (allUsers d))" and "view_user_management (dash_view u d)"
  shows "dash_enabled u d e"
  using assms by (auto simp: user_rows_def dash_enabled_def)

text \<open>The table lists the accounts the page holds, one row each, in their order.\<close>

lemma user_rows_accounts: "map (\<lambda>(c, e). e) (user_rows us) = map OpenModal us"
  by (simp add: user_rows_def)

lemma results_section_rows:
  "results_section (Some x) = Some (i, rows) \<Longrightarrow> length rows = length (subjects x)"
  by (auto simp: results_section_def)

text \<open>Every grade of the results table is one of the five the page has colours for.\<close>

lemma fixture_grades:
  "\<forall>x \<in> set (map snd resultsDatabase). \<forall>s \<in> set (subjects x). grade s \<in> {''A'', ''B'', ''C'', ''D'', ''F''}"
  by (simp add: resultsDatabase_def mk_subject_def)

lemma fixture_badges:
  "\<forall>x \<in> set (map snd resultsDatabase). \<forall>s \<in> set (subjects x). badge_class s = ''grade-badge grade-'' @ grade s"
  using fixture_grades by (auto simp: badge_class_def getGradeColor_valid)

text \<open>
  On an administrator's dashboard the table of all results is the whole results table
  once the page has settled: until \<open>fetchAllResults\<close> answers it is pending, and its
  answer is every record.
\<close>

lemma dash_reach_all_results:
  assumes "dash_reach a0 p" and "is_admin_user (user a0)"
  shows "all_pending (snd p) \<or> allResults (snd p) = map snd resultsDatabase"
  using assms(1)
proof induction
  case mount
  from assms(2) show ?case by (simp add: dash_simps)
next
  case (step a d e)
  then show ?case
    by (cases e) (auto simp: dash_simps load_results_def open_password_modal_def resolve_all_def
                    fetchAllResults_def response_defs)
qed

text \<open>
  C25: on an administrator's dashboard the table of all results is eventually complete:
  from every page of the visit, delivering the answers in flight terminates on a page of
  the same visit whose table of all results holds every record of the results table, in
  its order.
\<close>

theorem admin_dashboard_all_results:
  assumes reach: "dash_reach a0 (a, d)" and adm: "is_admin_user (user a0)"
  shows "\<exists>d'. settle d = Some d' \<and> dash_reach a0 (a, d') \<and> allResults d' = map snd resultsDatabase"
proof -
  from settle_Some obtain d' where s: "settle d = Some d'" ..
  from reach s have r: "dash_reach a0 (a, d')" by (rule settle_reach)
  from dash_reach_all_results [OF r adm] settle_stop [OF s]
  have "allResults d' = map snd resultsDatabase" by simp
  with s r show ?thesis by blast
qed

theorem admin_dashboard_all_results_witness:
  "\<exists>d'. settle (dash_on_user ((init_auth empty_storage)\<lparr>user := Some (default_admin ''t'')\<rparr>) init_dash) = Some d' \<and>
     dash_reach ((init_auth empty_storage)\<lparr>user := Some (default_admin ''t'')\<rparr>)
       ((init_auth empty_storage)\<lparr>user := Some (default_admin ''t'')\<rparr>, d') \<and>
     allResults d' = map snd resultsDatabase"
  by (rule admin_dashboard_all_results [OF dash_reach.mount]) (simp add: is_admin_user_def account_simps)

end
