(* ===== verification/Forms.thy ===== *)
theory Forms
  imports Prelude
begin

text \<open>
  The browser's constraint validation of the entry pages' inputs.  A form whose inputs
  fail it does not fire \<open>onSubmit\<close>, so these checks are guards of the pages' submit
  handlers although no JavaScript of the repository states them.  They follow the HTML
  standard: \<open>required\<close> rejects the empty value, \<open>minLength\<close> a value with fewer
  characters, and \<open>type="email"\<close> a non-empty value that is not a valid e-mail address
  (the standard's pattern: a local part of letters, digits and
  \<^verbatim>\<open>.!#$%&'*+/=?^_`{|}~-\<close>, an \<open>@\<close>, and dot-separated labels of at most 63
  letters, digits and hyphens that neither start nor end with a hyphen).
\<close>

section \<open>Character classes\<close>

definition is_alnum :: "char \<Rightarrow> bool" where
  "is_alnum c \<longleftrightarrow>
     (let n = (of_char c :: nat) in (48 \<le> n \<and> n \<le> 57) \<or> (65 \<le> n \<and> n \<le> 90) \<or> (97 \<le> n \<and> n \<le> 122))"

definition email_local_char :: "char \<Rightarrow> bool" where
  "email_local_char c \<longleftrightarrow> is_alnum c \<or> c \<in> set ''.!#$%&'*+/=?^_`{|}~-''"

definition label_ok :: "string \<Rightarrow> bool" where
  "label_ok l \<longleftrightarrow>
     l \<noteq> [] \<and> length l \<le> 63 \<and> is_alnum (hd l) \<and> is_alnum (last l) \<and>
     list_all (\<lambda>c. is_alnum c \<or> c = CHR ''-'') l"

section \<open>Splitting\<close>

text \<open>\<open>split_on c s\<close>: the pieces of \<open>s\<close> between occurrences of \<open>c\<close>, as \<open>s.split(c)\<close>.\<close>

fun split_on :: "char \<Rightarrow> string \<Rightarrow> string list" where
  "split_on c [] = [[]]"
| "split_on c (x # xs) =
     (if x = c then [] # split_on c xs
      else (case split_on c xs of p # ps \<Rightarrow> (x # p) # ps | [] \<Rightarrow> [[x]]))"

section \<open>The checks\<close>

definition valid_email :: "string \<Rightarrow> bool" where
  "valid_email s \<longleftrightarrow>
     (case split_on CHR ''@'' s of
        [l, d] \<Rightarrow> l \<noteq> [] \<and> list_all email_local_char l \<and> list_all label_ok (split_on CHR ''.'' d)
      | _ \<Rightarrow> False)"

text \<open>An input's validity: \<open>required\<close>, \<open>minLength\<close> (0 when absent), \<open>type="email"\<close>.\<close>

definition input_valid :: "bool \<Rightarrow> nat \<Rightarrow> bool \<Rightarrow> string \<Rightarrow> bool" where
  "input_valid req minlen is_email v \<longleftrightarrow>
     (req \<longrightarrow> v \<noteq> []) \<and> (v = [] \<or> (minlen \<le> length v \<and> (is_email \<longrightarrow> valid_email v)))"

section \<open>Lemmas\<close>

lemma split_on_nonempty [simp]: "split_on c s \<noteq> []"
  by (induction s) (auto split: list.splits)

lemma split_on_no_sep: "c \<notin> set s \<Longrightarrow> split_on c s = [s]"
  by (induction s) auto

lemma valid_email_at: "valid_email s \<Longrightarrow> CHR ''@'' \<in> set s"
  by (cases "CHR ''@'' \<in> set s") (simp_all add: valid_email_def split_on_no_sep)

lemma input_valid_min: "input_valid True n e v \<Longrightarrow> n \<le> length v"
  by (auto simp: input_valid_def)

end
