(* ===== verification/Pages.thy ===== *)
theory Pages
  imports Auth_Invariant Forms
begin

text \<open>
  The two entry pages, \<open>src/src/pages/Login.js\<close> and \<open>src/src/pages/Signup.js\<close>: their
  form state and the handlers that call the provider.  A handler runs from its call to
  its end as one step on the pair of provider state and page state; the provider's
  simulated delay and the browser's re-render in between change nothing the handler
  reads.  The page's \<open>navigate\<close> calls are the handler's output, a route or \<open>None\<close>.
  The two answers of \<open>window.prompt\<close> are inputs: \<open>None\<close> for a cancelled prompt.
  The pages' controls are events of \<open>login_step\<close> and \<open>signup_step\<close>, offered only
  while enabled (a disabled button, a form failing the browser's validation of
  \<open>Forms\<close>).  The theory also holds \<open>Unauthorized.js\<close> and the \<open>useAuth\<close> hook.
\<close>

section \<open>Shared pieces\<close>

text \<open>\<open>result.message\<close> as the string \<open>setError\<close> receives.\<close>

definition msg_of :: "'a response \<Rightarrow> string" where
  "msg_of r = (case message r of Some m \<Rightarrow> m | None \<Rightarrow> [])"

text \<open>
  The effect of \<open>Login.js\<close> lines 15--19 and \<open>Signup.js\<close> lines 25--29: an authenticated
  session leaves the page for the dashboard.
\<close>

definition auth_redirect :: "auth_state \<Rightarrow> string option" where
  "auth_redirect a = (if is_authenticated a then Some ''/dashboard'' else None)"

text \<open>
  The Google button of both pages (\<open>Login.js\<close> lines 43--58, \<open>Signup.js\<close> lines
  71--86): a prompt answered with an empty or cancelled e-mail does nothing; an empty or
  cancelled name becomes \<open>'Google User'\<close>.  The result is the provider's answer, if
  the provider was called, with the new provider state.
\<close>

definition google_prompt ::
  "nat \<Rightarrow> string \<Rightarrow> string option \<Rightarrow> string option \<Rightarrow> auth_state \<Rightarrow> unit response option \<times> auth_state" where
  "google_prompt now ts ge gn a =
     (case ge of
        Some e \<Rightarrow>
          if e = [] then (None, a)
          else (let n = (case gn of Some n \<Rightarrow> if n = [] then ''Google User'' else n | None \<Rightarrow> ''Google User'');
                    (r, a') = login_with_google now ts \<lparr>g_email = e, g_name = n\<rparr> a
                in (Some r, a'))
      | None \<Rightarrow> (None, a))"

section \<open>Login page\<close>

record login_page =
  lp_email :: string
  lp_password :: string
  lp_error :: string
  lp_loading :: bool
  lp_showPassword :: bool

text \<open>Lines 6--10.\<close>

definition init_login_page :: login_page where
  "init_login_page = \<lparr>lp_email = [], lp_password = [], lp_error = [], lp_loading = False, lp_showPassword = False\<rparr>"

text \<open>\<open>handleSubmit\<close>, lines 21--35.\<close>

definition login_submit ::
  "nat \<Rightarrow> auth_state \<times> login_page \<Rightarrow> (auth_state \<times> login_page) \<times> string option" where
  "login_submit now ap =
     (let (a, p) = ap;
          p1 = p\<lparr>lp_error := [], lp_loading := True\<rparr>;
          (r, a') = login now (lp_email p) (lp_password p) a
      in if success r then ((a', p1\<lparr>lp_loading := False\<rparr>), Some ''/dashboard'')
         else ((a', p1\<lparr>lp_error := msg_of r, lp_loading := False\<rparr>), None))"

text \<open>\<open>handleGoogleLogin\<close>, lines 37--61.\<close>

definition login_google ::
  "nat \<Rightarrow> string \<Rightarrow> string option \<Rightarrow> string option \<Rightarrow> auth_state \<times> login_page \<Rightarrow>
   (auth_state \<times> login_page) \<times> string option" where
  "login_google now ts ge gn ap =
     (let (a, p) = ap;
          p1 = p\<lparr>lp_error := [], lp_loading := True\<rparr>;
          (ro, a') = google_prompt now ts ge gn a
      in case ro of
           None \<Rightarrow> ((a', p1\<lparr>lp_loading := False\<rparr>), None)
         | Some r \<Rightarrow>
             if success r then ((a', p1\<lparr>lp_loading := False\<rparr>), Some ''/dashboard'')
             else ((a', p1\<lparr>lp_error := msg_of r, lp_loading := False\<rparr>), None))"

section \<open>Sign-up page\<close>

record signup_page =
  sp_form :: signup_form
  sp_confirm :: string
  sp_showPassword :: bool
  sp_showConfirm :: bool
  sp_error :: string
  sp_success :: string
  sp_loading :: bool
  sp_redirect_armed :: bool

text \<open>Lines 6--20: the empty form, with role \<open>'student'\<close>.\<close>

definition init_signup_page :: signup_page where
  "init_signup_page =
     \<lparr>sp_form = \<lparr>form_name = [], form_fatherName = [], form_class = [], form_email = [],
                 form_password = [], form_rollNo = [], form_role = ''student''\<rparr>,
      sp_confirm = [], sp_showPassword = False, sp_showConfirm = False, sp_error = [],
      sp_success = [], sp_loading = False, sp_redirect_armed = False\<rparr>"

text \<open>The \<open>name\<close> attributes of the form's inputs.\<close>

datatype form_field = FName | FFatherName | FClass | FEmail | FPassword | FRollNo | FRole

text \<open>\<open>handleChange\<close>, lines 31--36: \<open>{...formData, [e.target.name]: e.target.value}\<close>.\<close>

fun handle_change :: "form_field \<Rightarrow> string \<Rightarrow> signup_form \<Rightarrow> signup_form" where
  "handle_change FName v f = f\<lparr>form_name := v\<rparr>"
| "handle_change FFatherName v f = f\<lparr>form_fatherName := v\<rparr>"
| "handle_change FClass v f = f\<lparr>form_class := v\<rparr>"
| "handle_change FEmail v f = f\<lparr>form_email := v\<rparr>"
| "handle_change FPassword v f = f\<lparr>form_password := v\<rparr>"
| "handle_change FRollNo v f = f\<lparr>form_rollNo := v\<rparr>"
| "handle_change FRole v f = f\<lparr>form_role := v\<rparr>"

text \<open>
  \<open>handleSubmit\<close>, lines 38--63: the confirmation guard, then \<open>signup\<close>.  A success arms
  the two-second timer that navigates to the login page.
\<close>

definition signup_submit ::
  "nat \<Rightarrow> string \<Rightarrow> auth_state \<times> signup_page \<Rightarrow> auth_state \<times> signup_page" where
  "signup_submit now ts ap =
     (let (a, p) = ap;
          p1 = p\<lparr>sp_error := [], sp_success := []\<rparr>
      in if form_password (sp_form p) \<noteq> sp_confirm p
         then (a, p1\<lparr>sp_error := ''Passwords do not match!''\<rparr>)
         else (let (r, a') = signup now ts (sp_form p) a
               in if success r
                  then (a', p1\<lparr>sp_success := msg_of r @ '' Redirecting to login...'',
                               sp_redirect_armed := True, sp_loading := False\<rparr>)
                  else (a', p1\<lparr>sp_error := msg_of r, sp_loading := False\<rparr>)))"

text \<open>\<open>handleGoogleSignup\<close>, lines 65--89.\<close>

definition signup_google ::
  "nat \<Rightarrow> string \<Rightarrow> string option \<Rightarrow> string option \<Rightarrow> auth_state \<times> signup_page \<Rightarrow>
   (auth_state \<times> signup_page) \<times> string option" where
  "signup_google now ts ge gn ap =
     (let (a, p) = ap;
          p1 = p\<lparr>sp_error := [], sp_success := [], sp_loading := True\<rparr>;
          (ro, a') = google_prompt now ts ge gn a
      in case ro of
           None \<Rightarrow> ((a', p1\<lparr>sp_loading := False\<rparr>), None)
         | Some r \<Rightarrow>
             if success r then ((a', p1\<lparr>sp_loading := False\<rparr>), Some ''/dashboard'')
             else ((a', p1\<lparr>sp_error := msg_of r, sp_loading := False\<rparr>), None))"

section \<open>Unauthorized page and the provider hook\<close>

text \<open>
  \<open>Unauthorized.js\<close>, lines 5--30: the page shows the current role when there is a
  session and offers links to the dashboard and to the login page; it changes no state.
\<close>

definition unauthorized_view :: "account option \<Rightarrow> string option \<times> string list" where
  "unauthorized_view u = (map_option role u, [''/dashboard'', ''/login''])"

text \<open>
  \<open>useAuth\<close>, \<open>AuthContext.js\<close> lines 231--237: outside an \<open>AuthProvider\<close> the context
  is \<open>undefined\<close> and the hook throws; inside, it is the provider's value.
\<close>

definition use_auth :: "auth_state option \<Rightarrow> string + auth_state" where
  "use_auth c = (case c of None \<Rightarrow> Inl ''useAuth must be used within an AuthProvider'' | Some a \<Rightarrow> Inr a)"

section \<open>The pages as event-driven steps\<close>

text \<open>
  Constraint validation of the login form (lines 74--96): \<open>type="email" required\<close>
  and a \<open>required\<close> password.
\<close>

definition login_form_valid :: "login_page \<Rightarrow> bool" where
  "login_form_valid p \<longleftrightarrow> input_valid True 0 True (lp_email p) \<and> input_valid True 0 False (lp_password p)"

text \<open>
  The login page's controls: the two inputs (lines 79, 92), the visibility toggle
  (line 99), the submit button and the Google button, both \<open>disabled={loading}\<close>
  (lines 127, 146--147).  Clock readings and prompt answers are the events' inputs.
\<close>

datatype login_event =
    LEditEmail string
  | LEditPassword string
  | LToggleShow
  | LSubmit nat
  | LGoogle nat string "string option" "string option"

definition login_enabled :: "login_page \<Rightarrow> login_event \<Rightarrow> bool" where
  "login_enabled p e =
     (case e of
        LSubmit _ \<Rightarrow> \<not> lp_loading p \<and> login_form_valid p
      | LGoogle _ _ _ _ \<Rightarrow> \<not> lp_loading p
      | _ \<Rightarrow> True)"

fun login_step :: "auth_state \<times> login_page \<Rightarrow> login_event \<Rightarrow> (auth_state \<times> login_page) \<times> string option" where
  "login_step (a, p) (LEditEmail v) = ((a, p\<lparr>lp_email := v\<rparr>), None)"
| "login_step (a, p) (LEditPassword v) = ((a, p\<lparr>lp_password := v\<rparr>), None)"
| "login_step (a, p) LToggleShow = ((a, p\<lparr>lp_showPassword := \<not> lp_showPassword p\<rparr>), None)"
| "login_step (a, p) (LSubmit now) = login_submit now (a, p)"
| "login_step (a, p) (LGoogle now ts ge gn) = login_google now ts ge gn (a, p)"

text \<open>
  Constraint validation of the sign-up form (lines 104--218): every input
  \<open>required\<close>, the e-mail \<open>type="email"\<close>, password and confirmation
  \<open>minLength="6"\<close>.  The form has no input named \<open>role\<close>.
\<close>

definition signup_form_valid :: "signup_page \<Rightarrow> bool" where
  "signup_form_valid p \<longleftrightarrow>
     (let f = sp_form p in
      input_valid True 0 False (form_name f) \<and> input_valid True 0 False (form_fatherName f) \<and>
      input_valid True 0 False (form_class f) \<and> input_valid True 0 False (form_rollNo f) \<and>
      input_valid True 0 True (form_email f) \<and> input_valid True 6 False (form_password f) \<and>
      input_valid True 6 False (sp_confirm p))"

text \<open>
  The sign-up page's controls: the six form inputs through \<open>handleChange\<close>, the
  confirmation (line 213), the two toggles (lines 187, 221), the submit and Google
  buttons (\<open>disabled={loading}\<close>, lines 255, 275), and the two-second redirect timer.
\<close>

datatype signup_event =
    SEdit form_field string
  | SEditConfirm string
  | SToggleShow
  | SToggleConfirm
  | SSubmit nat string
  | SGoogle nat string "string option" "string option"
  | SRedirect

definition signup_enabled :: "signup_page \<Rightarrow> signup_event \<Rightarrow> bool" where
  "signup_enabled p e =
     (case e of
        SEdit fld _ \<Rightarrow> fld \<noteq> FRole
      | SSubmit _ _ \<Rightarrow> \<not> sp_loading p \<and> signup_form_valid p
      | SGoogle _ _ _ _ \<Rightarrow> \<not> sp_loading p
      | SRedirect \<Rightarrow> sp_redirect_armed p
      | _ \<Rightarrow> True)"

fun signup_step :: "auth_state \<times> signup_page \<Rightarrow> signup_event \<Rightarrow> (auth_state \<times> signup_page) \<times> string option" where
  "signup_step (a, p) (SEdit fld v) = ((a, p\<lparr>sp_form := handle_change fld v (sp_form p)\<rparr>), None)"
| "signup_step (a, p) (SEditConfirm v) = ((a, p\<lparr>sp_confirm := v\<rparr>), None)"
| "signup_step (a, p) SToggleShow = ((a, p\<lparr>sp_showPassword := \<not> sp_showPassword p\<rparr>), None)"
| "signup_step (a, p) SToggleConfirm = ((a, p\<lparr>sp_showConfirm := \<not> sp_showConfirm p\<rparr>), None)"
| "signup_step (a, p) (SSubmit now ts) = (signup_submit now ts (a, p), None)"
| "signup_step (a, p) (SGoogle now ts ge gn) = signup_google now ts ge gn (a, p)"
| "signup_step (a, p) SRedirect = ((a, p\<lparr>sp_redirect_armed := False\<rparr>), Some ''/login'')"

text \<open>
  The sign-up pages a visit can show: it mounts with the empty form on provider state
  \<open>a0\<close>; it stays while no step has navigated away and the session is not
  authenticated (the redirect effect of lines 25--29 leaves otherwise).
\<close>

inductive signup_reach :: "auth_state \<Rightarrow> auth_state \<times> signup_page \<Rightarrow> bool" for a0 where
  mount: "\<not> is_authenticated a0 \<Longrightarrow> signup_reach a0 (a0, init_signup_page)"
| step: "signup_reach a0 (a, p) \<Longrightarrow> signup_enabled p e \<Longrightarrow> signup_step (a, p) e = (ap', None) \<Longrightarrow>
         \<not> is_authenticated (fst ap') \<Longrightarrow> signup_reach a0 ap'"

section \<open>Properties of the pages\<close>

lemma signup_submit_match:
  "form_password (sp_form p) = sp_confirm p \<Longrightarrow>
   fst (signup_submit now ts (a, p)) = snd (signup now ts (sp_form p) a)"
  by (simp add: signup_submit_def Let_def split: prod.split)

lemma signup_submit_mismatch:
  "form_password (sp_form p) \<noteq> sp_confirm p \<Longrightarrow> fst (signup_submit now ts (a, p)) = a"
  by (simp add: signup_submit_def)

lemma login_submit_login:
  "fst (fst (login_submit now (a, p))) = snd (login now (lp_email p) (lp_password p) a) \<and>
   (snd (login_submit now (a, p)) = Some ''/dashboard'') = success (fst (login now (lp_email p) (lp_password p) a)) \<and>
   (snd (login_submit now (a, p)) \<noteq> None) = success (fst (login now (lp_email p) (lp_password p) a))"
  by (simp add: login_submit_def Let_def split: prod.split)

text \<open>
  C39: the login page leaves for the dashboard exactly when some stored account has the
  typed e-mail and password, and it leaves only with an authenticated session.
\<close>

theorem login_page_navigation:
  assumes us: "read_users (storage a) = Some us" and out: "user a = None"
  shows "(snd (login_submit now (a, p)) = Some ''/dashboard'') =
           (\<exists>u\<in>set us. email u = lp_email p \<and> password u = lp_password p) \<and>
         is_authenticated (fst (fst (login_submit now (a, p)))) = (snd (login_submit now (a, p)) \<noteq> None)"
proof (cases "find (\<lambda>u. email u = lp_email p \<and> password u = lp_password p) us")
  case None
  then have l: "login now (lp_email p) (lp_password p) a = (failure ''Invalid email or password'', a)"
    by (rule login_no_match [OF us])
  from None have "\<not> (\<exists>u\<in>set us. email u = lp_email p \<and> password u = lp_password p)"
    by (simp add: find_None_iff)
  with l out login_submit_login [of now a p] show ?thesis
    by (simp add: response_defs is_authenticated_def)
next
  case (Some u)
  then have l: "login now (lp_email p) (lp_password p) a =
     (success_plain, a\<lparr>storage := save_session (mint_token (acc_id u) now) (apply_admin_role u) (storage a),
        user := Some (apply_admin_role u)\<rparr>)"
    by (rule login_match [OF us])
  from find_login_Some [OF Some] have "\<exists>u\<in>set us. email u = lp_email p \<and> password u = lp_password p"
    by blast
  with l login_submit_login [of now a p] show ?thesis
    by (simp add: response_defs is_authenticated_def)
qed

theorem login_page_navigation_witness:
  "snd (login_submit 5 (init_auth (write_users [default_admin ''t''] empty_storage),
        init_login_page\<lparr>lp_email := ADMIN_EMAIL, lp_password := ''admin123''\<rparr>)) = Some ''/dashboard'' \<and>
   is_authenticated (fst (fst (login_submit 5 (init_auth (write_users [default_admin ''t''] empty_storage),
        init_login_page\<lparr>lp_email := ADMIN_EMAIL, lp_password := ''admin123''\<rparr>))))"
  using login_page_navigation
    [of "init_auth (write_users [default_admin ''t''] empty_storage)" "[default_admin ''t'']" 5
        "init_login_page\<lparr>lp_email := ADMIN_EMAIL, lp_password := ''admin123''\<rparr>"]
  by (simp add: init_auth_def storage_simps account_simps)

text \<open>
  One submission of the sign-up form: the typed account is added exactly when the
  confirmation matches the password and the e-mail is not taken; the store is otherwise
  unchanged and the session stays as it was (sign-up never signs in).
\<close>

lemma signup_page_submit:
  assumes us: "read_users (storage a) = Some us"
  shows "read_users (storage (fst (signup_submit now ts (a, p)))) =
           (if form_password (sp_form p) = sp_confirm p \<and> form_email (sp_form p) \<notin> email ` set us
            then Some (us @ [signup_account now ts (sp_form p)]) else Some us) \<and>
         user (fst (signup_submit now ts (a, p))) = user a"
proof (cases "form_password (sp_form p) = sp_confirm p")
  case True
  then show ?thesis
    using us by (cases "form_email (sp_form p) \<in> email ` set us")
      (simp_all add: signup_submit_match signup_taken signup_fresh storage_simps)
next
  case False
  with us show ?thesis by (simp add: signup_submit_mismatch)
qed

section \<open>What a visit of the sign-up page adds to the store\<close>

text \<open>The store after a step is the store before it with accounts appended that satisfy \<open>P\<close>.\<close>

definition appends_with :: "(account \<Rightarrow> bool) \<Rightarrow> auth_state \<Rightarrow> auth_state \<Rightarrow> bool" where
  "appends_with P a a' \<longleftrightarrow>
     (\<forall>us. read_users (storage a) = Some us \<longrightarrow>
        (\<exists>new. read_users (storage a') = Some (us @ new) \<and> list_all P new))"

lemma appends_with_refl [simp]: "appends_with P a a"
  unfolding appends_with_def by (auto intro: exI [of _ "[]"])

lemma appends_with_trans:
  assumes "appends_with P a b" and "appends_with P b c"
  shows "appends_with P a c"
  unfolding appends_with_def
proof (intro allI impI)
  fix us assume "read_users (storage a) = Some us"
  with assms(1) obtain n1 where b: "read_users (storage b) = Some (us @ n1)" and p1: "list_all P n1"
    unfolding appends_with_def by blast
  with assms(2) obtain n2 where "read_users (storage c) = Some (us @ n1 @ n2)" and "list_all P n2"
    unfolding appends_with_def by fastforce
  with p1 show "\<exists>new. read_users (storage c) = Some (us @ new) \<and> list_all P new"
    by (intro exI [of _ "n1 @ n2"]) simp
qed

definition strong_password :: "account \<Rightarrow> bool" where
  "strong_password u \<longleftrightarrow> 6 \<le> length (password u)"

lemma google_prompt_storage:
  "appends_with strong_password a (snd (google_prompt now ts ge gn a))"
proof (cases "\<exists>e. ge = Some e \<and> e \<noteq> []")
  case True
  then obtain e where ge: "ge = Some e" and ne: "e \<noteq> []" by blast
  define g where "g = \<lparr>g_email = e, g_name = (case gn of Some n \<Rightarrow> if n = [] then ''Google User'' else n | None \<Rightarrow> ''Google User'')\<rparr>"
  have eq: "snd (google_prompt now ts ge gn a) = snd (login_with_google now ts g a)"
    by (simp add: google_prompt_def ge ne g_def Let_def split: prod.split)
  show ?thesis
    unfolding eq appends_with_def
  proof (intro allI impI)
    fix us assume us: "read_users (storage a) = Some us"
    show "\<exists>new. read_users (storage (snd (login_with_google now ts g a))) = Some (us @ new) \<and>
                list_all strong_password new"
    proof (cases "g_email g \<in> email ` set us")
      case True
      with us show ?thesis by (intro exI [of _ "[]"]) (simp add: read_login_with_google)
    next
      case False
      with us show ?thesis
        by (intro exI [of _ "[google_account now ts (length us) g]"])
           (simp add: read_login_with_google strong_password_def account_simps)
    qed
  qed
next
  case False
  then have "snd (google_prompt now ts ge gn a) = a"
    by (cases ge) (auto simp: google_prompt_def)
  then show ?thesis by simp
qed

lemma signup_google_storage:
  "fst (fst (signup_google now ts ge gn (a, p))) = snd (google_prompt now ts ge gn a)"
  by (simp add: signup_google_def Let_def split: prod.split option.split)

lemma signup_submit_storage:
  assumes "signup_form_valid p"
  shows "appends_with strong_password a (fst (signup_submit now ts (a, p)))"
proof (cases "form_password (sp_form p) = sp_confirm p")
  case True
  have pw: "strong_password (signup_account now ts (sp_form p))"
    using assms input_valid_min [of 6 False "form_password (sp_form p)"]
    by (simp add: signup_form_valid_def strong_password_def account_simps Let_def)
  show ?thesis
    unfolding appends_with_def signup_submit_match [OF True]
  proof (intro allI impI)
    fix us assume us: "read_users (storage a) = Some us"
    show "\<exists>new. read_users (storage (snd (signup now ts (sp_form p) a))) = Some (us @ new) \<and>
                list_all strong_password new"
    proof (cases "form_email (sp_form p) \<in> email ` set us")
      case True
      with us show ?thesis by (intro exI [of _ "[]"]) (simp add: signup_taken)
    next
      case False
      with us pw show ?thesis
        by (intro exI [of _ "[signup_account now ts (sp_form p)]"]) (simp add: signup_fresh storage_simps)
    qed
  qed
next
  case False
  then show ?thesis by (simp add: signup_submit_mismatch)
qed

lemma signup_step_storage:
  "signup_enabled p e \<Longrightarrow> appends_with strong_password a (fst (fst (signup_step (a, p) e)))"
  by (cases e) (simp_all add: signup_enabled_def signup_submit_storage signup_google_storage google_prompt_storage)

lemma signup_reach_storage:
  "signup_reach a0 ap \<Longrightarrow> appends_with strong_password a0 (fst ap)"
proof (induction rule: signup_reach.induct)
  case mount
  then show ?case by simp
next
  case (step a p e ap')
  from step.hyps(3) have "fst ap' = fst (fst (signup_step (a, p) e))" by simp
  with step.IH signup_step_storage [OF step.hyps(2), of a] show ?case
    by (auto intro: appends_with_trans)
qed

text \<open>
  C40: during a visit of the sign-up page, whatever the visitor types and clicks, the
  store only grows, and every account the page adds (through the form or the Google
  button, up to the step that leaves the page) has a password of at least six
  characters.
\<close>

theorem signup_page_strong_passwords:
  assumes "signup_reach a0 (a, p)" and "signup_enabled p e" and "read_users (storage a0) = Some us0"
  shows "\<exists>new. read_users (storage (fst (fst (signup_step (a, p) e)))) = Some (us0 @ new) \<and>
           list_all (\<lambda>u. 6 \<le> length (password u)) new"
proof -
  have "appends_with strong_password a0 (fst (fst (signup_step (a, p) e)))"
    using signup_reach_storage [OF assms(1)] signup_step_storage [OF assms(2), of a]
    by (auto intro: appends_with_trans)
  with assms(3) show ?thesis
    by (simp add: appends_with_def strong_password_def [abs_def])
qed

theorem signup_page_strong_passwords_witness:
  "\<exists>new. read_users (storage (fst (fst (signup_step (init_auth (write_users [] empty_storage), init_signup_page)
            (SGoogle 7 ''t'' (Some ''g@x.com'') None))))) = Some ([] @ new) \<and>
     list_all (\<lambda>u. 6 \<le> length (password u)) new"
  by (rule signup_page_strong_passwords [OF signup_reach.mount])
     (simp_all add: init_auth_def is_authenticated_def signup_enabled_def init_signup_page_def storage_simps)

lemma google_prompt_new:
  assumes "read_users (storage a) = Some us" and "e \<noteq> []" and "e \<notin> email ` set us"
  shows "\<exists>g. g_email g = e \<and>
           google_prompt now ts (Some e) gn a = (Some success_plain, snd (login_with_google now ts g a)) \<and>
           read_users (storage (snd (login_with_google now ts g a))) = Some (us @ [google_account now ts (length us) g])"
proof -
  define g where "g = \<lparr>g_email = e, g_name = (case gn of Some n \<Rightarrow> if n = [] then ''Google User'' else n | None \<Rightarrow> ''Google User'')\<rparr>"
  have lw: "login_with_google now ts g a = (success_plain, snd (login_with_google now ts g a))"
    using assms by (simp add: login_with_google_new g_def Let_def)
  have "google_prompt now ts (Some e) gn a = (case login_with_google now ts g a of (r, a') \<Rightarrow> (Some r, a'))"
    using assms(2) by (simp add: google_prompt_def g_def Let_def)
  also have "\<dots> = (Some success_plain, snd (login_with_google now ts g a))"
    by (subst lw) simp
  finally have "google_prompt now ts (Some e) gn a = (Some success_plain, snd (login_with_google now ts g a))" .
  moreover have "read_users (storage (snd (login_with_google now ts g a))) = Some (us @ [google_account now ts (length us) g])"
    using assms by (simp add: read_login_with_google g_def)
  ultimately show ?thesis by (intro exI [of _ g]) (simp add: g_def)
qed

text \<open>
  C27: the sign-up page's Google button accepts any non-empty answer to the e-mail
  prompt: for every string not yet registered, valid e-mail address or not, it appends
  one Google account with that string as its e-mail and enters the dashboard.  The form's
  \<open>type="email"\<close> check does not apply to the prompt.
\<close>

theorem google_signup_any_email:
  assumes "read_users (storage a) = Some us" and "e \<noteq> []" and "e \<notin> email ` set us"
  shows "\<exists>u. read_users (storage (fst (fst (signup_step (a, p) (SGoogle now ts (Some e) gn))))) = Some (us @ [u]) \<and>
           email u = e \<and> isGoogleUser u \<and>
           snd (signup_step (a, p) (SGoogle now ts (Some e) gn)) = Some ''/dashboard''"
proof -
  from google_prompt_new [OF assms, of now ts gn] obtain g where ge: "g_email g = e"
    and gp: "google_prompt now ts (Some e) gn a = (Some success_plain, snd (login_with_google now ts g a))"
    and rd: "read_users (storage (snd (login_with_google now ts g a))) = Some (us @ [google_account now ts (length us) g])"
    by blast
  have "snd (signup_step (a, p) (SGoogle now ts (Some e) gn)) = Some ''/dashboard''"
    using gp by (simp add: signup_google_def response_defs)
  with gp rd ge show ?thesis
    by (intro exI [of _ "google_account now ts (length us) g"])
       (simp add: signup_google_storage account_simps)
qed

theorem google_signup_any_email_witness:
  "(\<exists>u. read_users (storage (fst (fst (signup_step (init_auth (write_users [] empty_storage), init_signup_page)
         (SGoogle 7 ''t'' (Some ''x'') None))))) = Some ([] @ [u]) \<and>
      email u = ''x'' \<and> isGoogleUser u \<and>
      snd (signup_step (init_auth (write_users [] empty_storage), init_signup_page) (SGoogle 7 ''t'' (Some ''x'') None)) =
        Some ''/dashboard'') \<and>
   \<not> valid_email ''x''"
proof
  show "\<not> valid_email ''x''" by (simp add: valid_email_def)
qed (rule google_signup_any_email, simp_all add: init_auth_def storage_simps)

text \<open>
  C30: a sign-up whose confirmation differs from the password never reaches the
  provider: the store and the session stay as they were, the page shows
  \<open>'Passwords do not match!'\<close> with no success message, and it stays.
\<close>

theorem signup_mismatch_rejected:
  assumes "form_password (sp_form p) \<noteq> sp_confirm p"
  shows "signup_step (a, p) (SSubmit now ts) =
           ((a, p\<lparr>sp_error := ''Passwords do not match!'', sp_success := []\<rparr>), None)"
  using assms by (simp add: signup_submit_def)

theorem signup_mismatch_rejected_witness:
  "signup_step (init_auth empty_storage, init_signup_page\<lparr>sp_confirm := ''abcdef''\<rparr>) (SSubmit 1 ''t'') =
     ((init_auth empty_storage,
       init_signup_page\<lparr>sp_confirm := ''abcdef'', sp_error := ''Passwords do not match!'', sp_success := []\<rparr>), None)"
  by (rule signup_mismatch_rejected) (simp add: init_signup_page_def)

end
