(* ===== verification/Base64_Spec.thy ===== *)
theory Base64_Spec
  imports Auth
begin

text \<open>
  The model of \<open>btoa\<close> in \<open>Token\<close> computes each output character from the
  bytes with \<open>div\<close> and \<open>mod\<close>, three bytes at a time.  The standard (RFC 4648,
  section 4, which the browser's \<open>btoa\<close> follows) defines the encoding on bits: write
  every byte as eight bits, most significant first, cut the bit string into groups of six,
  fill the last group with zero bits, map each group to the character at its value in the
  alphabet table, and pad with \<open>=\<close> to a multiple of four characters.  This theory
  states that definition and proves the two equal, alphabet included, and then pins the
  session token a successful \<open>login\<close> stores: the standard encoding of
  \<open>id:now\<close> of the account signed in.
\<close>

section \<open>Bits\<close>

fun bits_of :: "nat \<Rightarrow> nat \<Rightarrow> bool list" where
  "bits_of 0 n = []"
| "bits_of (Suc k) n = odd (n div 2 ^ k) # bits_of k n"

definition bits_val :: "bool list \<Rightarrow> nat" where
  "bits_val bs = foldl (\<lambda>v b. 2 * v + of_bool b) 0 bs"

fun chunks6 :: "bool list \<Rightarrow> bool list list" where
  "chunks6 (a # b # c # d # e # f # rest) = [a, b, c, d, e, f] # chunks6 rest"
| "chunks6 [] = []"
| "chunks6 xs = [xs]"

definition pad6 :: "bool list \<Rightarrow> bool list" where
  "pad6 xs = xs @ replicate (6 - length xs) False"

text \<open>The alphabet of RFC 4648, table 1: the character for the six-bit value \<open>v\<close> is its \<open>v\<close>-th.\<close>

definition b64_alphabet :: string where
  "b64_alphabet = ''ABCDEFGHIJKLMNOPQRSTUVWXYZabcdefghijklmnopqrstuvwxyz0123456789+/''"

definition sextet_char :: "bool list \<Rightarrow> char" where
  "sextet_char s = b64_alphabet ! bits_val (pad6 s)"

definition b64_reference :: "nat list \<Rightarrow> string" where
  "b64_reference bs =
     map sextet_char (chunks6 (concat (map (bits_of 8) bs))) @
     replicate ((3 - length bs mod 3) mod 3) (CHR ''='')"

lemma foldl_bits_acc: "foldl (\<lambda>v b. 2 * v + of_bool b) (v::nat) bs = v * 2 ^ length bs + bits_val bs"
  unfolding bits_val_def
proof (induction bs arbitrary: v)
  case Nil
  then show ?case by simp
next
  case (Cons x xs)
  have "foldl (\<lambda>v b. 2 * v + of_bool b) v (x # xs) = (2 * v + of_bool x) * 2 ^ length xs +
          foldl (\<lambda>v b. 2 * v + of_bool b) (0::nat) xs"
    using Cons.IH [of "2 * v + of_bool x"] by simp
  moreover have "foldl (\<lambda>v b. 2 * v + of_bool b) (0::nat) (x # xs) = of_bool x * 2 ^ length xs +
          foldl (\<lambda>v b. 2 * v + of_bool b) 0 xs"
    using Cons.IH [of "of_bool x"] by simp
  ultimately show ?case by (simp add: distrib_right)
qed

lemma bits_val_append: "bits_val (xs @ ys) = bits_val xs * 2 ^ length ys + bits_val ys"
proof -
  have "bits_val (xs @ ys) = foldl (\<lambda>v b. 2 * v + of_bool b) (bits_val xs) ys"
    by (simp add: bits_val_def)
  also have "\<dots> = bits_val xs * 2 ^ length ys + bits_val ys"
    by (rule foldl_bits_acc)
  finally show ?thesis .
qed

lemma bits_val_Cons: "bits_val (x # xs) = of_bool x * 2 ^ length xs + bits_val xs"
  using bits_val_append [of "[x]" xs] by (simp add: bits_val_def)

lemma bits_val_zeros [simp]: "bits_val (replicate k False) = 0"
  by (induction k) (simp_all add: bits_val_def)

lemma length_bits_of [simp]: "length (bits_of k n) = k"
  by (induction k) simp_all

lemma bits_val_bits_of [simp]: "bits_val (bits_of k n) = n mod 2 ^ k"
proof (induction k)
  case 0
  then show ?case by (simp add: bits_val_def)
next
  case (Suc k)
  have "n mod 2 ^ Suc k = 2 ^ k * (n div 2 ^ k mod 2) + n mod 2 ^ k"
    by (metis mod_mult2_eq mult.commute power_Suc2)
  with Suc show ?case by (simp add: bits_val_Cons odd_iff_mod_2_eq_one)
qed

lemma take_bits_of: "j \<le> k \<Longrightarrow> take j (bits_of k n) = bits_of j (n div 2 ^ (k - j))"
proof (induction k arbitrary: j)
  case 0
  then show ?case by simp
next
  case (Suc k)
  show ?case
  proof (cases j)
    case 0
    then show ?thesis by simp
  next
    case (Suc j')
    with Suc.prems have "j' \<le> k" by simp
    moreover have "n div 2 ^ (k - j') div 2 ^ j' = n div 2 ^ k"
      using \<open>j' \<le> k\<close> by (metis div_mult2_eq le_add_diff_inverse2 power_add)
    ultimately show ?thesis using Suc.IH [of j'] \<open>j = Suc j'\<close> by simp
  qed
qed

lemma drop_bits_of: "drop j (bits_of k n) = bits_of (k - j) n"
proof (induction k arbitrary: j)
  case 0
  then show ?case by simp
next
  case (Suc k)
  then show ?case by (cases j) simp_all
qed

section \<open>Chunking\<close>

lemma chunks6_six: "length xs = 6 \<Longrightarrow> chunks6 (xs @ ys) = xs # chunks6 ys"
  by (auto simp: numeral_eq_Suc length_Suc_conv)

lemma chunks6_short: "xs \<noteq> [] \<Longrightarrow> length xs < 6 \<Longrightarrow> chunks6 xs = [xs]"
  by (auto simp: numeral_eq_Suc less_Suc_eq length_Suc_conv)

lemma pad6_six: "length xs = 6 \<Longrightarrow> pad6 xs = xs"
  by (simp add: pad6_def)

lemma take_drop_app: "take n xs @ drop n xs @ ys = xs @ ys"
  by (simp add: append_assoc [symmetric] del: append_assoc)

section \<open>The alphabet\<close>

lemma b64_alphabet_map: "map b64_char [0..<64] = b64_alphabet"
proof -
  have "map of_char (map b64_char [0..<64]) = (map of_char b64_alphabet :: nat list)"
    by (simp add: of_char_b64_char b64_alphabet_def upt_rec)
  moreover have "inj (of_char :: char \<Rightarrow> nat)"
    by (rule injI) (metis char_of_char)
  ultimately show ?thesis by (rule map_injective)
qed

lemma b64_char_alphabet: "n < 64 \<Longrightarrow> b64_char n = b64_alphabet ! n"
  by (simp add: b64_alphabet_map [symmetric])

lemma bits_val_less: "bits_val xs < 2 ^ length xs"
proof (induction xs)
  case Nil
  then show ?case by (simp add: bits_val_def)
next
  case (Cons x xs)
  then show ?case by (cases x) (simp_all add: bits_val_Cons)
qed

lemma chunks6_length: "s \<in> set (chunks6 xs) \<Longrightarrow> length s \<le> 6"
  by (induction xs rule: chunks6.induct) auto

lemma sextet_char_b64: "length s \<le> 6 \<Longrightarrow> sextet_char s = b64_char (bits_val (pad6 s))"
proof -
  assume "length s \<le> 6"
  then have "length (pad6 s) = 6" by (simp add: pad6_def)
  with bits_val_less [of "pad6 s"] have "bits_val (pad6 s) < 64" by simp
  then show ?thesis by (simp add: sextet_char_def b64_char_alphabet)
qed

lemma b64_reference_chars:
  "b64_reference bs =
     map (\<lambda>s. b64_char (bits_val (pad6 s))) (chunks6 (concat (map (bits_of 8) bs))) @
     replicate ((3 - length bs mod 3) mod 3) (CHR ''='')"
  unfolding b64_reference_def
  by (simp add: sextet_char_b64 chunks6_length)

section \<open>The encoder is the bit-level definition\<close>

lemma sextets_of_group:
  fixes a b c :: nat
  assumes "a < 256" "b < 256" "c < 256"
  shows "bits_val (take 6 (bits_of 8 a)) = a div 4"
    "bits_val (drop 6 (bits_of 8 a) @ take 4 (bits_of 8 b)) = a mod 4 * 16 + b div 16"
    "bits_val (drop 4 (bits_of 8 b) @ take 2 (bits_of 8 c)) = b mod 16 * 4 + c div 64"
    "bits_val (drop 2 (bits_of 8 c)) = c mod 64"
    "bits_val (pad6 (drop 6 (bits_of 8 a))) = a mod 4 * 16"
    "bits_val (pad6 (drop 4 (bits_of 8 b))) = b mod 16 * 4"
proof -
  have "a div 4 < 64" "b div 16 < 16" "c div 64 < 4" using assms by linarith+
  then show "bits_val (take 6 (bits_of 8 a)) = a div 4"
    "bits_val (drop 6 (bits_of 8 a) @ take 4 (bits_of 8 b)) = a mod 4 * 16 + b div 16"
    "bits_val (drop 4 (bits_of 8 b) @ take 2 (bits_of 8 c)) = b mod 16 * 4 + c div 64"
    "bits_val (drop 2 (bits_of 8 c)) = c mod 64"
    by (simp_all add: take_bits_of drop_bits_of bits_val_append)
  show "bits_val (pad6 (drop 6 (bits_of 8 a))) = a mod 4 * 16"
    "bits_val (pad6 (drop 4 (bits_of 8 b))) = b mod 16 * 4"
    by (simp_all add: pad6_def drop_bits_of bits_val_append)
qed

lemma b64_reference_group:
  assumes "a < 256" "b < 256" "c < 256"
  shows "b64_reference (a # b # c # rest) =
     [b64_char (a div 4), b64_char ((a mod 4) * 16 + b div 16),
      b64_char ((b mod 16) * 4 + c div 64), b64_char (c mod 64)] @ b64_reference rest"
proof -
  define S1 where "S1 = take 6 (bits_of 8 a)"
  define S2 where "S2 = drop 6 (bits_of 8 a) @ take 4 (bits_of 8 b)"
  define S3 where "S3 = drop 4 (bits_of 8 b) @ take 2 (bits_of 8 c)"
  define S4 where "S4 = drop 2 (bits_of 8 c)"
  define R where "R = concat (map (bits_of 8) rest)"
  have len: "length S1 = 6" "length S2 = 6" "length S3 = 6" "length S4 = 6"
    by (simp_all add: S1_def S2_def S3_def S4_def)
  have "concat (map (bits_of 8) (a # b # c # rest)) = S1 @ S2 @ S3 @ S4 @ R"
    by (simp add: S1_def S2_def S3_def S4_def R_def take_drop_app)
  then have "chunks6 (concat (map (bits_of 8) (a # b # c # rest))) = S1 # S2 # S3 # S4 # chunks6 R"
    by (simp add: chunks6_six len)
  moreover have "(3 - length (a # b # c # rest) mod 3) mod 3 = (3 - length rest mod 3) mod 3"
    by simp
  ultimately show ?thesis
    using sextets_of_group [OF assms, folded S1_def S2_def S3_def S4_def] len
    by (simp add: b64_reference_chars pad6_six R_def del: length_Cons)
qed

lemma b64_encode_reference: "\<forall>b \<in> set bs. b < 256 \<Longrightarrow> b64_encode bs = b64_reference bs"
proof (induction bs rule: b64_encode.induct)
  case 1
  then show ?case by (simp add: b64_reference_chars)
next
  case (2 a)
  then have a: "a < 256" by simp
  define S1 where "S1 = take 6 (bits_of 8 a)"
  define T where "T = drop 6 (bits_of 8 a)"
  have len: "length S1 = 6" "length T = 2" by (simp_all add: S1_def T_def)
  then have "T \<noteq> []" by auto
  have "bits_of 8 a = S1 @ T" by (simp add: S1_def T_def)
  then have "chunks6 (bits_of 8 a) = [S1, T]"
    using len \<open>T \<noteq> []\<close> by (simp add: chunks6_six chunks6_short)
  with sextets_of_group [OF a a a, folded S1_def T_def] len show ?case
    by (simp add: b64_reference_chars pad6_six numeral_2_eq_2)
next
  case (3 a b)
  then have a: "a < 256" and b: "b < 256" by simp_all
  define S1 where "S1 = take 6 (bits_of 8 a)"
  define S2 where "S2 = drop 6 (bits_of 8 a) @ take 4 (bits_of 8 b)"
  define T where "T = drop 4 (bits_of 8 b)"
  have len: "length S1 = 6" "length S2 = 6" "length T = 4" by (simp_all add: S1_def S2_def T_def)
  then have "T \<noteq> []" by auto
  have "bits_of 8 a @ bits_of 8 b = S1 @ S2 @ T" by (simp add: S1_def S2_def T_def take_drop_app)
  then have "chunks6 (bits_of 8 a @ bits_of 8 b) = [S1, S2, T]"
    using len \<open>T \<noteq> []\<close> by (simp add: chunks6_six chunks6_short)
  with sextets_of_group [OF a b b, folded S1_def S2_def T_def] len show ?case
    by (simp add: b64_reference_chars pad6_six)
next
  case (4 a b c rest)
  then have "a < 256" "b < 256" "c < 256" by simp_all
  with 4 show ?case by (simp add: b64_reference_group)
qed

text \<open>
  The \<open>btoa\<close> that mints the session token is the standard's bit-level Base64
  encoding of the string's 8-bit character codes.
\<close>

lemma btoa_reference: "btoa s = b64_reference (map of_char s)"
  unfolding btoa_def by (rule b64_encode_reference) simp

text \<open>The test vectors of RFC 4648, section 10, for the non-empty inputs up to three bytes.\<close>

lemma btoa_rfc_vectors:
  "btoa ''f'' = ''Zg=='' \<and> btoa ''fo'' = ''Zm8='' \<and> btoa ''foo'' = ''Zm9v'' \<and> btoa ''foob'' = ''Zm9vYg==''"
  by (simp add: btoa_def b64_char_alphabet b64_alphabet_def)

lemma mint_token_reference:
  "mint_token uid now = b64_reference (map of_char (uid @ CHR '':'' # string_of_nat now))"
  by (simp add: mint_token_def btoa_reference)

text \<open>
  C24: a successful \<open>login\<close> stores under \<open>token\<close> the standard's Base64 encoding of
  the text \<open>id:now\<close> of the account it signs in: that account's identifier, a colon, and
  the decimal login instant, in that order.
\<close>

theorem login_token_reference:
  assumes "fst (login now e pw s) = success_plain"
  shows "\<exists>u. user (snd (login now e pw s)) = Some u \<and>
           ls_token (storage (snd (login now e pw s))) =
             Some (b64_reference (map of_char (acc_id u @ CHR '':'' # string_of_nat now)))"
proof (cases "read_users (storage s)")
  case None
  with assms show ?thesis by (simp add: login_read_error response_defs)
next
  case (Some us)
  show ?thesis
  proof (cases "find (\<lambda>u. email u = e \<and> password u = pw) us")
    case None
    with Some assms show ?thesis by (simp add: login_no_match response_defs)
  next
    case (Some u)
    with \<open>read_users (storage s) = Some us\<close> show ?thesis
      by (simp add: login_match storage_simps mint_token_reference)
  qed
qed

theorem login_token_reference_witness:
  "\<exists>u. user (snd (login 5 ADMIN_EMAIL ''admin123'' (init_auth (write_users [default_admin ''t''] empty_storage)))) = Some u \<and>
     ls_token (storage (snd (login 5 ADMIN_EMAIL ''admin123'' (init_auth (write_users [default_admin ''t''] empty_storage))))) =
       Some (b64_reference (map of_char (acc_id u @ CHR '':'' # string_of_nat 5)))"
  by (rule login_token_reference)
     (simp add: login_def init_auth_def storage_simps default_admin_def ADMIN_EMAIL_def Let_def)

end
