(* ===== verification/Spec2Isabelle.thy ===== *)
theory Spec2Isabelle
  imports Dashboard_View Pages Base64_Spec
begin

text \<open>
  \<^bold>\<open>A verification library for the student portal\<close> (\<open>src/src\<close>, a React
  single-page application).

  \<^bold>\<open>The program.\<close>  All persistent state is the browser's \<open>localStorage\<close>: the key
  \<open>users\<close> holds the JSON array of accounts, \<open>token\<close> the session token and \<open>user\<close> a
  JSON snapshot of the signed-in account.  \<open>context/AuthContext.js\<close> (the
  \<open>AuthProvider\<close>) owns these keys and offers \<open>checkAuth\<close> (run on every page load:
  seed the default administrator, restore the stored session), \<open>signup\<close>, \<open>login\<close>,
  \<open>loginWithGoogle\<close>, \<open>changePassword\<close>, \<open>getAllUsers\<close> and \<open>logout\<close>.
  \<open>services/api.js\<close> is a fixed results table behind \<open>fetchStudentResults\<close> and
  \<open>fetchAllResults\<close>.  The pages \<open>Login.js\<close>, \<open>Signup.js\<close> and \<open>Dashboard.js\<close>
  call the provider, and the dashboard also calls the results service.

  \<^bold>\<open>Theories.\<close>
  \<^item> \<open>Prelude\<close>: the \<open>{success, message, data}\<close> result record of every handler, the
    JavaScript \<open>findIndex\<close> (\<open>-1\<close> when absent) and list lemmas on keyed search.
  \<^item> \<open>Token\<close>: \<open>Date.now().toString()\<close> as decimal printing \<open>string_of_nat\<close>,
    \<open>btoa\<close> as Base64 over 8-bit characters, and the session token \<open>mint_token\<close>
    (\<open>btoa(id + ':' + now)\<close>), with decoders written for the round trip.
  \<^item> \<open>Base64_Spec\<close>: the standard's bit-level definition of Base64 (RFC 4648: bytes
    as bits, groups of six, the alphabet table, padding), proved equal to the arithmetic
    \<open>btoa\<close> of \<open>Token\<close>.
  \<^item> \<open>Account\<close>: the account record, the default administrator, the role rule on
    \<open>ADMIN_EMAIL\<close>, and the accounts \<open>signup\<close> and \<open>loginWithGoogle\<close> build.
  \<^item> \<open>Storage\<close>: the three keys.  A key is \<open>Missing\<close>, \<open>Stored\<close> or \<open>Unparsable\<close>;
    \<open>read_users\<close> is \<open>None\<close> exactly where \<open>JSON.parse\<close> throws (an empty string is
    read as missing, as \<open>|| '[]'\<close> does).  Serialisation itself is not modelled: a write
    stores the value, which parses back to itself.
  \<^item> \<open>Auth\<close>: the provider state (\<open>user\<close>, \<open>loading\<close>, the storage) and one
    definition per handler, every branch and early return of the source included; a thrown
    exception caught by the handler is its failure result.  Lemmas give each handler's
    behaviour branch by branch.
  \<^item> \<open>Auth_Invariant\<close>: the invariant \<open>auth_inv\<close> (stored e-mails distinct, stored
    roles agree with the e-mail rule, Google roll numbers follow their index, the session
    user is the stored snapshot) and its preservation by every handler and by a reload.
  \<^item> \<open>Session\<close>: the handlers composed into \<open>auth_step\<close> over a datatype of events and
    the inductive set \<open>reachable\<close> of states from an empty browser; the session
    properties are proved by rule induction over it.
  \<^item> \<open>Results\<close>: the fixture table of \<open>api.js\<close>, both queries, and the refinement of
    \<open>fetchStudentResults\<close> by a map keyed on roll number.
  \<^item> \<open>Dashboard\<close>: the dashboard's state hooks, the effect on the session user, the
    search split at its \<open>await\<close> into call and answer, the administrator's password
    change, and the render guards that decide which events the page offers
    (\<open>dash_enabled\<close>); \<open>dash_step\<close> acts on the pair of provider and page state and
    \<open>dash_reach\<close> collects the pages reachable from a mount.  \<open>settle\<close> is the
    browser's event loop delivering the answers in flight after the queries' 500 ms
    timers, written with \<open>while_option\<close>.
  \<^item> \<open>Dashboard_View\<close>: the content of the dashboard's sections as data (greeting,
    student card, results table with its grade badges, the table of all results, the user
    table with the event of each row's button), and that an administrator's settled page
    shows the whole results table.
  \<^item> \<open>Forms\<close>: the browser's constraint validation of the entry forms
    (\<open>required\<close>, \<open>minLength\<close>, \<open>type="email"\<close> by the HTML standard's rules),
    which decides whether \<open>onSubmit\<close> fires at all.
  \<^item> \<open>Pages\<close>: the login and sign-up pages as event-driven steps (\<open>login_step\<close>,
    \<open>signup_step\<close>): every input, toggle and button, the submit and Google handlers,
    the redirect timer, with the answers of \<open>window.prompt\<close> as inputs and
    \<open>navigate\<close> as output; the inductive \<open>signup_reach\<close> collects a visit's pages.
    Also the \<open>Unauthorized\<close> page's view and the \<open>useAuth\<close> hook.
  \<^item> This theory: scenarios of the spec and findings that span components.

  \<^bold>\<open>What is proved.\<close>  Session safety over all reachable states: e-mails stay unique,
  only a login starts a session and only logout ends one, the session role follows the
  e-mail rule and every role is \<open>student\<close> or \<open>admin\<close>, Google roll numbers follow
  their index, and a corrupt users value is never repaired.  Functional and error
  behaviour of each handler: the forced admin role, the uniform login failure, duplicate
  sign-up rejection, sign-up then login for every fresh form, the seeded administrator's
  credentials, change-then-login, idempotence of the administrator seed and of Google
  login, and the token a login stores (the standard Base64 of \<open>id:now\<close>).  Findings:
  \<open>loginWithGoogle\<close> needs no password for an existing e-mail, Google accounts have a
  guessable password, the stored role of a non-admin e-mail is trusted, ids from
  \<open>Date.now()\<close> collide, and a password change leaves the session snapshot with the old
  password.  On the pages: a student's dashboard never changes the provider state but
  can fetch any student's record, the search refines the results table seen as a map
  (and misses every roll number typed with leading white space), at most one search is
  in flight and every reachable page settles, an administrator's page ends up with every
  record, the dashboard changes only passwords, the login page's outcome, and that a
  sign-up visit only appends accounts whose password has at least six characters, never
  submits a mismatched confirmation, and registers any string the Google prompt returns.

  \<^bold>\<open>Inputs and bounds.\<close>  Clock readings are parameters of the handlers that read the
  clock: \<open>now\<close> (milliseconds, a natural number) and \<open>ts\<close> (the ISO string); each
  handler reads them once, as the source does.  Every loop of the source runs over a
  finite array or string, so every definition is a total function (list recursion, or
  \<open>string_of_nat\<close> recursing on \<open>n div 10\<close> with its termination proved); no fuel
  is needed and every model evaluates by \<open>simp\<close>.  Characters are 8-bit: \<open>btoa\<close> is only defined on those in the source too.

  \<^bold>\<open>Not modelled.\<close>  The length of the 500 ms delays (only the order of the answers
  matters to the pages), storage quota errors, several tabs writing the same store,
  \<open>fetchExternalData\<close> (an HTTP request to a third-party service that no page calls),
  markup and styling beyond the text and classes of the sections' content, routing beyond
  the route a handler navigates to, and the mouse-over
  styling handlers of the Google buttons.  The entry pages' handlers are taken as atomic:
  while one awaits the provider its buttons are disabled and what it read is fixed.
\<close>

section \<open>Scenarios and findings across components\<close>

text \<open>The sign-up form of the spec's scenario (\<open>Signup.js\<close> state after typing).\<close>

definition scenario_form :: signup_form where
  "scenario_form =
     \<lparr>form_name = ''Student One'', form_fatherName = ''Father One'', form_class = ''10th Grade'',
      form_email = ''s1@x.com'', form_password = ''abcdef'', form_rollNo = ''R1'',
      form_role = ''student''\<rparr>"

text \<open>A fresh browser after its first page load: only the seeded administrator exists.\<close>

definition fresh_state :: auth_state where
  "fresh_state = reload ''t0'' (init_auth empty_storage)"

lemma fresh_state_users: "read_users (storage fresh_state) = Some [default_admin ''t0'']"
  by (simp add: fresh_state_def fresh_reload_users)

lemma scenario_after_signup:
  "read_users (storage (snd (signup 10 ''t1'' scenario_form fresh_state))) =
     Some [default_admin ''t0'', signup_account 10 ''t1'' scenario_form]"
proof -
  have "form_email scenario_form \<notin> email ` set [default_admin ''t0'']"
    by (simp add: scenario_form_def account_simps ADMIN_EMAIL_def)
  with fresh_state_users show ?thesis by (simp add: signup_fresh storage_simps)
qed

text \<open>
  The spec's sign-up scenario: on a freshly seeded store, signing up
  \<open>s1@x.com\<close> / \<open>abcdef\<close> answers \<open>'Account created successfully!'\<close>, and logging in
  with those credentials then succeeds with role \<open>'student'\<close>.
\<close>

lemma scenario_signup_login:
  "fst (signup 10 ''t1'' scenario_form fresh_state) = success_msg ''Account created successfully!'' \<and>
   fst (login 11 ''s1@x.com'' ''abcdef'' (snd (signup 10 ''t1'' scenario_form fresh_state))) = success_plain \<and>
   map_option role (user (snd (login 11 ''s1@x.com'' ''abcdef''
                                 (snd (signup 10 ''t1'' scenario_form fresh_state))))) = Some ''student''"
proof -
  have fresh: "form_email scenario_form \<notin> email ` set [default_admin ''t0'']"
    by (simp add: scenario_form_def account_simps ADMIN_EMAIL_def)
  have found: "find (\<lambda>u. email u = ''s1@x.com'' \<and> password u = ''abcdef'')
                 [default_admin ''t0'', signup_account 10 ''t1'' scenario_form] =
               Some (signup_account 10 ''t1'' scenario_form)"
    by (simp add: scenario_form_def account_simps ADMIN_EMAIL_def)
  have "role (signup_account 10 ''t1'' scenario_form) = ''student''"
    by (simp add: scenario_form_def account_simps role_for_email_def ADMIN_EMAIL_def)
  with fresh found fresh_state_users scenario_after_signup show ?thesis
    by (simp add: signup_fresh login_match apply_admin_role_def scenario_form_def account_simps
                  ADMIN_EMAIL_def)
qed

text \<open>
  The spec's administrator scenario: on a freshly seeded store, logging in as
  \<open>ADMIN_EMAIL\<close> / \<open>admin123\<close> succeeds with role \<open>'admin'\<close> and persists the token
  minted from \<open>admin-default\<close>.
\<close>

lemma scenario_admin_login:
  "fst (login 5 ADMIN_EMAIL ''admin123'' fresh_state) = success_plain \<and>
   map_option role (user (snd (login 5 ADMIN_EMAIL ''admin123'' fresh_state))) = Some ''admin'' \<and>
   ls_token (storage (snd (login 5 ADMIN_EMAIL ''admin123'' fresh_state))) =
     Some (mint_token ''admin-default'' 5)"
proof -
  have "find (\<lambda>u. email u = ADMIN_EMAIL \<and> password u = ''admin123'') [default_admin ''t0''] =
          Some (default_admin ''t0'')"
    by (simp add: account_simps)
  with fresh_state_users show ?thesis
    by (simp add: login_match storage_simps apply_admin_role_def account_simps)
qed

text \<open>
  The demo student accounts that \<open>Login.js\<close> advertises (\<open>ali@example.com\<close> /
  \<open>password123\<close>) are never created: on a freshly seeded store the login fails, although
  the results table holds Ali's record under that e-mail.
\<close>

lemma demo_accounts_absent:
  "fst (login 5 ''ali@example.com'' ''password123'' fresh_state) = failure ''Invalid email or password'' \<and>
   map_option res_email (data (fetchStudentResults ''2024-001'')) = Some ''ali@example.com''"
proof -
  have "find (\<lambda>u. email u = ''ali@example.com'' \<and> password u = ''password123'') [default_admin ''t0''] = None"
    by (simp add: account_simps ADMIN_EMAIL_def)
  with fresh_state_users show ?thesis
    by (simp add: login_no_match fetchStudentResults_def resultsDatabase_def success_data_def)
qed

text \<open>
  C32: identifiers are not unique: two sign-ups in the same millisecond store two
  accounts with the same \<open>id\<close>, and logins of both at the same instant mint the same token.
\<close>

theorem signup_id_collision:
  assumes "read_users (storage s) = Some us"
    and "form_email f1 \<notin> email ` set us" and "form_email f2 \<notin> email ` set us"
    and "form_email f1 \<noteq> form_email f2"
  shows "get_all_users (snd (signup now ts f2 (snd (signup now ts f1 s)))) =
           us @ [signup_account now ts f1, signup_account now ts f2] \<and>
         acc_id (signup_account now ts f1) = acc_id (signup_account now ts f2) \<and>
         mint_token (acc_id (signup_account now ts f1)) t = mint_token (acc_id (signup_account now ts f2)) t"
proof -
  have r1: "read_users (storage (snd (signup now ts f1 s))) = Some (us @ [signup_account now ts f1])"
    using assms(1,2) by (simp add: signup_fresh storage_simps)
  have "form_email f2 \<notin> email ` set (us @ [signup_account now ts f1])"
    using assms(3,4) by (simp add: account_simps)
  with r1 have "read_users (storage (snd (signup now ts f2 (snd (signup now ts f1 s))))) =
                  Some (us @ [signup_account now ts f1, signup_account now ts f2])"
    by (simp add: signup_fresh storage_simps)
  then show ?thesis by (simp add: get_all_users_def account_simps)
qed

theorem signup_id_collision_witness:
  "get_all_users (snd (signup 10 ''t1'' (scenario_form\<lparr>form_email := ''s2@x.com''\<rparr>)
                     (snd (signup 10 ''t1'' scenario_form fresh_state)))) =
     [default_admin ''t0''] @ [signup_account 10 ''t1'' scenario_form,
                              signup_account 10 ''t1'' (scenario_form\<lparr>form_email := ''s2@x.com''\<rparr>)] \<and>
   acc_id (signup_account 10 ''t1'' scenario_form) =
     acc_id (signup_account 10 ''t1'' (scenario_form\<lparr>form_email := ''s2@x.com''\<rparr>)) \<and>
   mint_token (acc_id (signup_account 10 ''t1'' scenario_form)) 99 =
     mint_token (acc_id (signup_account 10 ''t1'' (scenario_form\<lparr>form_email := ''s2@x.com''\<rparr>))) 99"
  by (rule signup_id_collision [OF fresh_state_users])
     (simp_all add: scenario_form_def account_simps ADMIN_EMAIL_def)

text \<open>
  C28: the spec's sign-up-then-login scenario, for every form and every readable store
  without the form's e-mail: the sign-up succeeds, and a login with the typed e-mail and
  password then succeeds with a session for that e-mail whose role is the one the e-mail
  determines (not the form's).
\<close>

theorem signup_then_login:
  assumes us: "read_users (storage s) = Some us" and fresh: "form_email f \<notin> email ` set us"
  shows "fst (signup now ts f s) = success_msg ''Account created successfully!'' \<and>
         fst (login now' (form_email f) (form_password f) (snd (signup now ts f s))) = success_plain \<and>
         map_option email (user (snd (login now' (form_email f) (form_password f) (snd (signup now ts f s))))) =
           Some (form_email f) \<and>
         map_option role (user (snd (login now' (form_email f) (form_password f) (snd (signup now ts f s))))) =
           Some (role_for_email (form_email f))"
proof -
  let ?acc = "signup_account now ts f"
  have r: "read_users (storage (snd (signup now ts f s))) = Some (us @ [?acc])"
    using us fresh by (simp add: signup_fresh storage_simps)
  have "find (\<lambda>u. email u = form_email f \<and> password u = form_password f) us = None"
    using fresh by (force simp: find_None_iff)
  then have "find (\<lambda>u. email u = form_email f \<and> password u = form_password f) (us @ [?acc]) = Some ?acc"
    by (simp add: js_simps account_simps)
  with r have "login now' (form_email f) (form_password f) (snd (signup now ts f s)) =
     (success_plain, (snd (signup now ts f s))\<lparr>storage := save_session (mint_token (acc_id ?acc) now')
        (apply_admin_role ?acc) (storage (snd (signup now ts f s))), user := Some (apply_admin_role ?acc)\<rparr>)"
    by (rule login_match)
  moreover have "apply_admin_role ?acc = ?acc"
    by (rule apply_admin_role_consistent) (simp add: account_simps)
  ultimately show ?thesis using us fresh by (simp add: signup_fresh account_simps)
qed

theorem signup_then_login_witness:
  "fst (signup 10 ''t1'' scenario_form fresh_state) = success_msg ''Account created successfully!'' \<and>
   fst (login 11 (form_email scenario_form) (form_password scenario_form) (snd (signup 10 ''t1'' scenario_form fresh_state))) =
     success_plain \<and>
   map_option email (user (snd (login 11 (form_email scenario_form) (form_password scenario_form)
     (snd (signup 10 ''t1'' scenario_form fresh_state))))) = Some (form_email scenario_form) \<and>
   map_option role (user (snd (login 11 (form_email scenario_form) (form_password scenario_form)
     (snd (signup 10 ''t1'' scenario_form fresh_state))))) = Some (role_for_email (form_email scenario_form))"
  by (rule signup_then_login [OF fresh_state_users]) (simp add: scenario_form_def account_simps ADMIN_EMAIL_def)



text \<open>
  C31: \<open>changePassword\<close> rewrites the stored account but not the session snapshot: when
  the signed-in user's own password is changed, the store holds the new password, yet a
  page reload restores the session with the account as it was, old password included.
\<close>

theorem own_password_change_stale_session:
  assumes reach: "reachable s" and u: "user s = Some u"
    and stored: "email u \<in> email ` set (get_all_users s)"
  shows "user (reload ts (snd (change_password (email u) pw s))) = Some u \<and>
         (\<exists>v \<in> set (get_all_users (reload ts (snd (change_password (email u) pw s)))).
            email v = email u \<and> password v = pw)"
proof -
  from reach obtain us where rd: "read_users (storage s) = Some us" and wf: "wf_users us"
    and g: "get_all_users s = us" by (rule reachable_users)
  from reach have inv: "auth_inv s" by (rule reachable_inv)
  from stored g obtain i where i: "i < length us" and ei: "email (us ! i) = email u"
    by (auto simp: in_set_conv_nth)
  from wf have d: "distinct (map email us)" by (rule wf_users_distinct)
  from d i ei have "js_findIndex (\<lambda>x. email x = email u) us = int i"
    by (rule js_findIndex_email_distinct)
  with rd have cp: "change_password (email u) pw s =
     (success_msg ''Password changed successfully!'',
      s\<lparr>storage := write_users (us[i := (us ! i)\<lparr>password := pw\<rparr>]) (storage s)\<rparr>)"
    by (rule change_password_at)
  let ?us' = "us[i := (us ! i)\<lparr>password := pw\<rparr>]"
  have "read_users (storage (reload ts (snd (change_password (email u) pw s)))) =
          Some (if ADMIN_EMAIL \<in> email ` set ?us' then ?us' else ?us' @ [default_admin ts])"
    by (simp add: cp reload_def init_auth_def storage_check_auth read_seed_admin storage_simps)
  moreover have "(?us' ! i) \<in> set ?us'" and "email (?us' ! i) = email u" and "password (?us' ! i) = pw"
    using i ei by (simp_all add: set_update_memI)
  ultimately have "\<exists>v \<in> set (get_all_users (reload ts (snd (change_password (email u) pw s)))).
                     email v = email u \<and> password v = pw"
    by (auto simp: get_all_users_def)
  moreover have "user (reload ts (snd (change_password (email u) pw s))) = Some u"
    using user_reload [OF change_password_inv [OF inv]] u by simp
  ultimately show ?thesis by blast
qed

theorem own_password_change_stale_session_witness:
  "user (reload ''t1'' (snd (change_password ADMIN_EMAIL ''newpass1''
      (auth_step (auth_step (init_auth empty_storage) (Reload ''t0'')) (Login 5 ADMIN_EMAIL ''admin123''))))) =
     Some (default_admin ''t0'') \<and>
   (\<exists>v \<in> set (get_all_users (reload ''t1'' (snd (change_password ADMIN_EMAIL ''newpass1''
      (auth_step (auth_step (init_auth empty_storage) (Reload ''t0'')) (Login 5 ADMIN_EMAIL ''admin123'')))))).
      email v = ADMIN_EMAIL \<and> password v = ''newpass1'')"
proof -
  let ?s = "auth_step (auth_step (init_auth empty_storage) (Reload ''t0'')) (Login 5 ADMIN_EMAIL ''admin123'')"
  have r: "reachable ?s" by (intro reachable.step reachable.init)
  have u: "user ?s = Some (default_admin ''t0'')" by (simp add: fresh_admin_login)
  have "read_users (storage ?s) = Some [default_admin ''t0'']"
    using fresh_reload_users [of "''t0''"]
    by (simp add: login_def storage_simps Let_def split: option.splits)
  then have g: "email (default_admin ''t0'') \<in> email ` set (get_all_users ?s)"
    by (simp add: get_all_users_def)
  from own_password_change_stale_session [OF r u g, of "''t1''" "''newpass1''"] show ?thesis
    by (simp add: account_simps)
qed

end
